theory Spec2Isabelle
  imports Complex_Main
begin

section \<open>Tensors of the numeric library\<close>

text \<open>
  The program (\<^verbatim>\<open>gpt/src/model-easier.ts\<close>) is glue over a tensor library. A tensor is a
  shape together with its entries; rank-2 and rank-3 tensors are the only ones the code
  handles. The entries of a float tensor are idealised as real numbers, extended with
  \<open>-Infinity\<close> where the code writes it (\<^verbatim>\<open>tf.scalar(-Infinity)\<close>); rounding, \<open>NaN\<close> and
  \<open>+Infinity\<close> are outside the model, so the quotient by a temperature is the real quotient
  and is meaningful for a temperature other than zero only.

  An exception of the source is a value of type \<open>error\<close>: the two errors the program
  raises itself, the shape errors the library raises for the tensor operations the
  program calls with explicit shapes (slice, concat, squeeze, topk, matMul, add, where),
  the \<^verbatim>\<open>ValueError\<close> the library raises when a layer is configured with a size that is
  not positive, and the \<^verbatim>\<open>TypeError\<close> of JavaScript for reading an index of
  \<^verbatim>\<open>undefined\<close>.
\<close>

datatype error =
    SequenceSizeError nat nat
  | HeadSizeError
  | TfShapeError
  | TfValueError
  | JsTypeError

definition bind_err :: "error + 'a \<Rightarrow> ('a \<Rightarrow> error + 'b) \<Rightarrow> error + 'b" where
  "bind_err r f = (case r of Inl e \<Rightarrow> Inl e | Inr v \<Rightarrow> f v)"

datatype lv = NegInf | Fin real

record 'a tensor2 =
  shape0 :: nat
  shape1 :: nat
  vals :: "'a list list"

record 'a tensor3 =
  dim0 :: nat
  dim1 :: nat
  dim2 :: nat
  elems :: "'a list list list"

definition wf2 :: "'a tensor2 \<Rightarrow> bool" where
  "wf2 t \<longleftrightarrow> length (vals t) = shape0 t \<and> list_all (\<lambda>r. length r = shape1 t) (vals t)"

definition wf3 :: "'a tensor3 \<Rightarrow> bool" where
  "wf3 t \<longleftrightarrow> length (elems t) = dim0 t
     \<and> list_all (\<lambda>m. length m = dim1 t \<and> list_all (\<lambda>r. length r = dim2 t) m) (elems t)"

definition mk2 :: "nat \<Rightarrow> nat \<Rightarrow> (nat \<Rightarrow> nat \<Rightarrow> 'a) \<Rightarrow> 'a tensor2" where
  "mk2 n0 n1 f = \<lparr>shape0 = n0, shape1 = n1,
     vals = map (\<lambda>i. map (\<lambda>j. f i j) [0..<n1]) [0..<n0]\<rparr>"

definition mk3 :: "nat \<Rightarrow> nat \<Rightarrow> nat \<Rightarrow> (nat \<Rightarrow> nat \<Rightarrow> nat \<Rightarrow> 'a) \<Rightarrow> 'a tensor3" where
  "mk3 n0 n1 n2 f = \<lparr>dim0 = n0, dim1 = n1, dim2 = n2,
     elems = map (\<lambda>b. map (\<lambda>i. map (\<lambda>j. f b i j) [0..<n2]) [0..<n1]) [0..<n0]\<rparr>"

definition at2 :: "'a tensor2 \<Rightarrow> nat \<Rightarrow> nat \<Rightarrow> 'a" where
  "at2 t i j = vals t ! i ! j"

definition at3 :: "'a tensor3 \<Rightarrow> nat \<Rightarrow> nat \<Rightarrow> nat \<Rightarrow> 'a" where
  "at3 t b i j = elems t ! b ! i ! j"

subsection \<open>Operations on rank-2 tensors\<close>

text \<open>
  \<^verbatim>\<open>x.slice([b0, b1], [s0, s1])\<close>: a size of \<open>-1\<close> stands for the rest of the axis, and the
  library refuses a slice that leaves the tensor. A negative begin is taken as refused.
\<close>

definition slice2 :: "'a tensor2 \<Rightarrow> int \<times> int \<Rightarrow> int \<times> int \<Rightarrow> error + 'a tensor2" where
  "slice2 t b s =
     (let z0 = (if fst s = -1 then int (shape0 t) - fst b else fst s);
          z1 = (if snd s = -1 then int (shape1 t) - snd b else snd s)
      in if fst b < 0 \<or> snd b < 0 \<or> z0 < 0 \<or> z1 < 0
            \<or> fst b + z0 > int (shape0 t) \<or> snd b + z1 > int (shape1 t)
         then Inl TfShapeError
         else Inr \<lparr>shape0 = nat z0, shape1 = nat z1,
                   vals = map (\<lambda>r. take (nat z1) (drop (nat (snd b)) r))
                            (take (nat z0) (drop (nat (fst b)) (vals t)))\<rparr>)"

text \<open>\<^verbatim>\<open>tf.zeros([n0, n1], 'int32')\<close>.\<close>

definition zeros :: "nat \<Rightarrow> nat \<Rightarrow> int tensor2" where
  "zeros n0 n1 = \<lparr>shape0 = n0, shape1 = n1, vals = replicate n0 (replicate n1 0)\<rparr>"

text \<open>
  \<^verbatim>\<open>tf.concat([a, b], 1)\<close>: concatenation along the time axis; the library refuses
  operands whose other axis differs.
\<close>

definition concat1 :: "'a tensor2 \<Rightarrow> 'a tensor2 \<Rightarrow> error + 'a tensor2" where
  "concat1 a b =
     (if shape0 a \<noteq> shape0 b then Inl TfShapeError
      else Inr \<lparr>shape0 = shape0 a, shape1 = shape1 a + shape1 b,
                vals = map2 (@) (vals a) (vals b)\<rparr>)"

text \<open>\<^verbatim>\<open>tf.div(x, tf.scalar(t))\<close>, on the idealised reals.\<close>

definition div_scalar :: "real tensor2 \<Rightarrow> real \<Rightarrow> real tensor2" where
  "div_scalar x t = x\<lparr>vals := map (map (\<lambda>v. v / t)) (vals x)\<rparr>"

text \<open>
  \<^verbatim>\<open>x.topk(k)\<close> returns, for every row, its \<open>k\<close> largest entries in descending order;
  the library refuses a negative \<open>k\<close> and a \<open>k\<close> beyond the last axis.
\<close>

definition topk_values :: "real tensor2 \<Rightarrow> int \<Rightarrow> error + real tensor2" where
  "topk_values x k =
     (if k < 0 \<or> k > int (shape1 x) then Inl TfShapeError
      else Inr \<lparr>shape0 = shape0 x, shape1 = nat k,
                vals = map (\<lambda>r. take (nat k) (rev (sort r))) (vals x)\<rparr>)"

text \<open>
  Broadcasting of two rank-2 shapes: an axis of the result is the common size, or the
  other size where one of them is 1; any other pair is refused.
\<close>

definition bcast_dim :: "nat \<Rightarrow> nat \<Rightarrow> nat option" where
  "bcast_dim a b = (if a = b then Some a else if a = 1 then Some b
                    else if b = 1 then Some a else None)"

definition bcast_ix :: "nat \<Rightarrow> nat \<Rightarrow> nat" where
  "bcast_ix n i = (if n = 1 then 0 else i)"

text \<open>\<^verbatim>\<open>a.greaterEqual(b)\<close>, with broadcasting.\<close>

definition greaterEqual :: "real tensor2 \<Rightarrow> real tensor2 \<Rightarrow> error + bool tensor2" where
  "greaterEqual a b =
     (case (bcast_dim (shape0 a) (shape0 b), bcast_dim (shape1 a) (shape1 b)) of
        (Some n0, Some n1) \<Rightarrow>
          Inr (mk2 n0 n1 (\<lambda>i j. at2 a (bcast_ix (shape0 a) i) (bcast_ix (shape1 a) j)
                                 \<ge> at2 b (bcast_ix (shape0 b) i) (bcast_ix (shape1 b) j)))
      | _ \<Rightarrow> Inl TfShapeError)"

text \<open>
  \<^verbatim>\<open>a.where(cond, tf.scalar(-Infinity))\<close>: the entry of \<open>a\<close> where the condition holds,
  \<open>-Infinity\<close> elsewhere.
\<close>

definition where_neginf :: "real tensor2 \<Rightarrow> bool tensor2 \<Rightarrow> error + lv tensor2" where
  "where_neginf a c =
     (case (bcast_dim (shape0 a) (shape0 c), bcast_dim (shape1 a) (shape1 c)) of
        (Some n0, Some n1) \<Rightarrow>
          Inr (mk2 n0 n1 (\<lambda>i j.
                 if at2 c (bcast_ix (shape0 c) i) (bcast_ix (shape1 c) j)
                 then Fin (at2 a (bcast_ix (shape0 a) i) (bcast_ix (shape1 a) j))
                 else NegInf))
      | _ \<Rightarrow> Inl TfShapeError)"

text \<open>
  \<^verbatim>\<open>tf.softmax\<close> along the last axis: an entry \<open>-Infinity\<close> has weight \<open>exp(-Infinity) = 0\<close>.
\<close>

fun weight :: "lv \<Rightarrow> real" where
  "weight NegInf = 0"
| "weight (Fin x) = exp x"

definition softmax_row :: "lv list \<Rightarrow> real list" where
  "softmax_row r = map (\<lambda>v. weight v / sum_list (map weight r)) r"

definition softmax2 :: "lv tensor2 \<Rightarrow> real tensor2" where
  "softmax2 x = \<lparr>shape0 = shape0 x, shape1 = shape1 x, vals = map softmax_row (vals x)\<rparr>"

definition fin2 :: "real tensor2 \<Rightarrow> lv tensor2" where
  "fin2 x = \<lparr>shape0 = shape0 x, shape1 = shape1 x, vals = map (map Fin) (vals x)\<rparr>"

text \<open>
  \<^verbatim>\<open>probs.argMax(-1).expandDims(-1)\<close>: for every row the index of its first largest
  entry, as a tensor of shape \<open>(B, 1)\<close>.
\<close>

fun argMax_from :: "nat \<Rightarrow> real \<Rightarrow> nat \<Rightarrow> real list \<Rightarrow> nat" where
  "argMax_from best bv i [] = best"
| "argMax_from best bv i (x # xs) =
     (if x > bv then argMax_from i x (Suc i) xs else argMax_from best bv (Suc i) xs)"

definition argMax_row :: "real list \<Rightarrow> int" where
  "argMax_row r = (case r of [] \<Rightarrow> 0 | x # xs \<Rightarrow> int (argMax_from 0 x 1 xs))"

definition argMax_expand :: "real tensor2 \<Rightarrow> int tensor2" where
  "argMax_expand p = \<lparr>shape0 = shape0 p, shape1 = 1, vals = map (\<lambda>r. [argMax_row r]) (vals p)\<rparr>"

subsection \<open>Operations on rank-3 tensors\<close>

text \<open>
  \<^verbatim>\<open>logits.slice([0, p, 0], [-1, 1, -1]).squeeze([1])\<close>: the entries at time position
  \<open>p\<close>, as a tensor of shape \<open>(B, C)\<close>. The slice is refused when the position is not
  on the time axis.
\<close>

definition slice_time :: "'a tensor3 \<Rightarrow> int \<Rightarrow> error + 'a tensor2" where
  "slice_time x p =
     (if p < 0 \<or> p + 1 > int (dim1 x) then Inl TfShapeError
      else Inr \<lparr>shape0 = dim0 x, shape1 = dim2 x, vals = map (\<lambda>m. m ! nat p) (elems x)\<rparr>)"

text \<open>\<^verbatim>\<open>a.add(b)\<close>, with broadcasting.\<close>

definition add3 :: "real tensor3 \<Rightarrow> real tensor3 \<Rightarrow> error + real tensor3" where
  "add3 a b =
     (case (bcast_dim (dim0 a) (dim0 b), bcast_dim (dim1 a) (dim1 b), bcast_dim (dim2 a) (dim2 b)) of
        (Some n0, Some n1, Some n2) \<Rightarrow>
          Inr (mk3 n0 n1 n2 (\<lambda>n i j.
                 at3 a (bcast_ix (dim0 a) n) (bcast_ix (dim1 a) i) (bcast_ix (dim2 a) j)
               + at3 b (bcast_ix (dim0 b) n) (bcast_ix (dim1 b) i) (bcast_ix (dim2 b) j)))
      | _ \<Rightarrow> Inl TfShapeError)"

text \<open>\<^verbatim>\<open>k.transpose([0, 2, 1])\<close>.\<close>

definition transpose021 :: "'a tensor3 \<Rightarrow> 'a tensor3" where
  "transpose021 x = mk3 (dim0 x) (dim2 x) (dim1 x) (\<lambda>n i j. at3 x n j i)"

text \<open>
  \<^verbatim>\<open>tf.matMul(a, b)\<close> on batches of matrices: the inner sizes must agree and the batch
  sizes must broadcast.
\<close>

definition matMul :: "real tensor3 \<Rightarrow> real tensor3 \<Rightarrow> error + real tensor3" where
  "matMul a b =
     (case bcast_dim (dim0 a) (dim0 b) of
        None \<Rightarrow> Inl TfShapeError
      | Some n0 \<Rightarrow>
          if dim2 a \<noteq> dim1 b then Inl TfShapeError
          else Inr (mk3 n0 (dim1 a) (dim2 b) (\<lambda>n i j.
                 (\<Sum>l\<leftarrow>[0..<dim2 a]. at3 a (bcast_ix (dim0 a) n) i l
                                      * at3 b (bcast_ix (dim0 b) n) l j))))"

text \<open>\<^verbatim>\<open>x.mul(tf.scalar(s))\<close>.\<close>

definition mul_scalar :: "real tensor3 \<Rightarrow> real \<Rightarrow> real tensor3" where
  "mul_scalar x s = x\<lparr>elems := map (map (map (\<lambda>v. v * s))) (elems x)\<rparr>"

text \<open>\<^verbatim>\<open>tf.ones([n0, n1])\<close>, \<^verbatim>\<open>tf.linalg.bandPart(a, numLower, numUpper)\<close> and \<^verbatim>\<open>m.equal(0)\<close>.\<close>

definition ones :: "nat \<Rightarrow> nat \<Rightarrow> real tensor2" where
  "ones n0 n1 = mk2 n0 n1 (\<lambda>i j. 1)"

definition bandPart :: "real tensor2 \<Rightarrow> int \<Rightarrow> int \<Rightarrow> real tensor2" where
  "bandPart a numLower numUpper =
     mk2 (shape0 a) (shape1 a) (\<lambda>i j.
       if (numLower < 0 \<or> int i - int j \<le> numLower) \<and> (numUpper < 0 \<or> int j - int i \<le> numUpper)
       then at2 a i j else 0)"

definition equal0 :: "real tensor2 \<Rightarrow> bool tensor2" where
  "equal0 m = \<lparr>shape0 = shape0 m, shape1 = shape1 m, vals = map (map (\<lambda>v. v = 0)) (vals m)\<rparr>"

text \<open>
  \<^verbatim>\<open>tf.where(cond, tf.scalar(-Infinity), att)\<close> with a rank-2 condition broadcast over the
  batch: \<open>-Infinity\<close> where the condition holds, the entry of \<open>att\<close> elsewhere.
\<close>

definition where3 :: "bool tensor2 \<Rightarrow> real tensor3 \<Rightarrow> error + lv tensor3" where
  "where3 c att =
     (case (bcast_dim (shape0 c) (dim1 att), bcast_dim (shape1 c) (dim2 att)) of
        (Some n1, Some n2) \<Rightarrow>
          Inr (mk3 (dim0 att) n1 n2 (\<lambda>n i j.
                 if at2 c (bcast_ix (shape0 c) i) (bcast_ix (shape1 c) j) then NegInf
                 else Fin (at3 att n (bcast_ix (dim1 att) i) (bcast_ix (dim2 att) j))))
      | _ \<Rightarrow> Inl TfShapeError)"

definition softmax3 :: "lv tensor3 \<Rightarrow> real tensor3" where
  "softmax3 x = \<lparr>dim0 = dim0 x, dim1 = dim1 x, dim2 = dim2 x,
                 elems = map (map softmax_row) (elems x)\<rparr>"

text \<open>
  \<^verbatim>\<open>tf.concat(ts, -1)\<close>: concatenation along the last axis. The library refuses an empty
  list and operands that differ on another axis.
\<close>

definition concat_last2 :: "'a tensor3 \<Rightarrow> 'a tensor3 \<Rightarrow> error + 'a tensor3" where
  "concat_last2 a b =
     (if dim0 a \<noteq> dim0 b \<or> dim1 a \<noteq> dim1 b then Inl TfShapeError
      else Inr \<lparr>dim0 = dim0 a, dim1 = dim1 a, dim2 = dim2 a + dim2 b,
                elems = map2 (map2 (@)) (elems a) (elems b)\<rparr>)"

fun concat_last :: "'a tensor3 list \<Rightarrow> error + 'a tensor3" where
  "concat_last [] = Inl TfShapeError"
| "concat_last [t] = Inr t"
| "concat_last (t # ts) = bind_err (concat_last ts) (\<lambda>r. concat_last2 t r)"

section \<open>Layers of the library\<close>

text \<open>
  A layer of the library is created from its configuration (\<^verbatim>\<open>tf.layers.dense({...})\<close>)
  and holds its weights; what it computes is the library's business. The model keeps the
  configuration of every layer as data and takes the meaning of the layers as a
  parameter \<open>tf\<close>: one function for the embedding layers, which read token indices, and
  one for the layers that map activations to activations. The \<^verbatim>\<open>Add\<close> layer and the
  tensor method \<^verbatim>\<open>add\<close> are the elementwise sum \<open>add3\<close>.
\<close>

datatype tflayer =
    Embedding string nat nat bool
  | Dropout string real
  | Add string
  | LayerNormalization string
  | Dense string nat bool "string option"

record tf_lib =
  embedding_apply :: "tflayer \<Rightarrow> int tensor2 \<Rightarrow> real tensor3"
  layer_apply :: "tflayer \<Rightarrow> real tensor3 \<Rightarrow> real tensor3"

text \<open>
  Creating a layer is an effect: the model threads the list of the layers created so
  far through the constructors, in the order of the calls. The constructors of the
  library check their configuration: \<^verbatim>\<open>tf.layers.embedding\<close> raises a \<^verbatim>\<open>ValueError\<close>
  unless \<^verbatim>\<open>inputDim\<close> and \<^verbatim>\<open>outputDim\<close> are positive integers, and \<^verbatim>\<open>tf.layers.dense\<close>
  unless \<^verbatim>\<open>units\<close> is one; the other constructors the program calls accept what it
  passes them. A constructor that raises creates nothing.
\<close>

fun positive_sizes :: "tflayer \<Rightarrow> bool" where
  "positive_sizes (Embedding name inputDim outputDim maskZero) \<longleftrightarrow> 0 < inputDim \<and> 0 < outputDim"
| "positive_sizes (Dense name units useBias activation) \<longleftrightarrow> 0 < units"
| "positive_sizes (Dropout name rate) \<longleftrightarrow> True"
| "positive_sizes (Add name) \<longleftrightarrow> True"
| "positive_sizes (LayerNormalization name) \<longleftrightarrow> True"

definition tf_layers :: "tflayer \<Rightarrow> tflayer list \<Rightarrow> (error + tflayer) \<times> tflayer list" where
  "tf_layers l created =
     (if positive_sizes l then (Inr l, created @ [l]) else (Inl TfValueError, created))"

text \<open>Sequencing of constructors: an exception of the first ends the construction.\<close>

definition bind_made ::
  "(error + 'a) \<times> 's \<Rightarrow> ('a \<Rightarrow> 's \<Rightarrow> (error + 'b) \<times> 's) \<Rightarrow> (error + 'b) \<times> 's" where
  "bind_made r f = (case r of (Inl e, s) \<Rightarrow> (Inl e, s) | (Inr v, s) \<Rightarrow> f v s)"

text \<open>Template strings print a number in decimal.\<close>

definition digit_char :: "nat \<Rightarrow> char" where
  "digit_char d = ''0123456789'' ! d"

function string_of_nat :: "nat \<Rightarrow> string" where
  "string_of_nat n = (if n < 10 then [digit_char n]
                      else string_of_nat (n div 10) @ [digit_char (n mod 10)])"
  by pat_completeness auto
termination
  by (relation "measure id") auto

text \<open>
  \<^verbatim>\<open>Array.from({ length: n }, (_, i) => f(i))\<close> calls \<open>f\<close> on \<open>0, ..., n - 1\<close> in this
  order; an exception of \<open>f\<close> ends it.
\<close>

fun array_from :: "nat list \<Rightarrow> (nat \<Rightarrow> 's \<Rightarrow> (error + 'a) \<times> 's) \<Rightarrow> 's \<Rightarrow> (error + 'a list) \<times> 's" where
  "array_from [] f s = (Inr [], s)"
| "array_from (i # ix) f s =
     (case f i s of
        (Inl e, s1) \<Rightarrow> (Inl e, s1)
      | (Inr x, s1) \<Rightarrow>
          (case array_from ix f s1 of
             (Inl e, s2) \<Rightarrow> (Inl e, s2)
           | (Inr xs, s2) \<Rightarrow> (Inr (x # xs), s2)))"

text \<open>
  JavaScript's \<^verbatim>\<open>a % b\<close> on natural numbers: \<open>NaN\<close> (here \<open>None\<close>) for \<open>b = 0\<close>, and
  \<^verbatim>\<open>NaN !== 0\<close> holds.
\<close>

definition js_mod :: "nat \<Rightarrow> nat \<Rightarrow> nat option" where
  "js_mod a b = (if b = 0 then None else Some (a mod b))"

section \<open>Construction of the model\<close>

record ModelParams =
  nLayer :: nat
  nHead :: nat
  nEmbd :: nat
  vocabSize :: nat
  blockSize :: nat
  embdDropout :: "real option"
  residDropout :: "real option"
  attnDropout :: "real option"

record head =
  head_key :: tflayer
  head_query :: tflayer
  head_value :: tflayer
  head_drop :: tflayer
  head_tril :: "real tensor2"
  head_headSize :: nat

record attention =
  attn_heads :: "head list"
  attn_proj :: tflayer
  attn_drop :: tflayer

record feedforward =
  mlp_cFc :: tflayer
  mlp_cProj :: tflayer
  mlp_drop :: tflayer

record block =
  block_ln1 :: tflayer
  block_attn :: attention
  block_ln2 :: tflayer
  block_mlp :: feedforward

record model =
  params :: ModelParams
  wte :: tflayer
  wpe :: tflayer
  drop_layer :: tflayer
  add_layer :: tflayer
  h_blocks :: "block list"
  lnF :: tflayer
  lmHead :: tflayer

text \<open>
  Modelled from the spec: \<^verbatim>\<open>withLayerHelpers\<close> and \<^verbatim>\<open>withModelHelpers\<close> of \<^verbatim>\<open>./utils\<close>,
  which is not among the sources. The spec calls them bookkeeping helpers; they return
  the layer, or the model, they are given.
\<close>

definition withLayerHelpers :: "'a \<Rightarrow> 'b \<Rightarrow> 'a" where
  "withLayerHelpers layer ls = layer"

definition withModelHelpers :: "model \<Rightarrow> 'b \<Rightarrow> model" where
  "withModelHelpers m ls = m"

definition Head ::
  "nat \<Rightarrow> nat \<Rightarrow> nat \<Rightarrow> real \<Rightarrow> string \<Rightarrow> tflayer list \<Rightarrow> (error + head) \<times> tflayer list" where
  "Head n_embd head_size block_size attn_dropout name c0 =
     bind_made (tf_layers (Dense (name @ ''-key'') head_size False None) c0) (\<lambda>key c1.
     bind_made (tf_layers (Dense (name @ ''-query'') head_size False None) c1) (\<lambda>query c2.
     bind_made (tf_layers (Dense (name @ ''-value'') head_size False None) c2) (\<lambda>val c3.
     bind_made (tf_layers (Dropout (name @ ''-drop'') attn_dropout) c3) (\<lambda>drop c4.
       let tril = bandPart (ones block_size block_size) (-1) 0
       in (Inr (withLayerHelpers
                  \<lparr>head_key = key, head_query = query, head_value = val, head_drop = drop,
                   head_tril = tril, head_headSize = head_size\<rparr>
                  (key, query, val, drop, tril)), c4)))))"

definition CausalSelfAttention ::
  "nat \<Rightarrow> nat \<Rightarrow> nat \<Rightarrow> real \<Rightarrow> real \<Rightarrow> string \<Rightarrow> tflayer list \<Rightarrow> (error + attention) \<times> tflayer list" where
  "CausalSelfAttention n_embd block_size n_head attn_dropout resid_dropout name c0 =
     (if js_mod n_embd n_head \<noteq> Some 0 then (Inl HeadSizeError, c0)
      else
        let head_size = n_embd div n_head
        in bind_made (array_from [0..<n_head]
                        (\<lambda>i. Head n_embd head_size block_size attn_dropout
                                (name @ ''-head'' @ string_of_nat i)) c0) (\<lambda>heads c1.
           bind_made (tf_layers (Dense (name @ ''-proj'') n_embd True None) c1) (\<lambda>proj c2.
           bind_made (tf_layers (Dropout (name @ ''-drop'') resid_dropout) c2) (\<lambda>drop c3.
             (Inr (withLayerHelpers
                     \<lparr>attn_heads = heads, attn_proj = proj, attn_drop = drop\<rparr>
                     (heads, proj, drop)), c3)))))"

definition FeedForward ::
  "nat \<Rightarrow> real \<Rightarrow> string \<Rightarrow> tflayer list \<Rightarrow> (error + feedforward) \<times> tflayer list" where
  "FeedForward n_embd resid_dropout name c0 =
     bind_made (tf_layers (Dense (name @ ''-cFc'') (4 * n_embd) True (Some ''gelu_new'')) c0) (\<lambda>cFc c1.
     bind_made (tf_layers (Dense (name @ ''-cProj'') n_embd True None) c1) (\<lambda>cProj c2.
     bind_made (tf_layers (Dropout (name @ ''-drop'') resid_dropout) c2) (\<lambda>drop c3.
       (Inr (withLayerHelpers \<lparr>mlp_cFc = cFc, mlp_cProj = cProj, mlp_drop = drop\<rparr>
               (cFc, cProj, drop)), c3))))"

definition Block ::
  "nat \<Rightarrow> nat \<Rightarrow> nat \<Rightarrow> real \<Rightarrow> real \<Rightarrow> string \<Rightarrow> tflayer list \<Rightarrow> (error + block) \<times> tflayer list" where
  "Block n_embd n_head block_size resid_dropout attn_dropout name c0 =
     bind_made (tf_layers (LayerNormalization (name @ ''-ln1'')) c0) (\<lambda>ln1 c1.
     bind_made (CausalSelfAttention n_embd block_size n_head attn_dropout resid_dropout
                  (name @ ''-attn'') c1) (\<lambda>attn c2.
     bind_made (tf_layers (LayerNormalization (name @ ''-ln2'')) c2) (\<lambda>ln2 c3.
     bind_made (FeedForward n_embd resid_dropout (name @ ''-mlp'') c3) (\<lambda>mlp c4.
       (Inr (withLayerHelpers
               \<lparr>block_ln1 = ln1, block_attn = attn, block_ln2 = ln2, block_mlp = mlp\<rparr>
               (ln1, attn, ln2, mlp)), c4)))))"

definition default_to :: "'a \<Rightarrow> 'a option \<Rightarrow> 'a" where
  "default_to d v = (case v of None \<Rightarrow> d | Some x \<Rightarrow> x)"

definition GPT :: "ModelParams \<Rightarrow> tflayer list \<Rightarrow> (error + model) \<times> tflayer list" where
  "GPT p c0 =
     (let embd_dropout = default_to 0.1 (embdDropout p);
          resid_dropout = default_to 0.1 (residDropout p);
          attn_dropout = default_to 0.1 (attnDropout p)
      in bind_made (tf_layers (Embedding ''wte'' (vocabSize p + 1) (nEmbd p) True) c0) (\<lambda>wte' c1.
         bind_made (tf_layers (Embedding ''wpe'' (blockSize p) (nEmbd p) False) c1) (\<lambda>wpe' c2.
         bind_made (tf_layers (Dropout ''drop'' embd_dropout) c2) (\<lambda>drop c3.
         bind_made (tf_layers (Add ''add'') c3) (\<lambda>add c4.
         bind_made (array_from [0..<nLayer p]
                      (\<lambda>i. Block (nEmbd p) (nHead p) (blockSize p) resid_dropout attn_dropout
                              (''block'' @ string_of_nat (i + 1))) c4) (\<lambda>blocks c5.
         bind_made (tf_layers (LayerNormalization ''lnF'') c5) (\<lambda>lnF' c6.
         bind_made (tf_layers (Dense ''lmHead'' (vocabSize p) False None) c6) (\<lambda>lmHead' c7.
           (Inr (withModelHelpers
                   \<lparr>params = p, wte = wte', wpe = wpe', drop_layer = drop, add_layer = add,
                    h_blocks = blocks, lnF = lnF', lmHead = lmHead'\<rparr>
                   (wte', wpe', add, drop, lnF', blocks, lmHead')), c7)))))))))"

section \<open>The forward pass\<close>

fun map_err :: "('a \<Rightarrow> error + 'b) \<Rightarrow> 'a list \<Rightarrow> error + 'b list" where
  "map_err f [] = Inr []"
| "map_err f (x # xs) = bind_err (f x) (\<lambda>y. bind_err (map_err f xs) (\<lambda>ys. Inr (y # ys)))"

text \<open>
  \<^verbatim>\<open>Head.apply\<close>, in two parts: the attention scores after the causal mask, and the rest
  (softmax, dropout, product with the values).
\<close>

definition Head_scores :: "tf_lib \<Rightarrow> head \<Rightarrow> real tensor3 \<Rightarrow> error + lv tensor3" where
  "Head_scores tf hd1 x =
     (let T = dim1 x;
          k = layer_apply tf (head_key hd1) x;
          q = layer_apply tf (head_query hd1) x
      in bind_err (matMul q (transpose021 k)) (\<lambda>att0.
         let att = mul_scalar att0 (1 / sqrt (real (head_headSize hd1)))
         in bind_err (slice2 (head_tril hd1) (0, 0) (int T, int T)) (\<lambda>tr.
              where3 (equal0 tr) att)))"

definition Head_apply :: "tf_lib \<Rightarrow> head \<Rightarrow> real tensor3 \<Rightarrow> error + real tensor3" where
  "Head_apply tf hd1 x =
     bind_err (Head_scores tf hd1 x) (\<lambda>att1.
       let att2 = softmax3 att1;
           att3 = layer_apply tf (head_drop hd1) att2;
           y = layer_apply tf (head_value hd1) x
       in matMul att3 y)"

definition CausalSelfAttention_apply :: "tf_lib \<Rightarrow> attention \<Rightarrow> real tensor3 \<Rightarrow> error + real tensor3" where
  "CausalSelfAttention_apply tf a x =
     bind_err (map_err (\<lambda>hd1. Head_apply tf hd1 x) (attn_heads a)) (\<lambda>ys.
     bind_err (concat_last ys) (\<lambda>y0.
       let y = layer_apply tf (attn_proj a) y0
       in Inr (layer_apply tf (attn_drop a) y)))"

definition FeedForward_apply :: "tf_lib \<Rightarrow> feedforward \<Rightarrow> real tensor3 \<Rightarrow> real tensor3" where
  "FeedForward_apply tf f x =
     (let x1 = layer_apply tf (mlp_cFc f) x;
          x2 = layer_apply tf (mlp_cProj f) x1
      in layer_apply tf (mlp_drop f) x2)"

definition Block_apply :: "tf_lib \<Rightarrow> block \<Rightarrow> real tensor3 \<Rightarrow> error + real tensor3" where
  "Block_apply tf b x =
     bind_err (CausalSelfAttention_apply tf (block_attn b) (layer_apply tf (block_ln1 b) x)) (\<lambda>a.
     bind_err (add3 x a) (\<lambda>x1.
       add3 x1 (FeedForward_apply tf (block_mlp b) (layer_apply tf (block_ln2 b) x1))))"

text \<open>\<^verbatim>\<open>transformer.h.forEach((block) => { x = block.apply(x) })\<close>.\<close>

fun forEach_block :: "tf_lib \<Rightarrow> block list \<Rightarrow> real tensor3 \<Rightarrow> error + real tensor3" where
  "forEach_block tf [] x = Inr x"
| "forEach_block tf (b # bs) x = bind_err (Block_apply tf b x) (forEach_block tf bs)"

text \<open>\<^verbatim>\<open>tf.range(0, T, 1).reshape([1, T])\<close> and \<^verbatim>\<open>pos.tile([B, 1])\<close>.\<close>

definition range_row :: "nat \<Rightarrow> int tensor2" where
  "range_row T = mk2 1 T (\<lambda>i j. int j)"

definition tile :: "'a tensor2 \<Rightarrow> nat \<Rightarrow> nat \<Rightarrow> 'a tensor2" where
  "tile t r0 r1 = mk2 (shape0 t * r0) (shape1 t * r1) (\<lambda>i j. at2 t (i mod shape0 t) (j mod shape1 t))"

definition model_apply :: "tf_lib \<Rightarrow> model \<Rightarrow> int tensor2 \<Rightarrow> error + real tensor3" where
  "model_apply tf m ids =
     (let B = shape0 ids; T = shape1 ids
      in if T \<noteq> blockSize (params m) then Inl (SequenceSizeError (blockSize (params m)) T)
         else
           let tokEmb = embedding_apply tf (wte m) ids;
               pos = range_row T;
               posBatched = tile pos B 1;
               posEmb = embedding_apply tf (wpe m) posBatched
           in bind_err (add3 tokEmb posEmb) (\<lambda>x0.
                let x1 = layer_apply tf (drop_layer m) x0
                in bind_err (forEach_block tf (h_blocks m) x1) (\<lambda>x2.
                     let x3 = layer_apply tf (lnF m) x2;
                         logits = layer_apply tf (lmHead m) x3
                     in Inr logits)))"

section \<open>Generation\<close>

record GenerateParams =
  idx :: "int tensor2"
  maxNewTokens :: nat
  temperature :: "real option"
  doSample :: "bool option"
  topK :: "int option"

text \<open>
  \<^verbatim>\<open>tf.multinomial\<close> draws at random. Its argument is either probabilities (the call with
  \<^verbatim>\<open>normalized = true\<close>) or unnormalized logits; its result has one row for every row of
  the argument and one column for every sample. The random source is a parameter \<open>rnd\<close>,
  read at the number of the call, so that two calls may differ.
\<close>

datatype dist = Probs "real tensor2" | Logits "lv tensor2"

definition dist_rows :: "dist \<Rightarrow> nat" where
  "dist_rows d = (case d of Probs p \<Rightarrow> shape0 p | Logits l \<Rightarrow> shape0 l)"

definition multinomial :: "(nat \<Rightarrow> dist \<Rightarrow> nat \<Rightarrow> nat \<Rightarrow> int) \<Rightarrow> nat \<Rightarrow> dist \<Rightarrow> nat \<Rightarrow> int tensor2" where
  "multinomial rnd call d numSamples = mk2 (dist_rows d) numSamples (\<lambda>b s. rnd call d b s)"

text \<open>The state of the loop: the running sequence, the number of random draws made, and
  what the callback \<^verbatim>\<open>onGenerateChar\<close> has received (\<open>None\<close> for \<^verbatim>\<open>undefined\<close>).\<close>

record gen_state =
  cur :: "int tensor2"
  draws :: nat
  emitted :: "int option list"

text \<open>The tensors one iteration of the loop binds.\<close>

record iteration =
  it_input :: "int tensor2"
  it_idxShaped :: "int tensor2"
  it_logits :: "real tensor3"
  it_position :: int
  it_sliced :: "real tensor2"
  it_scaled :: "real tensor2"
  it_lastCharLogits :: "lv tensor2"
  it_probs :: "real tensor2"
  it_sampled :: "int tensor2"
  it_idxNextSliced :: "int tensor2 option"
  it_idxNext :: "int tensor2"
  it_output :: "int tensor2"

text \<open>The model input: the end of the running sequence, padded with zeros.\<close>

definition idx_shaped :: "nat \<Rightarrow> int tensor2 \<Rightarrow> error + int tensor2" where
  "idx_shaped block_size ids =
     (let T = int (shape1 ids); bs = int block_size
      in bind_err (slice2 ids (0, max 0 (T - bs)) (-1, min T bs)) (\<lambda>kept.
           concat1 kept (zeros (shape0 ids) (nat (max 0 (bs - T))))))"

text \<open>The branch \<^verbatim>\<open>if (topK)\<close>: \<^verbatim>\<open>undefined\<close> and \<open>0\<close> are falsy.\<close>

definition top_k_filter :: "nat \<Rightarrow> int option \<Rightarrow> real tensor2 \<Rightarrow> error + lv tensor2" where
  "top_k_filter vocab_size top_k lastCharLogits =
     (case top_k of
        None \<Rightarrow> Inr (fin2 lastCharLogits)
      | Some k \<Rightarrow>
          if k = 0 then Inr (fin2 lastCharLogits)
          else
            bind_err (topk_values lastCharLogits (min k (int vocab_size))) (\<lambda>values.
            bind_err (slice2 values (0, int (shape1 values) - 1) (-1, -1)) (\<lambda>smallestTopK.
            bind_err (greaterEqual lastCharLogits smallestTopK) (\<lambda>c.
              where_neginf lastCharLogits c))))"

text \<open>The sampling branch: the sampled tensor, \<^verbatim>\<open>idxNextSliced\<close>, and \<^verbatim>\<open>idxNext\<close>.\<close>

definition sample_next ::
  "(nat \<Rightarrow> dist \<Rightarrow> nat \<Rightarrow> nat \<Rightarrow> int) \<Rightarrow> string \<Rightarrow> bool \<Rightarrow> nat \<Rightarrow> lv tensor2 \<Rightarrow> real tensor2
   \<Rightarrow> error + (int tensor2 \<times> int tensor2 option \<times> int tensor2)" where
  "sample_next rnd backend do_sample call lastCharLogits probs =
     (if do_sample then
        if backend = ''webgpu'' then
          let sampled = multinomial rnd call (Probs probs) 2
          in bind_err (slice2 sampled (0, 1) (1, 1)) (\<lambda>idxNextSliced.
               Inr (sampled, Some idxNextSliced, idxNextSliced))
        else if backend = ''tensorflow'' then
          let sampled = multinomial rnd call (Logits lastCharLogits) 1
          in Inr (sampled, None, sampled)
        else
          let sampled = multinomial rnd call (Probs probs) 1
          in Inr (sampled, None, sampled)
      else
        let sampled = argMax_expand probs
        in Inr (sampled, None, sampled))"

text \<open>\<^verbatim>\<open>((await idxNext.array()) as number[][])[0][0]\<close>.\<close>

definition first_token :: "int tensor2 \<Rightarrow> error + int option" where
  "first_token t =
     (case vals t of
        [] \<Rightarrow> Inl JsTypeError
      | r # _ \<Rightarrow> (case r of [] \<Rightarrow> Inr None | v # _ \<Rightarrow> Inr (Some v)))"

text \<open>The body of the loop, at iteration \<open>i\<close>.\<close>

definition generate_step ::
  "tf_lib \<Rightarrow> (nat \<Rightarrow> dist \<Rightarrow> nat \<Rightarrow> nat \<Rightarrow> int) \<Rightarrow> string \<Rightarrow> model \<Rightarrow> GenerateParams \<Rightarrow> bool
   \<Rightarrow> nat \<Rightarrow> gen_state \<Rightarrow> error + (iteration \<times> gen_state)" where
  "generate_step tf rnd backend m gp on_char i st =
     (let block_size = blockSize (params m);
          do_sample = default_to False (doSample gp);
          position = (if i < block_size then int i else int block_size - 1)
      in bind_err (idx_shaped block_size (cur st)) (\<lambda>idxShaped.
         bind_err (model_apply tf m idxShaped) (\<lambda>logits.
         bind_err (slice_time logits position) (\<lambda>sliced.
         let scaled = div_scalar sliced (default_to 1.0 (temperature gp))
         in bind_err (top_k_filter (vocabSize (params m)) (topK gp) scaled) (\<lambda>lastCharLogits.
            let probs = softmax2 lastCharLogits
            in bind_err (sample_next rnd backend do_sample (draws st) lastCharLogits probs)
                 (\<lambda>(sampled, idxNextSliced, idxNext).
               bind_err (concat1 (cur st) idxNext) (\<lambda>new_idx.
               bind_err (if on_char
                         then bind_err (first_token idxNext) (\<lambda>t. Inr (emitted st @ [t]))
                         else Inr (emitted st)) (\<lambda>em.
                 Inr (\<lparr>it_input = cur st, it_idxShaped = idxShaped, it_logits = logits,
                       it_position = position, it_sliced = sliced, it_scaled = scaled,
                       it_lastCharLogits = lastCharLogits, it_probs = probs,
                       it_sampled = sampled, it_idxNextSliced = idxNextSliced,
                       it_idxNext = idxNext, it_output = new_idx\<rparr>,
                      \<lparr>cur = new_idx,
                       draws = (if do_sample then Suc (draws st) else draws st),
                       emitted = em\<rparr>)))))))))"

text \<open>
  \<^verbatim>\<open>for (let i = 0; i < maxNewTokens; i++)\<close>: the loop, which also records its
  iterations.
\<close>

function generate_loop ::
  "tf_lib \<Rightarrow> (nat \<Rightarrow> dist \<Rightarrow> nat \<Rightarrow> nat \<Rightarrow> int) \<Rightarrow> string \<Rightarrow> model \<Rightarrow> GenerateParams \<Rightarrow> bool
   \<Rightarrow> nat \<Rightarrow> gen_state \<Rightarrow> iteration list \<Rightarrow> error + (gen_state \<times> iteration list)" where
  "generate_loop tf rnd backend m gp on_char i st its =
     (if i < maxNewTokens gp then
        (case generate_step tf rnd backend m gp on_char i st of
           Inl e \<Rightarrow> Inl e
         | Inr (it, st') \<Rightarrow> generate_loop tf rnd backend m gp on_char (Suc i) st' (its @ [it]))
      else Inr (st, its))"
  by pat_completeness auto
termination
  by (relation "measure (\<lambda>(tf, rnd, backend, m, gp, on_char, i, st, its). maxNewTokens gp - i)") auto

definition generate_run ::
  "tf_lib \<Rightarrow> (nat \<Rightarrow> dist \<Rightarrow> nat \<Rightarrow> nat \<Rightarrow> int) \<Rightarrow> string \<Rightarrow> model \<Rightarrow> GenerateParams \<Rightarrow> bool
   \<Rightarrow> error + (gen_state \<times> iteration list)" where
  "generate_run tf rnd backend m gp on_char =
     generate_loop tf rnd backend m gp on_char 0 \<lparr>cur = idx gp, draws = 0, emitted = []\<rparr> []"

definition generate ::
  "tf_lib \<Rightarrow> (nat \<Rightarrow> dist \<Rightarrow> nat \<Rightarrow> nat \<Rightarrow> int) \<Rightarrow> string \<Rightarrow> model \<Rightarrow> GenerateParams \<Rightarrow> bool
   \<Rightarrow> error + int tensor2" where
  "generate tf rnd backend m gp on_char =
     (case generate_run tf rnd backend m gp on_char of
        Inl e \<Rightarrow> Inl e
      | Inr (st, its) \<Rightarrow> Inr (cur st))"

section \<open>Tensor handles and disposal\<close>

text \<open>
  Every call of a library operation returns a new tensor object, which stays live until
  it is disposed. A heap is the set of the live handles and the next fresh handle.
  \<^verbatim>\<open>tf.tidy\<close> disposes what its function allocates, except the result, so a call of
  \<^verbatim>\<open>model.apply\<close> leaves one new tensor.
\<close>

record heap =
  next_id :: nat
  live :: "nat set"

definition alloc :: "heap \<Rightarrow> nat \<times> heap" where
  "alloc hp = (next_id hp, \<lparr>next_id = Suc (next_id hp), live = insert (next_id hp) (live hp)\<rparr>)"

text \<open>
  Modelled from the spec: \<^verbatim>\<open>dispose\<close> of \<^verbatim>\<open>./utils\<close>, which is not among the sources. The
  spec calls it a bookkeeping helper for disposing intermediate tensors; it disposes
  every tensor of the list it is given, skipping \<^verbatim>\<open>null\<close>.
\<close>

fun non_null :: "'a option list \<Rightarrow> 'a list" where
  "non_null [] = []"
| "non_null (None # ts) = non_null ts"
| "non_null (Some t # ts) = t # non_null ts"

definition dispose :: "nat option list \<Rightarrow> heap \<Rightarrow> heap" where
  "dispose ts hp = hp\<lparr>live := live hp - set (non_null ts)\<rparr>"

text \<open>The handles one iteration binds to its names, and those it binds to none.\<close>

record iteration_handles =
  hd_idxShaped :: nat
  hd_logits :: nat
  hd_scaled :: nat
  hd_lastCharLogits :: nat
  hd_probs :: nat
  hd_sampled :: nat
  hd_idxNextSliced :: "nat option"
  hd_idxNext :: nat
  hd_oldIdx :: nat
  hd_idx :: nat
  hd_unnamed :: "nat list"

text \<open>
  One iteration of the loop of \<^verbatim>\<open>generate\<close>, as the allocations and the disposal it makes:
  \<open>top_k\<close> says whether the branch \<^verbatim>\<open>if (topK)\<close> is taken, \<open>ids\<close> is the handle of the
  running sequence.
\<close>

definition iteration_mem :: "bool \<Rightarrow> bool \<Rightarrow> string \<Rightarrow> nat \<Rightarrow> heap \<Rightarrow> iteration_handles \<times> heap" where
  "iteration_mem top_k do_sample backend ids h0 =
     (let (kept, h1) = alloc h0;
          (pad, h2) = alloc h1;
          (idxShaped, h3) = alloc h2;
          (logits, h4) = alloc h3;
          (sliced, h5) = alloc h4;
          (squeezed, h6) = alloc h5;
          (temp, h7) = alloc h6;
          (scaled, h8) = alloc h7;
          (lastCharLogits, tmp1, h9) =
             (if top_k then
                let (vs, a1) = alloc h8;
                    (indices, a2) = alloc a1;
                    (smallestTopK, a3) = alloc a2;
                    (cond, a4) = alloc a3;
                    (negInf, a5) = alloc a4;
                    (masked, a6) = alloc a5
                in (masked, [scaled, vs, indices, smallestTopK, cond, negInf], a6)
              else (scaled, [], h8));
          (probs, h10) = alloc h9;
          (sampled, idxNextSliced, idxNext, tmp2, h11) =
             (if do_sample then
                if backend = ''webgpu'' then
                  let (sampled, b1) = alloc h10;
                      (sl, b2) = alloc b1
                  in (sampled, Some sl, sl, [], b2)
                else
                  let (sampled, b1) = alloc h10
                  in (sampled, None, sampled, [], b1)
              else
                let (am, b1) = alloc h10;
                    (sampled, b2) = alloc b1
                in (sampled, None, sampled, [am], b2));
          oldIdx = ids;
          (new_idx, h12) = alloc h11;
          h13 = dispose [Some idxShaped, Some logits, Some lastCharLogits, Some probs,
                         Some sampled, idxNextSliced, Some idxNext, Some oldIdx] h12
      in (\<lparr>hd_idxShaped = idxShaped, hd_logits = logits, hd_scaled = scaled,
           hd_lastCharLogits = lastCharLogits, hd_probs = probs, hd_sampled = sampled,
           hd_idxNextSliced = idxNextSliced, hd_idxNext = idxNext, hd_oldIdx = oldIdx,
           hd_idx = new_idx,
           hd_unnamed = [kept, pad, sliced, squeezed, temp] @ tmp1 @ tmp2\<rparr>, h13))"

section \<open>Properties of results, and a small instance\<close>

text \<open>A result whose only possible error is a shape error of the library, and a result
  that is not the sequence-size error of \<^verbatim>\<open>model.apply\<close>.\<close>

definition shape_error_only :: "error + 'a \<Rightarrow> bool" where
  "shape_error_only r \<longleftrightarrow> (\<forall>e. r = Inl e \<longrightarrow> e = TfShapeError)"

definition no_size_error :: "error + 'a \<Rightarrow> bool" where
  "no_size_error r \<longleftrightarrow> (\<forall>a b. r \<noteq> Inl (SequenceSizeError a b))"

text \<open>
  A library for the examples: an embedding returns zeros of the shape \<open>(B, T, outputDim)\<close>,
  a dense layer returns a tensor whose last axis has \<open>units\<close> entries (the logits
  \<open>1, 3, 2, 1, 3, 2, ...\<close> for \<^verbatim>\<open>lmHead\<close>, zeros for the others), and the other layers
  return their input.
\<close>

definition demo_tf :: tf_lib where
  "demo_tf =
     \<lparr>embedding_apply = (\<lambda>l ids. case l of
          Embedding n i out mz \<Rightarrow> mk3 (shape0 ids) (shape1 ids) out (\<lambda>b i j. 0)
        | _ \<Rightarrow> mk3 0 0 0 (\<lambda>b i j. 0)),
      layer_apply = (\<lambda>l x. case l of
          Dense n u b a \<Rightarrow>
            mk3 (dim0 x) (dim1 x) u (\<lambda>b i j. if n = ''lmHead'' then [1, 3, 2] ! (j mod 3) else 0)
        | _ \<Rightarrow> x)\<rparr>"

definition demo_rnd :: "nat \<Rightarrow> dist \<Rightarrow> nat \<Rightarrow> nat \<Rightarrow> int" where
  "demo_rnd call d b s = int ((call + b + s) mod 3)"

definition demo_params :: ModelParams where
  "demo_params = \<lparr>nLayer = 1, nHead = 2, nEmbd = 4, vocabSize = 3, blockSize = 2,
                   embdDropout = None, residDropout = None, attnDropout = None\<rparr>"

definition demo_model0 :: model where
  "demo_model0 =
     \<lparr>params = demo_params\<lparr>nLayer := 0\<rparr>,
      wte = Embedding ''wte'' 4 4 True, wpe = Embedding ''wpe'' 2 4 False,
      drop_layer = Dropout ''drop'' 0.1, add_layer = Add ''add'', h_blocks = [],
      lnF = LayerNormalization ''lnF'', lmHead = Dense ''lmHead'' 3 False None\<rparr>"

definition demo_idx :: "int list list \<Rightarrow> int tensor2" where
  "demo_idx rows = \<lparr>shape0 = length rows, shape1 = length (hd rows), vals = rows\<rparr>"

definition head_ok :: "nat \<Rightarrow> head \<Rightarrow> bool" where
  "head_ok hs h1 \<longleftrightarrow> head_headSize h1 = hs
     \<and> (\<exists>n. head_key h1 = Dense n hs False None)
     \<and> (\<exists>n. head_query h1 = Dense n hs False None)
     \<and> (\<exists>n. head_value h1 = Dense n hs False None)"

definition block_ok :: "nat \<Rightarrow> nat \<Rightarrow> block \<Rightarrow> bool" where
  "block_ok n_head hs b \<longleftrightarrow> length (attn_heads (block_attn b)) = n_head
     \<and> (\<forall>h1\<in>set (attn_heads (block_attn b)). head_ok hs h1)"

definition demo_head :: "string \<Rightarrow> head" where
  "demo_head name =
     \<lparr>head_key = Dense (name @ ''-key'') 2 False None,
      head_query = Dense (name @ ''-query'') 2 False None,
      head_value = Dense (name @ ''-value'') 2 False None,
      head_drop = Dropout (name @ ''-drop'') 0.1,
      head_tril = \<lparr>shape0 = 2, shape1 = 2, vals = [[1, 0], [1, 1]]\<rparr>,
      head_headSize = 2\<rparr>"

definition demo_block :: block where
  "demo_block =
     \<lparr>block_ln1 = LayerNormalization ''block1-ln1'',
      block_attn =
        \<lparr>attn_heads = [demo_head ''block1-attn-head0'', demo_head ''block1-attn-head1''],
         attn_proj = Dense ''block1-attn-proj'' 4 True None,
         attn_drop = Dropout ''block1-attn-drop'' 0.1\<rparr>,
      block_ln2 = LayerNormalization ''block1-ln2'',
      block_mlp =
        \<lparr>mlp_cFc = Dense ''block1-mlp-cFc'' 16 True (Some ''gelu_new''),
         mlp_cProj = Dense ''block1-mlp-cProj'' 4 True None,
         mlp_drop = Dropout ''block1-mlp-drop'' 0.1\<rparr>\<rparr>"

definition demo_model1 :: model where
  "demo_model1 = demo_model0\<lparr>params := demo_params, h_blocks := [demo_block]\<rparr>"

definition demo_zeros :: "nat \<Rightarrow> nat \<Rightarrow> real tensor3" where
  "demo_zeros B n = mk3 B 2 n (\<lambda>b i j. 0)"

definition demo_logits :: "nat \<Rightarrow> real tensor3" where
  "demo_logits B = mk3 B 2 3 (\<lambda>b i j. [1, 3, 2] ! j)"

text \<open>
  The topology of the forward pass in the words of the specification: a residual
  connection \<open>x + f(x)\<close>; a block, which is the residual connection around the attention
  of the first normalization followed by the residual connection around the
  feed-forward network of the second; the blocks in sequence; and the whole pass,
  token embeddings plus position embeddings, dropout, the blocks, the final
  normalization and the linear head.
\<close>

definition residual :: "(real tensor3 \<Rightarrow> error + real tensor3) \<Rightarrow> real tensor3 \<Rightarrow> error + real tensor3" where
  "residual f x = bind_err (f x) (\<lambda>y. add3 x y)"

definition block_topology :: "tf_lib \<Rightarrow> block \<Rightarrow> real tensor3 \<Rightarrow> error + real tensor3" where
  "block_topology tf b x =
     bind_err
       (residual (\<lambda>v. CausalSelfAttention_apply tf (block_attn b) (layer_apply tf (block_ln1 b) v)) x)
       (residual (\<lambda>v. Inr (FeedForward_apply tf (block_mlp b) (layer_apply tf (block_ln2 b) v))))"

definition blocks_in_sequence :: "tf_lib \<Rightarrow> block list \<Rightarrow> real tensor3 \<Rightarrow> error + real tensor3" where
  "blocks_in_sequence tf bs x = foldl (\<lambda>r b. bind_err r (block_topology tf b)) (Inr x) bs"

definition positions :: "nat \<Rightarrow> nat \<Rightarrow> int tensor2" where
  "positions B T = mk2 B T (\<lambda>b t. int t)"

definition gpt_topology :: "tf_lib \<Rightarrow> model \<Rightarrow> int tensor2 \<Rightarrow> error + real tensor3" where
  "gpt_topology tf m ids =
     bind_err (add3 (embedding_apply tf (wte m) ids)
                    (embedding_apply tf (wpe m) (positions (shape0 ids) (shape1 ids)))) (\<lambda>emb.
     bind_err (blocks_in_sequence tf (h_blocks m) (layer_apply tf (drop_layer m) emb)) (\<lambda>x.
       Inr (layer_apply tf (lmHead m) (layer_apply tf (lnF m) x))))"

definition demo_gp :: "int list list \<Rightarrow> nat \<Rightarrow> real option \<Rightarrow> int option \<Rightarrow> GenerateParams" where
  "demo_gp rows n t k = \<lparr>idx = demo_idx rows, maxNewTokens = n, temperature = t,
                          doSample = Some True, topK = k\<rparr>"

definition demo_iteration ::
  "int list \<Rightarrow> int list \<Rightarrow> int \<Rightarrow> real list \<Rightarrow> lv list \<Rightarrow> int \<Rightarrow> iteration" where
  "demo_iteration input shaped pos scaled masked token =
     \<lparr>it_input = demo_idx [input], it_idxShaped = demo_idx [shaped], it_logits = demo_logits 1,
      it_position = pos,
      it_sliced = \<lparr>shape0 = 1, shape1 = 3, vals = [[1, 3, 2]]\<rparr>,
      it_scaled = \<lparr>shape0 = 1, shape1 = 3, vals = [scaled]\<rparr>,
      it_lastCharLogits = \<lparr>shape0 = 1, shape1 = 3, vals = [masked]\<rparr>,
      it_probs = \<lparr>shape0 = 1, shape1 = 3, vals = [softmax_row masked]\<rparr>,
      it_sampled = demo_idx [[token]], it_idxNextSliced = None, it_idxNext = demo_idx [[token]],
      it_output = demo_idx [input @ [token]]\<rparr>"

definition demo_run_plain :: "error + (gen_state \<times> iteration list)" where
  "demo_run_plain =
     Inr (\<lparr>cur = demo_idx [[5, 6, 7, 0, 1]], draws = 2, emitted = []\<rparr>,
          [demo_iteration [5, 6, 7] [6, 7] 0 [1, 3, 2] [Fin 1, Fin 3, Fin 2] 0,
           demo_iteration [5, 6, 7, 0] [7, 0] 1 [1, 3, 2] [Fin 1, Fin 3, Fin 2] 1])"

definition demo_run_short :: "error + (gen_state \<times> iteration list)" where
  "demo_run_short =
     Inr (\<lparr>cur = demo_idx [[6, 7, 0]], draws = 1, emitted = []\<rparr>,
          [demo_iteration [6, 7] [6, 7] 0 [1, 3, 2] [Fin 1, Fin 3, Fin 2] 0])"

text \<open>The \<open>k\<close>-th largest entry of a row, for \<open>1 \<le> k \<le> length row\<close>.\<close>

definition kth_largest :: "nat \<Rightarrow> real list \<Rightarrow> real" where
  "kth_largest k row = rev (sort row) ! (k - 1)"

definition demo_run_topk :: "error + (gen_state \<times> iteration list)" where
  "demo_run_topk =
     Inr (\<lparr>cur = demo_idx [[6, 7, 0]], draws = 1, emitted = []\<rparr>,
          [demo_iteration [6, 7] [6, 7] 0 [1 / 2, 3 / 2, 1] [NegInf, Fin (3 / 2), Fin 1] 0])"


definition demo_probs2 :: "real tensor2" where
  "demo_probs2 = softmax2 \<lparr>shape0 = 2, shape1 = 3,
                            vals = [[Fin 1, Fin 3, Fin 2], [Fin 1, Fin 3, Fin 2]]\<rparr>"

definition demo_heap :: heap where
  "demo_heap = \<lparr>next_id = 1, live = {0}\<rparr>"

text \<open>
  The contract of the library's layers that the causality of a head rests on. A dense
  layer maps a well-formed tensor of the shape \<open>(B, T, C)\<close> to a well-formed tensor of the
  shape \<open>(B, T, units)\<close> and works on every time position by itself: its output at a
  position is determined by its input at this position. Dropout, outside of training,
  returns its input.
\<close>

definition shape3 :: "'a tensor3 \<Rightarrow> nat \<Rightarrow> nat \<Rightarrow> nat \<Rightarrow> bool" where
  "shape3 t n0 n1 n2 \<longleftrightarrow> wf3 t \<and> dim0 t = n0 \<and> dim1 t = n1 \<and> dim2 t = n2"

definition dense_by_position :: "tf_lib \<Rightarrow> bool" where
  "dense_by_position tf \<longleftrightarrow>
     (\<forall>n u b a x. wf3 x \<longrightarrow> shape3 (layer_apply tf (Dense n u b a) x) (dim0 x) (dim1 x) u)
   \<and> (\<forall>n u b a x x' k i.
         wf3 x \<and> wf3 x' \<and> dim0 x' = dim0 x \<and> dim1 x' = dim1 x \<and> k < dim0 x \<and> i < dim1 x
         \<and> elems x' ! k ! i = elems x ! k ! i \<longrightarrow>
         elems (layer_apply tf (Dense n u b a) x') ! k ! i
         = elems (layer_apply tf (Dense n u b a) x) ! k ! i)"

definition dropout_off :: "tf_lib \<Rightarrow> bool" where
  "dropout_off tf \<longleftrightarrow> (\<forall>n r x. layer_apply tf (Dropout n r) x = x)"

text \<open>The masked scores and the result of a head, entry by entry.\<close>

definition masked_scores :: "nat \<Rightarrow> real tensor3 \<Rightarrow> real tensor3 \<Rightarrow> nat \<Rightarrow> nat \<Rightarrow> nat \<Rightarrow> lv" where
  "masked_scores hs q k n i j =
     (if i < j then NegInf
      else Fin ((\<Sum>l\<leftarrow>[0..<hs]. at3 q n i l * at3 k n j l) * (1 / sqrt (real hs))))"

text \<open>
  A library for the example of a head: a dense layer repeats the first channel of its
  input at every position, and the other layers return their input. The inputs
  \<open>demo_x v\<close> have one batch entry, two positions and one channel, and differ in the
  second position only.
\<close>

definition demo_tf_rows :: tf_lib where
  "demo_tf_rows =
     \<lparr>embedding_apply = embedding_apply demo_tf,
      layer_apply = (\<lambda>l x. case l of
          Dense n u b a \<Rightarrow> mk3 (dim0 x) (dim1 x) u (\<lambda>k i j. at3 x k i 0)
        | _ \<Rightarrow> x)\<rparr>"

definition demo_x :: "real \<Rightarrow> real tensor3" where
  "demo_x v = \<lparr>dim0 = 1, dim1 = 2, dim2 = 1, elems = [[[1], [v]]]\<rparr>"

text \<open>
  A library whose \<^verbatim>\<open>lmHead\<close> returns logits that depend on the time position
  (\<open>10 * position + token\<close>), and is the library of the examples elsewhere; and the
  position of the logits that iteration \<open>i\<close> of \<^verbatim>\<open>generate\<close> reads.
\<close>

definition demo_tf_pos :: tf_lib where
  "demo_tf_pos =
     \<lparr>embedding_apply = embedding_apply demo_tf,
      layer_apply = (\<lambda>l x. case l of
          Dense n u b a \<Rightarrow>
            if n = ''lmHead'' then mk3 (dim0 x) (dim1 x) u (\<lambda>k i j. real (10 * i + j))
            else layer_apply demo_tf l x
        | _ \<Rightarrow> layer_apply demo_tf l x)\<rparr>"

definition demo_logits_pos :: "real tensor3" where
  "demo_logits_pos = \<lparr>dim0 = 1, dim1 = 2, dim2 = 3, elems = [[[0, 1, 2], [10, 11, 12]]]\<rparr>"

definition loop_position :: "nat \<Rightarrow> nat \<Rightarrow> int" where
  "loop_position block_size i = (if i < block_size then int i else int block_size - 1)"


section \<open>Basic facts\<close>

lemma bind_err_Inl [simp]: "bind_err (Inl e) f = Inl e"
  by (simp add: bind_err_def)

lemma bind_err_Inr [simp]: "bind_err (Inr v) f = f v"
  by (simp add: bind_err_def)

lemma bind_err_eq_Inr: "bind_err r f = Inr y \<longleftrightarrow> (\<exists>v. r = Inr v \<and> f v = Inr y)"
  by (cases r) simp_all

lemma bind_err_eq_Inl: "bind_err r f = Inl e \<longleftrightarrow> r = Inl e \<or> (\<exists>v. r = Inr v \<and> f v = Inl e)"
  by (cases r) simp_all

lemma seo_Inr [simp]: "shape_error_only (Inr v)"
  by (simp add: shape_error_only_def)

lemma seo_Inl [simp]: "shape_error_only (Inl e) \<longleftrightarrow> e = TfShapeError"
  by (simp add: shape_error_only_def)

lemma seo_bind: "shape_error_only r \<Longrightarrow> (\<And>v. r = Inr v \<Longrightarrow> shape_error_only (f v)) \<Longrightarrow> shape_error_only (bind_err r f)"
  by (cases r) simp_all

lemma seo_slice2: "shape_error_only (slice2 t b s)"
  by (simp add: slice2_def Let_def)

lemma seo_concat1: "shape_error_only (concat1 a b)"
  by (simp add: concat1_def)

lemma seo_add3: "shape_error_only (add3 a b)"
  by (simp add: add3_def split: option.splits)

lemma seo_matMul: "shape_error_only (matMul a b)"
  by (simp add: matMul_def split: option.splits)

lemma seo_where3: "shape_error_only (where3 c a)"
  by (simp add: where3_def split: option.splits)

lemma seo_concat_last2: "shape_error_only (concat_last2 a b)"
  by (simp add: concat_last2_def)

lemma seo_concat_last: "shape_error_only (concat_last ts)"
  by (induction ts rule: concat_last.induct) (simp_all add: seo_bind seo_concat_last2)

lemma seo_map_err: "(\<And>x. shape_error_only (f x)) \<Longrightarrow> shape_error_only (map_err f xs)"
  by (induction xs) (simp_all add: seo_bind)

lemma seo_Head_scores: "shape_error_only (Head_scores tf hd1 x)"
  by (simp add: Head_scores_def Let_def seo_bind seo_matMul seo_slice2 seo_where3)

lemma seo_Head_apply: "shape_error_only (Head_apply tf hd1 x)"
  by (simp add: Head_apply_def Let_def seo_bind seo_Head_scores seo_matMul)

lemma seo_CausalSelfAttention_apply: "shape_error_only (CausalSelfAttention_apply tf a x)"
  by (simp add: CausalSelfAttention_apply_def Let_def seo_bind seo_map_err seo_Head_apply seo_concat_last)

lemma seo_Block_apply: "shape_error_only (Block_apply tf b x)"
  by (simp add: Block_apply_def seo_bind seo_CausalSelfAttention_apply seo_add3)

lemma seo_forEach_block: "shape_error_only (forEach_block tf bs x)"
  by (induction bs arbitrary: x) (simp_all add: seo_bind seo_Block_apply)

lemma seo_model_apply:
  "shape1 ids = blockSize (params m) \<Longrightarrow> shape_error_only (model_apply tf m ids)"
  by (simp add: model_apply_def Let_def seo_bind seo_add3 seo_forEach_block)

lemma idx_shaped_total:
  "\<exists>t. idx_shaped bs ids = Inr t \<and> shape0 t = shape0 ids \<and> shape1 t = bs"
  by (auto simp add: idx_shaped_def slice2_def concat1_def zeros_def Let_def)


lemma seo_slice_time: "shape_error_only (slice_time x p)"
  by (simp add: slice_time_def)

lemma seo_topk_values: "shape_error_only (topk_values x k)"
  by (simp add: topk_values_def)

lemma seo_greaterEqual: "shape_error_only (greaterEqual a b)"
  by (simp add: greaterEqual_def split: option.splits)

lemma seo_where_neginf: "shape_error_only (where_neginf a c)"
  by (simp add: where_neginf_def split: option.splits)

lemma seo_top_k_filter: "shape_error_only (top_k_filter v k l)"
  by (simp add: top_k_filter_def seo_bind seo_topk_values seo_slice2 seo_greaterEqual
      seo_where_neginf split: option.splits)

lemma seo_sample_next: "shape_error_only (sample_next rnd backend ds c l p)"
  by (simp add: sample_next_def Let_def seo_bind seo_slice2)

lemma seo_idx_shaped: "shape_error_only (idx_shaped bs ids)"
  by (simp add: idx_shaped_def Let_def seo_bind seo_slice2 seo_concat1)

lemma nse_Inr [simp]: "no_size_error (Inr v)"
  by (simp add: no_size_error_def)

lemma nse_seo: "shape_error_only r \<Longrightarrow> no_size_error r"
  by (auto simp add: no_size_error_def shape_error_only_def)

lemma nse_bind: "no_size_error r \<Longrightarrow> (\<And>v. r = Inr v \<Longrightarrow> no_size_error (f v)) \<Longrightarrow> no_size_error (bind_err r f)"
  by (cases r) (simp_all add: no_size_error_def)

lemma nse_emit:
  "no_size_error (bind_err (if c then bind_err (first_token t) (\<lambda>v. Inr (g v)) else Inr e0)
                    (\<lambda>em. Inr (F em)))"
  by (cases c) (auto simp add: first_token_def no_size_error_def split: list.splits)

lemma nse_generate_step: "no_size_error (generate_step tf rnd backend m gp on_char i st)"
proof -
  obtain t where t: "idx_shaped (blockSize (params m)) (cur st) = Inr t"
    and sh: "shape1 t = blockSize (params m)"
    using idx_shaped_total by blast
  have ma: "no_size_error (model_apply tf m t)"
    using sh by (simp add: nse_seo seo_model_apply)
  show ?thesis
    unfolding generate_step_def Let_def t bind_err_Inr
    apply (rule nse_bind [OF ma])
    apply (rule nse_bind [OF nse_seo [OF seo_slice_time]])
    apply (rule nse_bind [OF nse_seo [OF seo_top_k_filter]])
    apply (rule nse_bind [OF nse_seo [OF seo_sample_next]])
    subgoal for v va vb vc
      apply (cases vc)
      apply (simp only: prod.case)
      apply (rule nse_bind [OF nse_seo [OF seo_concat1]])
      apply (rule nse_emit)
      done
    done
qed

lemma generate_step_Inr:
  assumes "generate_step tf rnd backend m gp on_char i st = Inr (it, st')"
  shows "it_input it = cur st"
    and "idx_shaped (blockSize (params m)) (cur st) = Inr (it_idxShaped it)"
    and "model_apply tf m (it_idxShaped it) = Inr (it_logits it)"
    and "it_position it = (if i < blockSize (params m) then int i else int (blockSize (params m)) - 1)"
    and "slice_time (it_logits it) (it_position it) = Inr (it_sliced it)"
    and "it_scaled it = div_scalar (it_sliced it) (default_to 1.0 (temperature gp))"
    and "top_k_filter (vocabSize (params m)) (topK gp) (it_scaled it) = Inr (it_lastCharLogits it)"
    and "it_probs it = softmax2 (it_lastCharLogits it)"
    and "sample_next rnd backend (default_to False (doSample gp)) (draws st)
           (it_lastCharLogits it) (it_probs it)
         = Inr (it_sampled it, it_idxNextSliced it, it_idxNext it)"
    and "concat1 (cur st) (it_idxNext it) = Inr (it_output it)"
    and "cur st' = it_output it"
    and "draws st' = (if default_to False (doSample gp) then Suc (draws st) else draws st)"
  using assms unfolding generate_step_def Let_def
  by (auto simp add: bind_err_eq_Inr split: prod.splits)

lemma generate_loop_Inl:
  "generate_loop tf rnd backend m gp on_char i st its = Inl e
   \<Longrightarrow> \<exists>j s. generate_step tf rnd backend m gp on_char j s = Inl e"
proof (induction tf rnd backend m gp on_char i st its rule: generate_loop.induct)
  case (1 tf rnd backend m gp on_char i st its)
  show ?case
  proof (cases "i < maxNewTokens gp")
    case False
    with "1.prems" show ?thesis by (simp add: generate_loop.simps [of _ _ _ _ _ _ i])
  next
    case True
    show ?thesis
    proof (cases "generate_step tf rnd backend m gp on_char i st")
      case (Inl e')
      with True "1.prems" show ?thesis
        by (auto simp add: generate_loop.simps [of _ _ _ _ _ _ i])
    next
      case (Inr r)
      obtain it st' where r: "r = (it, st')" by (cases r)
      from True Inr r "1.prems"
      have "generate_loop tf rnd backend m gp on_char (Suc i) st' (its @ [it]) = Inl e"
        by (simp add: generate_loop.simps [of _ _ _ _ _ _ i])
      with "1.IH" [OF True Inr [unfolded r] refl] show ?thesis by blast
    qed
  qed
qed

lemma generate_loop_Inr:
  assumes "generate_loop tf rnd backend m gp on_char i st its = Inr (st', its')"
    and "I i st" and "\<forall>it\<in>set its. Q it"
    and step: "\<And>j s it s'. I j s \<Longrightarrow> j < maxNewTokens gp
                 \<Longrightarrow> generate_step tf rnd backend m gp on_char j s = Inr (it, s')
                 \<Longrightarrow> I (Suc j) s' \<and> Q it"
  shows "I (max i (maxNewTokens gp)) st' \<and> (\<forall>it\<in>set its'. Q it)
         \<and> length its' = length its + (maxNewTokens gp - i)"
  using assms
proof (induction tf rnd backend m gp on_char i st its rule: generate_loop.induct)
  case (1 tf rnd backend m gp on_char i st its)
  note step' = "1.prems"(4)
  show ?case
  proof (cases "i < maxNewTokens gp")
    case False
    with "1.prems" show ?thesis
      by (simp add: generate_loop.simps [of _ _ _ _ _ _ i] max_def)
  next
    case True
    show ?thesis
    proof (cases "generate_step tf rnd backend m gp on_char i st")
      case (Inl e')
      with True "1.prems" show ?thesis
        by (simp add: generate_loop.simps [of _ _ _ _ _ _ i])
    next
      case (Inr r)
      obtain it s1 where r: "r = (it, s1)" by (cases r)
      from True Inr r "1.prems"
      have loop: "generate_loop tf rnd backend m gp on_char (Suc i) s1 (its @ [it]) = Inr (st', its')"
        by (simp add: generate_loop.simps [of _ _ _ _ _ _ i])
      from step' [OF "1.prems"(2) True Inr [unfolded r]]
      have I1: "I (Suc i) s1" and Qit: "Q it" by simp_all
      from "1.prems"(3) Qit have Qs: "\<forall>a\<in>set (its @ [it]). Q a" by simp
      from "1.IH" [OF True Inr [unfolded r] refl loop I1 Qs step'] True
      show ?thesis by (simp add: max_def)
    qed
  qed
qed


lemma map2_append_replicate:
  "n = length xs \<Longrightarrow> map2 (@) xs (replicate n z) = map (\<lambda>r. r @ z) xs"
  by (induction xs arbitrary: n) auto

lemma wf2_rows: "wf2 t \<Longrightarrow> r \<in> set (vals t) \<Longrightarrow> length r = shape1 t"
  by (simp add: wf2_def list_all_iff)

lemma idx_shaped_wf2:
  assumes "wf2 ids"
  shows "idx_shaped bs ids =
           Inr \<lparr>shape0 = shape0 ids, shape1 = bs,
                vals = map (\<lambda>r. drop (shape1 ids - bs) r @ replicate (bs - shape1 ids) 0) (vals ids)\<rparr>"
proof -
  have len: "length (vals ids) = shape0 ids"
    using assms by (simp add: wf2_def)
  have rows: "\<And>r. r \<in> set (vals ids) \<Longrightarrow> length r = shape1 ids"
    using assms by (rule wf2_rows)
  have sl: "slice2 ids (0, max 0 (int (shape1 ids) - int bs)) (-1, min (int (shape1 ids)) (int bs))
            = Inr \<lparr>shape0 = shape0 ids, shape1 = min (shape1 ids) bs,
                   vals = map (drop (shape1 ids - bs)) (vals ids)\<rparr>"
    using len rows
    by (auto simp add: slice2_def Let_def nat_diff_distrib' min_def max_def)
  show ?thesis
    unfolding idx_shaped_def Let_def sl bind_err_Inr
    using len
    by (auto simp add: concat1_def zeros_def map2_append_replicate nat_diff_distrib')
qed


lemma generate_no_size_error: "no_size_error (generate tf rnd backend m gp on_char)"
proof -
  have "generate tf rnd backend m gp on_char \<noteq> Inl (SequenceSizeError a b)" for a b
  proof
    assume "generate tf rnd backend m gp on_char = Inl (SequenceSizeError a b)"
    then have "generate_run tf rnd backend m gp on_char = Inl (SequenceSizeError a b)"
      by (simp add: generate_def split: sum.splits prod.splits)
    then obtain j s where "generate_step tf rnd backend m gp on_char j s = Inl (SequenceSizeError a b)"
      unfolding generate_run_def using generate_loop_Inl by blast
    with nse_generate_step [of tf rnd backend m gp on_char j s] show False
      by (simp add: no_size_error_def)
  qed
  then show ?thesis by (simp add: no_size_error_def)
qed

text \<open>
  C9. \<^verbatim>\<open>model.apply\<close> raises the sequence-size error, which carries the required size,
  exactly for an input whose time length differs from \<open>blockSize\<close>. \<^verbatim>\<open>generate\<close> never
  raises it: the model input it builds always has the time length \<open>blockSize\<close>, being
  the running sequence without its front when that is longer, and with zeros at its
  end when it is shorter.
\<close>

theorem apply_checks_sequence_size:
  "(shape1 ids \<noteq> blockSize (params m) \<longrightarrow>
      model_apply tf m ids = Inl (SequenceSizeError (blockSize (params m)) (shape1 ids)))
   \<and> (shape1 ids = blockSize (params m) \<longrightarrow>
      (\<forall>a b. model_apply tf m ids \<noteq> Inl (SequenceSizeError a b)))
   \<and> (\<forall>a b. generate tf rnd backend m gp on_char \<noteq> Inl (SequenceSizeError a b))
   \<and> (\<exists>t. idx_shaped (blockSize (params m)) running = Inr t
          \<and> shape0 t = shape0 running \<and> shape1 t = blockSize (params m))
   \<and> (wf2 running \<longrightarrow>
      idx_shaped (blockSize (params m)) running =
        Inr \<lparr>shape0 = shape0 running, shape1 = blockSize (params m),
             vals = map (\<lambda>r. drop (shape1 running - blockSize (params m)) r
                              @ replicate (blockSize (params m) - shape1 running) 0)
                      (vals running)\<rparr>)"
proof (intro conjI impI)
  assume "shape1 ids \<noteq> blockSize (params m)"
  then show "model_apply tf m ids = Inl (SequenceSizeError (blockSize (params m)) (shape1 ids))"
    by (simp add: model_apply_def)
next
  assume "shape1 ids = blockSize (params m)"
  then have "no_size_error (model_apply tf m ids)"
    by (simp add: nse_seo seo_model_apply)
  then show "\<forall>a b. model_apply tf m ids \<noteq> Inl (SequenceSizeError a b)"
    by (simp add: no_size_error_def)
next
  show "\<forall>a b. generate tf rnd backend m gp on_char \<noteq> Inl (SequenceSizeError a b)"
    using generate_no_size_error [of tf rnd backend m gp on_char]
    by (simp add: no_size_error_def)
next
  show "\<exists>t. idx_shaped (blockSize (params m)) running = Inr t
          \<and> shape0 t = shape0 running \<and> shape1 t = blockSize (params m)"
    by (rule idx_shaped_total)
next
  assume "wf2 running"
  then show "idx_shaped (blockSize (params m)) running =
        Inr \<lparr>shape0 = shape0 running, shape1 = blockSize (params m),
             vals = map (\<lambda>r. drop (shape1 running - blockSize (params m)) r
                              @ replicate (blockSize (params m) - shape1 running) 0)
                      (vals running)\<rparr>"
    by (rule idx_shaped_wf2)
qed

theorem apply_checks_sequence_size_witness:
  "model_apply demo_tf demo_model0 (demo_idx [[1, 2, 3]]) = Inl (SequenceSizeError 2 3)
   \<and> (\<forall>a b. model_apply demo_tf demo_model0 (demo_idx [[1, 2]]) \<noteq> Inl (SequenceSizeError a b))
   \<and> idx_shaped 2 (demo_idx [[5, 6, 7]]) = Inr (demo_idx [[6, 7]])
   \<and> idx_shaped 2 (demo_idx [[5]]) = Inr (demo_idx [[5, 0]])"
  using apply_checks_sequence_size [of "demo_idx [[1, 2, 3]]" demo_model0 demo_tf demo_rnd "''cpu''"
          "demo_gp [[1]] 1 None None" False "demo_idx [[5, 6, 7]]"]
        apply_checks_sequence_size [of "demo_idx [[1, 2]]" demo_model0 demo_tf demo_rnd "''cpu''"
          "demo_gp [[1]] 1 None None" False "demo_idx [[5]]"]
  by (simp add: demo_idx_def demo_model0_def demo_params_def wf2_def)

lemma array_from_ok:
  assumes "\<And>i c. \<exists>x c'. f i c = (Inr x, c') \<and> P x"
  shows "\<exists>xs c'. array_from ix f c = (Inr xs, c') \<and> length xs = length ix \<and> (\<forall>x\<in>set xs. P x)"
proof (induction ix arbitrary: c)
  case Nil
  show ?case by simp
next
  case (Cons i ix)
  from assms obtain x c1 where f: "f i c = (Inr x, c1)" and Px: "P x" by blast
  from Cons.IH [of c1] obtain xs c2
    where r: "array_from ix f c1 = (Inr xs, c2)" and l: "length xs = length ix"
      and a: "\<forall>x\<in>set xs. P x" by blast
  show ?case using f Px r l a by simp
qed

lemma js_mod_divides: "js_mod a b = Some 0 \<longleftrightarrow> 0 < b \<and> b dvd a"
  by (auto simp add: js_mod_def)

lemma bind_made_Inl [simp]: "bind_made (Inl e, s) f = (Inl e, s)"
  by (simp add: bind_made_def)

lemma bind_made_Inr [simp]: "bind_made (Inr v, s) f = f v s"
  by (simp add: bind_made_def)

lemma bind_made_eq_Inr:
  "bind_made r f = (Inr y, c') \<longleftrightarrow> (\<exists>v c. r = (Inr v, c) \<and> f v c = (Inr y, c'))"
  by (cases r) (auto simp add: bind_made_def split: sum.splits)

lemma tf_layers_made: "positive_sizes l \<Longrightarrow> tf_layers l c = (Inr l, c @ [l])"
  by (simp add: tf_layers_def)

lemma tf_layers_refused: "\<not> positive_sizes l \<Longrightarrow> tf_layers l c = (Inl TfValueError, c)"
  by (simp add: tf_layers_def)

lemma tf_layers_eq_Inr:
  "tf_layers l c = (Inr l', c') \<longleftrightarrow> positive_sizes l \<and> l' = l \<and> c' = c @ [l]"
  by (auto simp add: tf_layers_def)

lemma Head_ok:
  "0 < hs \<Longrightarrow> \<exists>h1 c'. Head n_embd hs bs ad name c = (Inr h1, c') \<and> head_ok hs h1"
  by (simp add: Head_def tf_layers_made withLayerHelpers_def Let_def head_ok_def)

lemma Head_refused: "Head n_embd 0 bs ad name c = (Inl TfValueError, c)"
  by (simp add: Head_def tf_layers_refused)

lemma Head_Inr:
  assumes "Head n_embd hs bs ad name c = (Inr h1, c')"
  shows "0 < hs"
    and "h1 = \<lparr>head_key = Dense (name @ ''-key'') hs False None,
               head_query = Dense (name @ ''-query'') hs False None,
               head_value = Dense (name @ ''-value'') hs False None,
               head_drop = Dropout (name @ ''-drop'') ad,
               head_tril = bandPart (ones bs bs) (-1) 0, head_headSize = hs\<rparr>"
  using assms
  by (auto simp add: Head_def bind_made_eq_Inr tf_layers_eq_Inr withLayerHelpers_def Let_def)

lemma CausalSelfAttention_fails:
  "\<not> (0 < n_head \<and> n_head dvd n_embd)
   \<Longrightarrow> CausalSelfAttention n_embd bs n_head ad rd name c = (Inl HeadSizeError, c)"
  by (simp add: CausalSelfAttention_def js_mod_divides)

lemma head_size_positive:
  fixes n_head n_embd :: nat
  assumes "0 < n_head" "n_head dvd n_embd" "0 < n_embd"
  shows "0 < n_embd div n_head"
proof -
  have "n_head \<le> n_embd" using assms(2,3) by (rule dvd_imp_le)
  then show ?thesis using assms(1) by (simp add: div_greater_zero_iff)
qed

lemma CausalSelfAttention_ok:
  assumes "0 < n_head" "n_head dvd n_embd" "0 < n_embd"
  shows "\<exists>a c'. CausalSelfAttention n_embd bs n_head ad rd name c = (Inr a, c')
           \<and> length (attn_heads a) = n_head
           \<and> (\<forall>h1\<in>set (attn_heads a). head_ok (n_embd div n_head) h1)"
proof -
  let ?f = "\<lambda>i. Head n_embd (n_embd div n_head) bs ad (name @ ''-head'' @ string_of_nat i)"
  have "\<exists>x c'. ?f i c = (Inr x, c') \<and> head_ok (n_embd div n_head) x" for i c
    by (rule Head_ok [OF head_size_positive [OF assms]])
  from array_from_ok [of ?f "head_ok (n_embd div n_head)" "[0..<n_head]" c, OF this]
  obtain xs c1 where "array_from [0..<n_head] ?f c = (Inr xs, c1)" "length xs = n_head"
    "\<forall>x\<in>set xs. head_ok (n_embd div n_head) x" by auto
  then show ?thesis using assms
    by (simp add: CausalSelfAttention_def js_mod_divides Let_def tf_layers_made withLayerHelpers_def)
qed

lemma upt_Suc_Cons: "0 < n \<Longrightarrow> [0..<n] = 0 # [1..<n]"
  by (simp add: upt_rec)

lemma CausalSelfAttention_refused:
  assumes "0 < n_head"
  shows "CausalSelfAttention 0 bs n_head ad rd name c = (Inl TfValueError, c)"
proof -
  have ix: "[0..<n_head] = 0 # [1..<n_head]" using assms by (simp add: upt_Suc_Cons)
  show ?thesis
    using assms by (simp add: CausalSelfAttention_def js_mod_divides Let_def ix Head_refused)
qed

lemma FeedForward_ok:
  "0 < n_embd \<Longrightarrow> \<exists>f c'. FeedForward n_embd rd name c = (Inr f, c')"
  by (simp add: FeedForward_def tf_layers_made)

lemma Block_ok:
  assumes "0 < n_head" "n_head dvd n_embd" "0 < n_embd"
  shows "\<exists>b c'. Block n_embd n_head bs rd ad name c = (Inr b, c') \<and> block_ok n_head (n_embd div n_head) b"
proof -
  from CausalSelfAttention_ok [OF assms, of bs ad rd "name @ ''-attn''"
      "c @ [LayerNormalization (name @ ''-ln1'')]"]
  obtain a c2 where a: "CausalSelfAttention n_embd bs n_head ad rd (name @ ''-attn'')
                         (c @ [LayerNormalization (name @ ''-ln1'')]) = (Inr a, c2)"
    "length (attn_heads a) = n_head" "\<forall>h1\<in>set (attn_heads a). head_ok (n_embd div n_head) h1"
    by blast
  from FeedForward_ok [OF assms(3), of rd "name @ ''-mlp''" "c2 @ [LayerNormalization (name @ ''-ln2'')]"]
  obtain f c4 where f: "FeedForward n_embd rd (name @ ''-mlp'')
                          (c2 @ [LayerNormalization (name @ ''-ln2'')]) = (Inr f, c4)" by blast
  show ?thesis
    using a f by (simp add: Block_def tf_layers_made block_ok_def withLayerHelpers_def)
qed

lemma Block_fails:
  "\<not> (0 < n_head \<and> n_head dvd n_embd)
   \<Longrightarrow> Block n_embd n_head bs rd ad name c = (Inl HeadSizeError, c @ [LayerNormalization (name @ ''-ln1'')])"
  by (simp add: Block_def tf_layers_made CausalSelfAttention_fails)

lemma string_of_nat_1: "string_of_nat (Suc 0) = ''1''"
  by (simp add: digit_char_def)

lemma GPT_fails:
  assumes "1 \<le> nLayer p" "0 < nEmbd p" "0 < blockSize p"
    "\<not> (0 < nHead p \<and> nHead p dvd nEmbd p)"
  shows "GPT p c0 = (Inl HeadSizeError,
           c0 @ [Embedding ''wte'' (vocabSize p + 1) (nEmbd p) True,
                 Embedding ''wpe'' (blockSize p) (nEmbd p) False,
                 Dropout ''drop'' (default_to 0.1 (embdDropout p)),
                 Add ''add'',
                 LayerNormalization ''block1-ln1''])"
proof -
  have ix: "[0..<nLayer p] = 0 # [1..<nLayer p]"
    using assms(1) by (simp add: upt_Suc_Cons)
  show ?thesis
    unfolding GPT_def Let_def ix
    using assms(2,3) by (simp add: tf_layers_made Block_fails [OF assms(4)] digit_char_def)
qed

lemma GPT_refused:
  assumes "nEmbd p = 0 \<or> blockSize p = 0"
  shows "fst (GPT p c0) = Inl TfValueError"
proof (cases "nEmbd p = 0")
  case True
  then show ?thesis by (simp add: GPT_def Let_def tf_layers_refused)
next
  case False
  then have "blockSize p = 0" using assms by simp
  with False show ?thesis by (simp add: GPT_def Let_def tf_layers_made tf_layers_refused)
qed

lemma GPT_blocks:
  assumes "0 < nEmbd p" "0 < blockSize p" "nLayer p = 0 \<or> 0 < nHead p \<and> nHead p dvd nEmbd p"
  shows "\<exists>xs c5. GPT p c0 =
           bind_made (tf_layers (Dense ''lmHead'' (vocabSize p) False None)
                        (c5 @ [LayerNormalization ''lnF''])) (\<lambda>lmHead' c7.
             (Inr \<lparr>params = p, wte = Embedding ''wte'' (vocabSize p + 1) (nEmbd p) True,
                   wpe = Embedding ''wpe'' (blockSize p) (nEmbd p) False,
                   drop_layer = Dropout ''drop'' (default_to 0.1 (embdDropout p)),
                   add_layer = Add ''add'', h_blocks = xs, lnF = LayerNormalization ''lnF'',
                   lmHead = lmHead'\<rparr>, c7))
         \<and> length xs = nLayer p
         \<and> (\<forall>b\<in>set xs. block_ok (nHead p) (nEmbd p div nHead p) b)"
proof -
  let ?f = "\<lambda>i. Block (nEmbd p) (nHead p) (blockSize p) (default_to 0.1 (residDropout p))
                   (default_to 0.1 (attnDropout p)) (''block'' @ string_of_nat (i + 1))"
  let ?c4 = "c0 @ [Embedding ''wte'' (vocabSize p + 1) (nEmbd p) True,
              Embedding ''wpe'' (blockSize p) (nEmbd p) False,
              Dropout ''drop'' (default_to 0.1 (embdDropout p)), Add ''add'']"
  have "\<exists>xs c'. array_from [0..<nLayer p] ?f ?c4 = (Inr xs, c') \<and> length xs = nLayer p
          \<and> (\<forall>x\<in>set xs. block_ok (nHead p) (nEmbd p div nHead p) x)"
  proof (cases "nLayer p = 0")
    case True
    then show ?thesis by simp
  next
    case False
    then have h: "0 < nHead p" "nHead p dvd nEmbd p" using assms(3) by simp_all
    have "\<exists>x c'. ?f i c = (Inr x, c') \<and> block_ok (nHead p) (nEmbd p div nHead p) x" for i c
      by (rule Block_ok [OF h assms(1)])
    from array_from_ok [of ?f "block_ok (nHead p) (nEmbd p div nHead p)" "[0..<nLayer p]", OF this]
    show ?thesis by simp
  qed
  then obtain xs c' where
    "array_from [0..<nLayer p] ?f ?c4 = (Inr xs, c')"
    "length xs = nLayer p" "\<forall>x\<in>set xs. block_ok (nHead p) (nEmbd p div nHead p) x"
    by blast
  then show ?thesis
    using assms(1,2) by (auto simp add: GPT_def Let_def tf_layers_made withModelHelpers_def)
qed

lemma GPT_ok:
  assumes "0 < nEmbd p" "0 < blockSize p" "nLayer p = 0 \<or> 0 < nHead p \<and> nHead p dvd nEmbd p"
    and "0 < vocabSize p"
  shows "\<exists>m c'. GPT p c0 = (Inr m, c') \<and> params m = p \<and> length (h_blocks m) = nLayer p
           \<and> (\<forall>b\<in>set (h_blocks m). block_ok (nHead p) (nEmbd p div nHead p) b)
           \<and> lmHead m = Dense ''lmHead'' (vocabSize p) False None"
  using GPT_blocks [OF assms(1-3), of c0] assms(4)
  by (auto simp add: tf_layers_made)

lemma GPT_no_head:
  assumes "0 < nEmbd p" "0 < blockSize p" "nLayer p = 0 \<or> 0 < nHead p \<and> nHead p dvd nEmbd p"
  shows "fst (GPT p c0) \<noteq> Inl HeadSizeError"
proof (cases "0 < vocabSize p")
  case True
  from GPT_ok [OF assms True, of c0] show ?thesis by auto
next
  case False
  with GPT_blocks [OF assms, of c0] show ?thesis
    by (auto simp add: tf_layers_refused)
qed

lemma GPT_head_size_error:
  "fst (GPT p c0) = Inl HeadSizeError
   \<longleftrightarrow> 1 \<le> nLayer p \<and> 0 < nEmbd p \<and> 0 < blockSize p \<and> \<not> (0 < nHead p \<and> nHead p dvd nEmbd p)"
proof
  assume e: "fst (GPT p c0) = Inl HeadSizeError"
  have 1: "0 < nEmbd p \<and> 0 < blockSize p"
  proof (rule ccontr)
    assume "\<not> (0 < nEmbd p \<and> 0 < blockSize p)"
    then have "nEmbd p = 0 \<or> blockSize p = 0" by auto
    from GPT_refused [OF this, of c0] e show False by simp
  qed
  then have "\<not> (nLayer p = 0 \<or> 0 < nHead p \<and> nHead p dvd nEmbd p)"
    using GPT_no_head [of p c0] e by blast
  with 1 show "1 \<le> nLayer p \<and> 0 < nEmbd p \<and> 0 < blockSize p \<and> \<not> (0 < nHead p \<and> nHead p dvd nEmbd p)"
    by auto
next
  assume "1 \<le> nLayer p \<and> 0 < nEmbd p \<and> 0 < blockSize p \<and> \<not> (0 < nHead p \<and> nHead p dvd nEmbd p)"
  then show "fst (GPT p c0) = Inl HeadSizeError"
    using GPT_fails [of p c0] by simp
qed

lemma CausalSelfAttention_head_size_error:
  "fst (CausalSelfAttention n_embd bs n_head ad rd name c) = Inl HeadSizeError
   \<longleftrightarrow> \<not> (0 < n_head \<and> n_head dvd n_embd)"
proof (cases "0 < n_head \<and> n_head dvd n_embd")
  case False
  then show ?thesis by (simp add: CausalSelfAttention_fails)
next
  case True
  show ?thesis
  proof (cases "0 < n_embd")
    case True
    from CausalSelfAttention_ok [of n_head n_embd bs ad rd name c] \<open>0 < n_head \<and> n_head dvd n_embd\<close> True
    show ?thesis by auto
  next
    case False
    then have "n_embd = 0" by simp
    with \<open>0 < n_head \<and> n_head dvd n_embd\<close> show ?thesis
      by (simp add: CausalSelfAttention_refused)
  qed
qed

text \<open>
  C10, as stated, fails for a model without layers: no attention module is constructed,
  and the construction succeeds although \<open>nEmbd\<close> is not divisible by \<open>nHead\<close>.
\<close>

theorem head_size_check_counterexample:
  "\<not> (3::nat) dvd 4
   \<and> \<not> isl (fst (GPT \<lparr>nLayer = 0, nHead = 3, nEmbd = 4, vocabSize = 3, blockSize = 2,
                        embdDropout = None, residDropout = None, attnDropout = None\<rparr> []))"
  by (simp add: GPT_def tf_layers_def withModelHelpers_def Let_def)

text \<open>
  C10, amended. The attention module raises the head-size error exactly when \<open>nHead\<close> is
  zero or does not divide \<open>nEmbd\<close>, and then it has created no layer. The construction
  of the model raises that error exactly when, moreover, there is at least one layer
  and \<open>nEmbd\<close> and \<open>blockSize\<close> are positive: without layers no attention module is
  constructed, and with \<open>nEmbd\<close> or \<open>blockSize\<close> zero the library refuses an embedding
  layer first. When the error is raised, the layers created until then are the four
  layers of the embedding stage and the first normalization of the first block. Where
  \<open>nEmbd\<close>, \<open>blockSize\<close> and \<open>vocabSize\<close> are positive and either there is no layer or
  \<open>nHead\<close> is positive and divides \<open>nEmbd\<close>, the construction succeeds, with \<open>nLayer\<close>
  blocks of \<open>nHead\<close> heads each, every head of size \<open>nEmbd / nHead\<close>.
\<close>

theorem head_size_check:
  "(fst (CausalSelfAttention n_embd bs n_head ad rd name c) = Inl HeadSizeError
      \<longleftrightarrow> \<not> (0 < n_head \<and> n_head dvd n_embd))
   \<and> (\<not> (0 < n_head \<and> n_head dvd n_embd) \<longrightarrow>
        snd (CausalSelfAttention n_embd bs n_head ad rd name c) = c)
   \<and> (fst (GPT p c0) = Inl HeadSizeError
      \<longleftrightarrow> 1 \<le> nLayer p \<and> 0 < nEmbd p \<and> 0 < blockSize p
          \<and> \<not> (0 < nHead p \<and> nHead p dvd nEmbd p))
   \<and> (1 \<le> nLayer p \<and> 0 < nEmbd p \<and> 0 < blockSize p
        \<and> \<not> (0 < nHead p \<and> nHead p dvd nEmbd p) \<longrightarrow>
      snd (GPT p c0) =
        c0 @ [Embedding ''wte'' (vocabSize p + 1) (nEmbd p) True,
              Embedding ''wpe'' (blockSize p) (nEmbd p) False,
              Dropout ''drop'' (default_to 0.1 (embdDropout p)),
              Add ''add'',
              LayerNormalization ''block1-ln1''])
   \<and> (0 < nEmbd p \<and> 0 < blockSize p \<and> 0 < vocabSize p
        \<and> (nLayer p = 0 \<or> 0 < nHead p \<and> nHead p dvd nEmbd p) \<longrightarrow>
      (\<exists>m c'. GPT p c0 = (Inr m, c') \<and> params m = p \<and> length (h_blocks m) = nLayer p
         \<and> (\<forall>b\<in>set (h_blocks m). block_ok (nHead p) (nEmbd p div nHead p) b)))"
proof (intro conjI impI)
  show "fst (CausalSelfAttention n_embd bs n_head ad rd name c) = Inl HeadSizeError
      \<longleftrightarrow> \<not> (0 < n_head \<and> n_head dvd n_embd)"
    by (rule CausalSelfAttention_head_size_error)
  show "fst (GPT p c0) = Inl HeadSizeError
      \<longleftrightarrow> 1 \<le> nLayer p \<and> 0 < nEmbd p \<and> 0 < blockSize p
          \<and> \<not> (0 < nHead p \<and> nHead p dvd nEmbd p)"
    by (rule GPT_head_size_error)
next
  assume "\<not> (0 < n_head \<and> n_head dvd n_embd)"
  then show "snd (CausalSelfAttention n_embd bs n_head ad rd name c) = c"
    by (simp add: CausalSelfAttention_fails)
next
  assume "1 \<le> nLayer p \<and> 0 < nEmbd p \<and> 0 < blockSize p
        \<and> \<not> (0 < nHead p \<and> nHead p dvd nEmbd p)"
  then show "snd (GPT p c0) =
        c0 @ [Embedding ''wte'' (vocabSize p + 1) (nEmbd p) True,
              Embedding ''wpe'' (blockSize p) (nEmbd p) False,
              Dropout ''drop'' (default_to 0.1 (embdDropout p)),
              Add ''add'',
              LayerNormalization ''block1-ln1'']"
    using GPT_fails [of p c0] by simp
next
  assume "0 < nEmbd p \<and> 0 < blockSize p \<and> 0 < vocabSize p
        \<and> (nLayer p = 0 \<or> 0 < nHead p \<and> nHead p dvd nEmbd p)"
  then show "\<exists>m c'. GPT p c0 = (Inr m, c') \<and> params m = p \<and> length (h_blocks m) = nLayer p
         \<and> (\<forall>b\<in>set (h_blocks m). block_ok (nHead p) (nEmbd p div nHead p) b)"
    using GPT_ok [of p c0] by blast
qed

theorem head_size_check_witness:
  "GPT (demo_params\<lparr>nHead := 3\<rparr>) [] =
     (Inl HeadSizeError,
      [Embedding ''wte'' 4 4 True, Embedding ''wpe'' 2 4 False, Dropout ''drop'' 0.1, Add ''add'',
       LayerNormalization ''block1-ln1''])
   \<and> CausalSelfAttention 4 2 3 0.1 0.1 ''block1-attn'' [] = (Inl HeadSizeError, [])
   \<and> fst (GPT (demo_params\<lparr>nHead := 3, nLayer := 0\<rparr>) []) \<noteq> Inl HeadSizeError
   \<and> fst (GPT (demo_params\<lparr>nHead := 3, nEmbd := 0\<rparr>) []) \<noteq> Inl HeadSizeError
   \<and> (\<exists>m c'. GPT (demo_params\<lparr>nHead := 3, nLayer := 0\<rparr>) [] = (Inr m, c')
         \<and> length (h_blocks m) = 0)
   \<and> (\<exists>m c'. GPT demo_params [] = (Inr m, c') \<and> params m = demo_params \<and> length (h_blocks m) = 1
         \<and> (\<forall>b\<in>set (h_blocks m). block_ok 2 2 b))"
  using head_size_check [of 4 2 3 "0.1" "0.1" "''block1-attn''" "[]" "demo_params\<lparr>nHead := 3\<rparr>" "[]"]
        head_size_check [of 4 2 3 "0.1" "0.1" "''block1-attn''" "[]"
          "demo_params\<lparr>nHead := 3, nLayer := 0\<rparr>" "[]"]
        head_size_check [of 4 2 3 "0.1" "0.1" "''block1-attn''" "[]"
          "demo_params\<lparr>nHead := 3, nEmbd := 0\<rparr>" "[]"]
        head_size_check [of 4 2 3 "0.1" "0.1" "''block1-attn''" "[]" demo_params "[]"]
  by (auto simp add: demo_params_def default_to_def prod_eq_iff)

lemma mk2_sel [simp]:
  "shape0 (mk2 n0 n1 f) = n0" "shape1 (mk2 n0 n1 f) = n1"
  by (simp_all add: mk2_def)

lemma mk3_sel [simp]:
  "dim0 (mk3 n0 n1 n2 f) = n0" "dim1 (mk3 n0 n1 n2 f) = n1" "dim2 (mk3 n0 n1 n2 f) = n2"
  by (simp_all add: mk3_def)

lemma at2_mk2 [simp]: "i < n0 \<Longrightarrow> j < n1 \<Longrightarrow> at2 (mk2 n0 n1 f) i j = f i j"
  by (simp add: mk2_def at2_def)

lemma at3_mk3 [simp]: "b < n0 \<Longrightarrow> i < n1 \<Longrightarrow> j < n2 \<Longrightarrow> at3 (mk3 n0 n1 n2 f) b i j = f b i j"
  by (simp add: mk3_def at3_def)

lemma wf2_mk2 [simp]: "wf2 (mk2 n0 n1 f)"
  by (simp add: wf2_def mk2_def list_all_iff)

lemma wf3_mk3 [simp]: "wf3 (mk3 n0 n1 n2 f)"
  by (simp add: wf3_def mk3_def list_all_iff)

lemma mk3_cong:
  "(\<And>b i j. b < n0 \<Longrightarrow> i < n1 \<Longrightarrow> j < n2 \<Longrightarrow> f b i j = g b i j) \<Longrightarrow> mk3 n0 n1 n2 f = mk3 n0 n1 n2 g"
  by (simp add: mk3_def)

lemma tril_entries:
  "i < bs \<Longrightarrow> j < bs \<Longrightarrow> at2 (bandPart (ones bs bs) (-1) 0) i j = (if j \<le> i then 1 else 0)"
  by (simp add: bandPart_def ones_def)

lemma slice2_square:
  assumes "slice2 t (0, 0) (int n, int n) = Inr tr" "i < n" "j < n" "wf2 t"
  shows "shape0 tr = n \<and> shape1 tr = n \<and> n \<le> shape0 t \<and> n \<le> shape1 t \<and> at2 tr i j = at2 t i j"
  using assms
  by (auto simp add: slice2_def Let_def at2_def wf2_def split: if_splits)

lemma at2_equal0:
  "i < length (vals m) \<Longrightarrow> j < length (vals m ! i) \<Longrightarrow> at2 (equal0 m) i j \<longleftrightarrow> at2 m i j = 0"
  by (simp add: equal0_def at2_def)

lemma softmax_row_neginf:
  "j < length r \<Longrightarrow> r ! j = NegInf \<Longrightarrow> softmax_row r ! j = 0"
  by (simp add: softmax_row_def)

lemma at3_softmax3:
  "b < length (elems att) \<Longrightarrow> i < length (elems att ! b) \<Longrightarrow> j < length (elems att ! b ! i)
   \<Longrightarrow> at3 att b i j = NegInf \<Longrightarrow> at3 (softmax3 att) b i j = 0"
  by (simp add: softmax3_def at3_def softmax_row_neginf)

lemma bcast_ix_id: "i < n \<Longrightarrow> bcast_ix n i = i"
  by (auto simp add: bcast_ix_def)

lemma bcast_dim_same [simp]: "bcast_dim n n = Some n"
  by (simp add: bcast_dim_def)

lemma wf2_slice2: "slice2 t b s = Inr tr \<Longrightarrow> wf2 t \<Longrightarrow> wf2 tr"
  by (auto simp add: slice2_def Let_def wf2_def list_all_iff split: if_splits dest!: in_set_takeD in_set_dropD)

lemma at2_equal0_wf:
  "wf2 m \<Longrightarrow> i < shape0 m \<Longrightarrow> j < shape1 m \<Longrightarrow> at2 (equal0 m) i j \<longleftrightarrow> at2 m i j = 0"
  by (simp add: at2_equal0 wf2_def list_all_length)

lemma Head_tril: "Head n_embd hs bs ad name c = (Inr h1, c') \<Longrightarrow> head_tril h1 = bandPart (ones bs bs) (-1) 0"
  by (drule Head_Inr(2)) simp

lemma mask_entries:
  assumes sl: "slice2 (bandPart (ones bs bs) (-1) 0) (0, 0) (int T, int T) = Inr tr"
    and "i < T" "j < T"
  shows "at2 (equal0 tr) i j \<longleftrightarrow> i < j"
proof -
  have wft: "wf2 (bandPart (ones bs bs) (-1) 0)"
    by (simp add: bandPart_def)
  from slice2_square [OF sl assms(2,3) wft]
  have sh: "shape0 tr = T" "shape1 tr = T" and le: "T \<le> bs"
    and e: "at2 tr i j = at2 (bandPart (ones bs bs) (-1) 0) i j"
    by (simp_all add: bandPart_def ones_def)
  have "wf2 tr" using wf2_slice2 [OF sl wft] .
  then have "at2 (equal0 tr) i j \<longleftrightarrow> at2 tr i j = 0"
    using sh assms(2,3) by (simp add: at2_equal0_wf)
  also have "\<dots> \<longleftrightarrow> i < j"
    using e le assms(2,3) by (simp add: tril_entries)
  finally show ?thesis .
qed

lemma row_at3:
  "wf3 t \<Longrightarrow> k < dim0 t \<Longrightarrow> i < dim1 t \<Longrightarrow> elems t ! k ! i = map (\<lambda>j. at3 t k i j) [0..<dim2 t]"
  by (auto simp add: wf3_def list_all_length at3_def intro!: nth_equalityI)

lemma at3_row:
  "elems t' ! k ! i = elems t ! k ! i \<Longrightarrow> at3 t' k i j = at3 t k i j"
  by (simp add: at3_def)

lemma at3_mul_scalar_mk3:
  "n < n0 \<Longrightarrow> i < n1 \<Longrightarrow> j < n2 \<Longrightarrow> at3 (mul_scalar (mk3 n0 n1 n2 f) s) n i j = f n i j * s"
  by (simp add: mul_scalar_def at3_def mk3_def)

lemma mul_scalar_mk3: "mul_scalar (mk3 n0 n1 n2 f) s = mk3 n0 n1 n2 (\<lambda>n i j. f n i j * s)"
  by (simp add: mul_scalar_def mk3_def)

lemma row_softmax3_mk3:
  "k < n0 \<Longrightarrow> i < n1
   \<Longrightarrow> elems (softmax3 (mk3 n0 n1 n2 f)) ! k ! i = softmax_row (map (\<lambda>j. f k i j) [0..<n2])"
  by (simp add: softmax3_def mk3_def)

lemma softmax3_dims [simp]:
  "dim0 (softmax3 a) = dim0 a" "dim1 (softmax3 a) = dim1 a" "dim2 (softmax3 a) = dim2 a"
  by (simp_all add: softmax3_def)

lemma sum_list_all_zero:
  "(\<And>x. x \<in> set xs \<Longrightarrow> f x = 0) \<Longrightarrow> sum_list (map f xs) = (0 :: real)"
  by (induction xs) simp_all

lemma sum_list_upt_zero_tail:
  fixes f :: "nat \<Rightarrow> real"
  assumes "m \<le> n" "\<And>l. m \<le> l \<Longrightarrow> l < n \<Longrightarrow> f l = 0"
  shows "(\<Sum>l\<leftarrow>[0..<n]. f l) = (\<Sum>l\<leftarrow>[0..<m]. f l)"
proof -
  have "[0..<n] = [0..<m] @ [m..<n]"
    using assms(1) by (metis le_add_diff_inverse upt_add_eq_append zero_le)
  moreover have "(\<Sum>l\<leftarrow>[m..<n]. f l) = 0"
    by (rule sum_list_all_zero) (simp add: assms(2))
  ultimately show ?thesis by simp
qed

lemma sum_list_upt_cong:
  "(\<And>l. l < n \<Longrightarrow> f l = g l) \<Longrightarrow> (\<Sum>l\<leftarrow>[0..<n]. f l) = (\<Sum>l\<leftarrow>[0..<n]. (g l :: real))"
  by (rule arg_cong [where f = sum_list], rule map_cong) simp_all

lemma Head_scores_explicit:
  assumes hd: "Head n_embd hs bs ad name c = (Inr h1, c')"
    and q: "shape3 (layer_apply tf (head_query h1) x) B T hs"
    and k: "shape3 (layer_apply tf (head_key h1) x) B T hs"
    and T: "dim1 x = T" and le: "T \<le> bs"
  shows "Head_scores tf h1 x
         = Inr (mk3 B T T (masked_scores hs (layer_apply tf (head_query h1) x)
                                            (layer_apply tf (head_key h1) x)))"
proof -
  let ?q = "layer_apply tf (head_query h1) x" and ?k = "layer_apply tf (head_key h1) x"
  have hh: "head_headSize h1 = hs" "head_tril h1 = bandPart (ones bs bs) (-1) 0"
    using Head_Inr(2) [OF hd] by simp_all
  have dq: "dim0 ?q = B" "dim1 ?q = T" "dim2 ?q = hs" and dk: "dim0 ?k = B" "dim1 ?k = T" "dim2 ?k = hs"
    using q k by (simp_all add: shape3_def)
  let ?a0 = "mk3 B T T (\<lambda>n i j. \<Sum>l\<leftarrow>[0..<hs]. at3 ?q (bcast_ix B n) i l
                                      * at3 (transpose021 ?k) (bcast_ix B n) l j)"
  have mm: "matMul ?q (transpose021 ?k) = Inr ?a0"
    by (simp add: matMul_def dq dk transpose021_def)
  have "\<exists>tr. slice2 (bandPart (ones bs bs) (-1) 0) (0, 0) (int T, int T) = Inr tr"
    using le by (simp add: slice2_def Let_def bandPart_def ones_def)
  then obtain tr where sl: "slice2 (bandPart (ones bs bs) (-1) 0) (0, 0) (int T, int T) = Inr tr"
    by blast
  have str: "shape0 tr = T" "shape1 tr = T"
    using sl by (auto simp add: slice2_def Let_def bandPart_def ones_def split: if_splits)
  let ?a = "mul_scalar ?a0 (1 / sqrt (real hs))"
  have da: "dim0 ?a = B" "dim1 ?a = T" "dim2 ?a = T"
    by (simp_all add: mul_scalar_mk3)
  have eqsh: "shape0 (equal0 tr) = T" "shape1 (equal0 tr) = T"
    using str by (simp_all add: equal0_def)
  let ?att = "mk3 B T T (\<lambda>n i j.
                 if at2 (equal0 tr) (bcast_ix T i) (bcast_ix T j) then NegInf
                 else Fin (at3 ?a n (bcast_ix (dim1 ?a) i) (bcast_ix (dim2 ?a) j)))"
  have wh: "where3 (equal0 tr) ?a = Inr ?att"
    by (simp add: where3_def da eqsh)
  have sc: "Head_scores tf h1 x = Inr ?att"
    by (simp add: Head_scores_def Let_def mm hh T sl wh)
  have "?att = mk3 B T T (masked_scores hs ?q ?k)"
  proof (rule mk3_cong)
    fix n i j assume b: "n < B" "i < T" "j < T"
    have tr: "at3 (transpose021 ?k) n l j = at3 ?k n j l" if "l < hs" for l
      using that b by (simp add: transpose021_def dk)
    have "(\<Sum>l\<leftarrow>[0..<hs]. at3 ?q n i l * at3 (transpose021 ?k) n l j)
          = (\<Sum>l\<leftarrow>[0..<hs]. at3 ?q n i l * at3 ?k n j l)"
      by (rule sum_list_upt_cong) (simp add: tr)
    moreover have "at3 ?a n i j = (\<Sum>l\<leftarrow>[0..<hs]. at3 ?q n i l * at3 (transpose021 ?k) n l j)
                                   * (1 / sqrt (real hs))"
      using b by (simp add: mul_scalar_mk3 bcast_ix_id)
    ultimately show "(if at2 (equal0 tr) (bcast_ix T i) (bcast_ix T j) then NegInf
                 else Fin (at3 ?a n (bcast_ix (dim1 ?a) i) (bcast_ix (dim2 ?a) j)))
        = masked_scores hs ?q ?k n i j"
      using b mask_entries [OF sl b(2,3)] by (simp add: bcast_ix_id da masked_scores_def)
  qed
  with sc show ?thesis by simp
qed

lemma Head_apply_explicit:
  assumes hd: "Head n_embd hs bs ad name c = (Inr h1, c')"
    and dense: "dense_by_position tf" and drop: "dropout_off tf"
    and x: "wf3 x" and le: "dim1 x \<le> bs"
  shows "Head_scores tf h1 x
         = Inr (mk3 (dim0 x) (dim1 x) (dim1 x)
                  (masked_scores hs (layer_apply tf (head_query h1) x)
                                    (layer_apply tf (head_key h1) x)))"
    and "Head_apply tf h1 x
         = Inr (mk3 (dim0 x) (dim1 x) hs (\<lambda>n i c.
             \<Sum>l\<leftarrow>[0..<dim1 x].
               at3 (softmax3 (mk3 (dim0 x) (dim1 x) (dim1 x)
                      (masked_scores hs (layer_apply tf (head_query h1) x)
                                        (layer_apply tf (head_key h1) x)))) n i l
               * at3 (layer_apply tf (head_value h1) x) n l c))"
proof -
  let ?q = "layer_apply tf (head_query h1) x" and ?k = "layer_apply tf (head_key h1) x"
  let ?v = "layer_apply tf (head_value h1) x"
  let ?att = "mk3 (dim0 x) (dim1 x) (dim1 x) (masked_scores hs ?q ?k)"
  note h = Head_Inr(2) [OF hd]
  have d: "shape3 (layer_apply tf (Dense n u b a) x) (dim0 x) (dim1 x) u" for n u b a
    using dense x by (simp add: dense_by_position_def)
  have q: "shape3 ?q (dim0 x) (dim1 x) hs" and k: "shape3 ?k (dim0 x) (dim1 x) hs"
    and v: "shape3 ?v (dim0 x) (dim1 x) hs"
    using d by (simp_all add: h)
  show sc: "Head_scores tf h1 x = Inr ?att"
    by (rule Head_scores_explicit [OF hd q k refl le])
  have dr: "layer_apply tf (head_drop h1) w = w" for w
    using drop by (simp add: h dropout_off_def)
  have dv: "dim0 ?v = dim0 x" "dim1 ?v = dim1 x" "dim2 ?v = hs"
    using v by (simp_all add: shape3_def)
  have "matMul (softmax3 ?att) ?v
        = Inr (mk3 (dim0 x) (dim1 x) hs (\<lambda>n i c.
             \<Sum>l\<leftarrow>[0..<dim1 x]. at3 (softmax3 ?att) (bcast_ix (dim0 x) n) i l
                                 * at3 ?v (bcast_ix (dim0 x) n) l c))"
    by (simp add: matMul_def dv)
  also have "mk3 (dim0 x) (dim1 x) hs (\<lambda>n i c.
             \<Sum>l\<leftarrow>[0..<dim1 x]. at3 (softmax3 ?att) (bcast_ix (dim0 x) n) i l
                                 * at3 ?v (bcast_ix (dim0 x) n) l c)
        = mk3 (dim0 x) (dim1 x) hs (\<lambda>n i c.
             \<Sum>l\<leftarrow>[0..<dim1 x]. at3 (softmax3 ?att) n i l * at3 ?v n l c)"
    by (rule mk3_cong) (simp add: bcast_ix_id)
  finally show "Head_apply tf h1 x
         = Inr (mk3 (dim0 x) (dim1 x) hs (\<lambda>n i c.
             \<Sum>l\<leftarrow>[0..<dim1 x]. at3 (softmax3 ?att) n i l * at3 ?v n l c))"
    by (simp add: Head_apply_def sc Let_def dr)
qed

lemma masked_weight:
  assumes "k < B" "i < T" "j < T"
  shows "at3 (softmax3 (mk3 B T T f)) k i j = softmax_row (map (\<lambda>j. f k i j) [0..<T]) ! j"
  using assms by (simp add: at3_def row_softmax3_mk3)

lemma masked_weight_zero:
  assumes "k < B" "i < T" "j < T" "i < j"
  shows "at3 (softmax3 (mk3 B T T (masked_scores hs q kk))) k i j = 0"
  using assms by (simp add: masked_weight softmax_row_neginf masked_scores_def)


text \<open>
  C3. Take a head built by \<^verbatim>\<open>Head\<close>, a library whose dense layers work position by
  position and whose dropout is off, and a well-formed input of time length \<open>T\<close> within
  the block size. Then \<^verbatim>\<open>Head.apply\<close> returns, and what it returns is the product of the
  softmax of the masked scores with the values, where the masked scores form a
  \<open>T \<times> T\<close> matrix for every batch entry whose entry at \<open>(i, j)\<close> is \<open>-Infinity\<close> exactly
  when \<open>j > i\<close>, and the softmax gives every such entry the weight zero. So the result
  at position \<open>i\<close> is the sum over the positions \<open>j \<le> i\<close> only, and it does not change
  when the input is changed at later positions: no position attends to a later one.
\<close>

theorem head_attention_is_causal:
  assumes "Head n_embd hs bs ad name c = (Inr h1, c')"
    and "dense_by_position tf" and "dropout_off tf"
    and "wf3 x" and "dim1 x \<le> bs"
  shows "\<exists>att y. Head_scores tf h1 x = Inr att \<and> Head_apply tf h1 x = Inr y
     \<and> matMul (layer_apply tf (head_drop h1) (softmax3 att)) (layer_apply tf (head_value h1) x) = Inr y
     \<and> dim0 att = dim0 x \<and> dim1 att = dim1 x \<and> dim2 att = dim1 x
     \<and> (\<forall>k<dim0 x. \<forall>i<dim1 x. \<forall>j<dim1 x.
           (i < j \<longrightarrow> at3 att k i j = NegInf \<and> at3 (softmax3 att) k i j = 0)
         \<and> (j \<le> i \<longrightarrow> at3 att k i j \<noteq> NegInf))
     \<and> (\<forall>k<dim0 x. \<forall>i<dim1 x. \<forall>c<hs.
           at3 y k i c = (\<Sum>j\<leftarrow>[0..<Suc i]. at3 (softmax3 att) k i j
                                          * at3 (layer_apply tf (head_value h1) x) k j c))
     \<and> (\<forall>x'. wf3 x' \<and> dim0 x' = dim0 x \<and> dim1 x' = dim1 x \<longrightarrow>
           (\<exists>y'. Head_apply tf h1 x' = Inr y'
              \<and> (\<forall>k<dim0 x. \<forall>i<dim1 x.
                    (\<forall>j\<le>i. elems x' ! k ! j = elems x ! k ! j)
                    \<longrightarrow> elems y' ! k ! i = elems y ! k ! i)))"
proof -
  let ?B = "dim0 x" and ?T = "dim1 x"
  let ?q = "\<lambda>x. layer_apply tf (head_query h1) x" and ?k = "\<lambda>x. layer_apply tf (head_key h1) x"
  let ?v = "\<lambda>x. layer_apply tf (head_value h1) x"
  let ?f = "\<lambda>x. masked_scores hs (?q x) (?k x)"
  let ?att = "\<lambda>x. mk3 ?B ?T ?T (?f x)"
  let ?y = "\<lambda>x. mk3 ?B ?T hs (\<lambda>n i c. \<Sum>l\<leftarrow>[0..<?T]. at3 (softmax3 (?att x)) n i l * at3 (?v x) n l c)"
  note h = Head_Inr(2) [OF assms(1)]
  note e = Head_apply_explicit [OF assms(1,2,3)]
  have sc: "Head_scores tf h1 x = Inr (?att x)" and ap: "Head_apply tf h1 x = Inr (?y x)"
    using e [OF assms(4,5)] by simp_all
  have dr: "layer_apply tf (head_drop h1) w = w" for w
    using assms(3) by (simp add: h dropout_off_def)
  have mm: "matMul (layer_apply tf (head_drop h1) (softmax3 (?att x))) (?v x) = Inr (?y x)"
    using ap by (simp add: Head_apply_def sc Let_def)
  have mask: "(i < j \<longrightarrow> at3 (?att x) k i j = NegInf \<and> at3 (softmax3 (?att x)) k i j = 0)
         \<and> (j \<le> i \<longrightarrow> at3 (?att x) k i j \<noteq> NegInf)"
    if "k < ?B" "i < ?T" "j < ?T" for k i j
    using that by (auto simp add: masked_weight_zero) (simp_all add: masked_scores_def)
  have out: "at3 (?y x) k i c = (\<Sum>j\<leftarrow>[0..<Suc i]. at3 (softmax3 (?att x)) k i j * at3 (?v x) k j c)"
    if "k < ?B" "i < ?T" "c < hs" for k i c
  proof -
    have "at3 (?y x) k i c = (\<Sum>l\<leftarrow>[0..<?T]. at3 (softmax3 (?att x)) k i l * at3 (?v x) k l c)"
      using that by simp
    also have "\<dots> = (\<Sum>l\<leftarrow>[0..<Suc i]. at3 (softmax3 (?att x)) k i l * at3 (?v x) k l c)"
      by (rule sum_list_upt_zero_tail) (use that in \<open>simp_all add: masked_weight_zero\<close>)
    finally show ?thesis .
  qed
  have indep: "\<exists>y'. Head_apply tf h1 x' = Inr y'
              \<and> (\<forall>k<?B. \<forall>i<?T. (\<forall>j\<le>i. elems x' ! k ! j = elems x ! k ! j)
                    \<longrightarrow> elems y' ! k ! i = elems (?y x) ! k ! i)"
    if x': "wf3 x' \<and> dim0 x' = ?B \<and> dim1 x' = ?T" for x'
  proof -
    have wf': "wf3 x'" and d': "dim0 x' = ?B" "dim1 x' = ?T" using x' by simp_all
    let ?att' = "mk3 ?B ?T ?T (?f x')"
    let ?y' = "mk3 ?B ?T hs (\<lambda>n i c. \<Sum>l\<leftarrow>[0..<?T]. at3 (softmax3 ?att') n i l * at3 (?v x') n l c)"
    have ap': "Head_apply tf h1 x' = Inr ?y'"
      using e(2) [OF wf'] assms(5) by (simp add: d')
    have rows: "elems ?y' ! k ! i = elems (?y x) ! k ! i"
      if b: "k < ?B" "i < ?T" and agree: "\<forall>j\<le>i. elems x' ! k ! j = elems x ! k ! j" for k i
    proof -
      have dense: "elems (layer_apply tf (Dense n u bb a) x') ! k ! j
                   = elems (layer_apply tf (Dense n u bb a) x) ! k ! j" if "j \<le> i" for n u bb a j
        using assms(2) assms(4) wf' d' b that agree
        unfolding dense_by_position_def by (meson le_less_trans)
      have q: "at3 (?q x') k i l = at3 (?q x) k i l" for l
        by (rule at3_row) (simp add: h dense)
      have kk: "at3 (?k x') k j l = at3 (?k x) k j l" if "j \<le> i" for j l
        by (rule at3_row) (simp add: h dense that)
      have vv: "at3 (?v x') k j l = at3 (?v x) k j l" if "j \<le> i" for j l
        by (rule at3_row) (simp add: h dense that)
      have f: "?f x' k i j = ?f x k i j" for j
        by (cases "i < j") (simp_all add: masked_scores_def q kk)
      have w: "at3 (softmax3 ?att') k i l = at3 (softmax3 (?att x)) k i l" if "l < ?T" for l
        using b that by (simp add: masked_weight f)
      have "(\<Sum>l\<leftarrow>[0..<?T]. at3 (softmax3 ?att') k i l * at3 (?v x') k l c)
            = (\<Sum>l\<leftarrow>[0..<?T]. at3 (softmax3 (?att x)) k i l * at3 (?v x) k l c)" for c
      proof (rule sum_list_upt_cong)
        fix l assume l: "l < ?T"
        show "at3 (softmax3 ?att') k i l * at3 (?v x') k l c
              = at3 (softmax3 (?att x)) k i l * at3 (?v x) k l c"
        proof (cases "l \<le> i")
          case True
          then show ?thesis by (simp add: w l vv)
        next
          case False
          then have "i < l" by simp
          then show ?thesis using b l by (simp add: masked_weight_zero)
        qed
      qed
      then show ?thesis
        using b by (simp add: mk3_def)
    qed
    show ?thesis using ap' rows by blast
  qed
  show ?thesis
    apply (rule exI [of _ "?att x"], rule exI [of _ "?y x"])
    apply (intro conjI allI impI)
    using sc ap mm mask out indep by simp_all
qed


lemma demo_tf_rows_dense: "dense_by_position demo_tf_rows"
  unfolding dense_by_position_def
proof (intro conjI allI impI)
  fix n u b a and x :: "real tensor3"
  show "shape3 (layer_apply demo_tf_rows (Dense n u b a) x) (dim0 x) (dim1 x) u"
    by (simp add: demo_tf_rows_def shape3_def)
next
  fix n u b a k i and x x' :: "real tensor3"
  assume "wf3 x \<and> wf3 x' \<and> dim0 x' = dim0 x \<and> dim1 x' = dim1 x \<and> k < dim0 x \<and> i < dim1 x
         \<and> elems x' ! k ! i = elems x ! k ! i"
  then show "elems (layer_apply demo_tf_rows (Dense n u b a) x') ! k ! i
         = elems (layer_apply demo_tf_rows (Dense n u b a) x) ! k ! i"
    by (simp add: demo_tf_rows_def mk3_def at3_def)
qed

lemma demo_tf_rows_dropout: "dropout_off demo_tf_rows"
  by (simp add: dropout_off_def demo_tf_rows_def)

theorem head_attention_is_causal_witness:
  "dense_by_position demo_tf_rows \<and> dropout_off demo_tf_rows
   \<and> wf3 (demo_x 2) \<and> wf3 (demo_x 5) \<and> demo_x 5 \<noteq> demo_x 2
   \<and> elems (demo_x 5) ! 0 ! 0 = elems (demo_x 2) ! 0 ! 0
   \<and> (\<exists>h1 c' att y y'. Head 1 2 2 0.1 ''head'' [] = (Inr h1, c')
        \<and> Head_scores demo_tf_rows h1 (demo_x 2) = Inr att
        \<and> Head_apply demo_tf_rows h1 (demo_x 2) = Inr y
        \<and> Head_apply demo_tf_rows h1 (demo_x 5) = Inr y'
        \<and> at3 att 0 0 1 = NegInf \<and> at3 (softmax3 att) 0 0 1 = 0 \<and> at3 att 0 1 0 \<noteq> NegInf
        \<and> at3 y 0 0 0 = at3 (softmax3 att) 0 0 0 * 1
        \<and> elems y' ! 0 ! 0 = elems y ! 0 ! 0)"
proof -
  obtain h1 c' where h: "Head 1 2 2 0.1 ''head'' [] = (Inr h1, c')"
    using Head_ok [of 2 1 2 "0.1" "''head''" "[]"] by auto
  have wf: "wf3 (demo_x 2)" "wf3 (demo_x 5)" and ne: "demo_x 5 \<noteq> demo_x 2"
    by (simp_all add: demo_x_def wf3_def)
  have d: "dim1 (demo_x 2) \<le> 2" "dim0 (demo_x 2) = 1" "dim1 (demo_x 2) = 2"
    "dim0 (demo_x 5) = 1" "dim1 (demo_x 5) = 2"
    by (simp_all add: demo_x_def)
  have v: "at3 (layer_apply demo_tf_rows (head_value h1) (demo_x 2)) 0 0 0 = 1"
    by (simp add: Head_Inr(2) [OF h] demo_tf_rows_def demo_x_def) (simp add: at3_def)
  from head_attention_is_causal [OF h demo_tf_rows_dense demo_tf_rows_dropout wf(1) d(1)]
  obtain att y where r: "Head_scores demo_tf_rows h1 (demo_x 2) = Inr att"
    "Head_apply demo_tf_rows h1 (demo_x 2) = Inr y"
    "\<forall>k<dim0 (demo_x 2). \<forall>i<dim1 (demo_x 2). \<forall>j<dim1 (demo_x 2).
           (i < j \<longrightarrow> at3 att k i j = NegInf \<and> at3 (softmax3 att) k i j = 0)
         \<and> (j \<le> i \<longrightarrow> at3 att k i j \<noteq> NegInf)"
    "\<forall>k<dim0 (demo_x 2). \<forall>i<dim1 (demo_x 2). \<forall>c<2.
           at3 y k i c = (\<Sum>j\<leftarrow>[0..<Suc i]. at3 (softmax3 att) k i j
                                          * at3 (layer_apply demo_tf_rows (head_value h1) (demo_x 2)) k j c)"
    "\<forall>x'. wf3 x' \<and> dim0 x' = dim0 (demo_x 2) \<and> dim1 x' = dim1 (demo_x 2) \<longrightarrow>
           (\<exists>y'. Head_apply demo_tf_rows h1 x' = Inr y'
              \<and> (\<forall>k<dim0 (demo_x 2). \<forall>i<dim1 (demo_x 2).
                    (\<forall>j\<le>i. elems x' ! k ! j = elems (demo_x 2) ! k ! j)
                    \<longrightarrow> elems y' ! k ! i = elems y ! k ! i))"
    by blast
  from r(5) wf(2) d obtain y' where y': "Head_apply demo_tf_rows h1 (demo_x 5) = Inr y'"
    "\<forall>k<dim0 (demo_x 2). \<forall>i<dim1 (demo_x 2).
        (\<forall>j\<le>i. elems (demo_x 5) ! k ! j = elems (demo_x 2) ! k ! j)
        \<longrightarrow> elems y' ! k ! i = elems y ! k ! i"
    by (metis (no_types, lifting))
  have a: "elems (demo_x 5) ! 0 ! 0 = elems (demo_x 2) ! 0 ! 0"
    by (simp add: demo_x_def)
  have 1: "at3 att 0 0 1 = NegInf \<and> at3 (softmax3 att) 0 0 1 = 0" "at3 att 0 1 0 \<noteq> NegInf"
    using r(3) d by auto
  have 2: "at3 y 0 0 0 = at3 (softmax3 att) 0 0 0 * 1"
    using r(4) d v by simp
  have 3: "elems y' ! 0 ! 0 = elems y ! 0 ! 0"
    using y'(2) a d by simp
  show ?thesis
    using demo_tf_rows_dense demo_tf_rows_dropout wf ne a h r(1,2) y'(1) 1 2 3 by blast
qed

lemma mk2_cong: "(\<And>i j. i < n0 \<Longrightarrow> j < n1 \<Longrightarrow> f i j = g i j) \<Longrightarrow> mk2 n0 n1 f = mk2 n0 n1 g"
  by (simp add: mk2_def)

lemma tile_range_row: "tile (range_row T) B (Suc 0) = positions B T"
  unfolding tile_def positions_def range_row_def
  by (simp, rule mk2_cong) simp

lemma Block_apply_topology: "Block_apply tf b x = block_topology tf b x"
  by (simp add: Block_apply_def block_topology_def residual_def bind_err_def split: sum.splits)

lemma foldl_bind_Inl: "foldl (\<lambda>r b. bind_err r (g b)) (Inl e) bs = Inl e"
  by (induction bs) simp_all

lemma forEach_block_foldl:
  "foldl (\<lambda>r b. bind_err r (block_topology tf b)) r bs = bind_err r (forEach_block tf bs)"
proof (induction bs arbitrary: r)
  case Nil
  show ?case by (cases r) simp_all
next
  case (Cons b bs)
  show ?case
    by (cases r) (simp_all add: Cons.IH foldl_bind_Inl Block_apply_topology)
qed

lemma forEach_block_sequence: "forEach_block tf bs x = blocks_in_sequence tf bs x"
  by (simp add: blocks_in_sequence_def forEach_block_foldl)

lemma model_apply_topology:
  "shape1 ids = blockSize (params m) \<Longrightarrow> model_apply tf m ids = gpt_topology tf m ids"
  by (simp add: model_apply_def gpt_topology_def Let_def tile_range_row forEach_block_sequence)

lemma array_from_length:
  "array_from ix f c = (Inr xs, c') \<Longrightarrow> length xs = length ix"
proof (induction ix arbitrary: c xs)
  case Nil
  then show ?case by simp
next
  case (Cons i ix)
  then show ?case
    by (auto split: prod.splits sum.splits)
qed

lemma GPT_Inr:
  assumes "GPT p c0 = (Inr m, c')"
  shows "params m = p" "length (h_blocks m) = nLayer p"
    "lmHead m = Dense ''lmHead'' (vocabSize p) False None"
    "lnF m = LayerNormalization ''lnF''"
    "wte m = Embedding ''wte'' (vocabSize p + 1) (nEmbd p) True"
    "wpe m = Embedding ''wpe'' (blockSize p) (nEmbd p) False"
  using assms
  by (auto simp add: GPT_def Let_def bind_made_eq_Inr tf_layers_eq_Inr withModelHelpers_def
      dest: array_from_length)

text \<open>
  C6. For a model built by \<^verbatim>\<open>GPT\<close> and an input of time length \<open>blockSize\<close>, the forward
  pass is the topology above, with \<open>nLayer\<close> blocks and a head without bias of
  \<open>vocabSize\<close> units; so the last axis of the logits has \<open>vocabSize\<close> entries whenever a
  dense layer of the library returns as many entries as it has units.
\<close>

theorem forward_pass_topology:
  assumes "GPT p c0 = (Inr m, c')"
    and "shape1 ids = blockSize p"
    and "\<forall>n u b a x. dim2 (layer_apply tf (Dense n u b a) x) = u"
  shows "model_apply tf m ids = gpt_topology tf m ids
     \<and> length (h_blocks m) = nLayer p
     \<and> lmHead m = Dense ''lmHead'' (vocabSize p) False None
     \<and> (\<forall>logits. model_apply tf m ids = Inr logits \<longrightarrow> dim2 logits = vocabSize p)"
proof (intro conjI allI impI)
  note g = GPT_Inr [OF assms(1)]
  show t: "model_apply tf m ids = gpt_topology tf m ids"
    using assms(2) g(1) by (simp add: model_apply_topology)
  show "length (h_blocks m) = nLayer p" by (rule g)
  show "lmHead m = Dense ''lmHead'' (vocabSize p) False None" by (rule g)
  fix logits assume "model_apply tf m ids = Inr logits"
  then have "gpt_topology tf m ids = Inr logits" using t by simp
  then obtain x where "logits = layer_apply tf (lmHead m) x"
    by (auto simp add: gpt_topology_def bind_err_eq_Inr)
  then show "dim2 logits = vocabSize p"
    using assms(3) g(3) by simp
qed

lemmas build_defs = GPT_def Block_def CausalSelfAttention_def Head_def FeedForward_def
  tf_layers_def bind_made_def withLayerHelpers_def withModelHelpers_def Let_def js_mod_def
  default_to_def
  digit_char_def bandPart_def ones_def mk2_def at2_def upt_rec

lemmas tensor_defs = matMul_def transpose021_def mul_scalar_def
  slice2_def equal0_def where3_def mk2_def mk3_def at2_def at3_def bcast_ix_def
  bcast_dim_def add3_def concat_last2_def softmax3_def softmax_row_def range_row_def tile_def
  upt_rec

lemma demo_model1_built: "fst (GPT demo_params []) = Inr demo_model1"
  by (simp add: demo_model1_def demo_model0_def demo_block_def demo_head_def demo_params_def build_defs)

lemma demo_head_apply:
  assumes "B = 1 \<or> B = 2"
  shows "Head_apply demo_tf (demo_head name) (demo_zeros B 4) = Inr (demo_zeros B 2)"
  using assms
  by (elim disjE)
     (simp_all add: Head_apply_def Head_scores_def demo_head_def demo_tf_def demo_zeros_def Let_def
      tensor_defs)

lemma demo_attention_apply:
  assumes "B = 1 \<or> B = 2"
  shows "CausalSelfAttention_apply demo_tf (block_attn demo_block) (demo_zeros B 4) = Inr (demo_zeros B 4)"
proof -
  have "bind_err (concat_last [demo_zeros B 2, demo_zeros B 2])
          (\<lambda>y0. Inr (layer_apply demo_tf (attn_drop (block_attn demo_block))
                        (layer_apply demo_tf (attn_proj (block_attn demo_block)) y0)))
        = Inr (demo_zeros B 4)"
    using assms
    by (elim disjE) (simp_all add: demo_block_def demo_tf_def demo_zeros_def tensor_defs)
  then show ?thesis
    by (simp add: CausalSelfAttention_apply_def demo_block_def demo_head_apply [OF assms])
qed

lemma demo_add3:
  assumes "B = 1 \<or> B = 2"
  shows "add3 (demo_zeros B 4) (demo_zeros B 4) = Inr (demo_zeros B 4)"
  using assms by (elim disjE) (simp_all add: demo_zeros_def tensor_defs)

lemma demo_block_apply:
  assumes "B = 1 \<or> B = 2"
  shows "Block_apply demo_tf demo_block (demo_zeros B 4) = Inr (demo_zeros B 4)"
proof -
  have ln: "layer_apply demo_tf (block_ln1 demo_block) x = x"
    "layer_apply demo_tf (block_ln2 demo_block) x = x" for x
    by (simp_all add: demo_tf_def demo_block_def)
  have mlp: "FeedForward_apply demo_tf (block_mlp demo_block) (demo_zeros B 4) = demo_zeros B 4"
    by (simp add: FeedForward_apply_def demo_block_def demo_tf_def demo_zeros_def)
  show ?thesis
    by (simp add: Block_apply_def ln demo_attention_apply [OF assms] demo_add3 [OF assms] mlp)
qed

lemma demo_model1_apply:
  assumes "shape1 ids = 2" "shape0 ids = 1 \<or> shape0 ids = 2"
  shows "model_apply demo_tf demo_model1 ids = Inr (demo_logits (shape0 ids))"
proof -
  have m: "blockSize (params demo_model1) = 2" "h_blocks demo_model1 = [demo_block]"
    by (simp_all add: demo_model1_def demo_params_def)
  have emb: "embedding_apply demo_tf (wte demo_model1) ids = demo_zeros (shape0 ids) 4"
    using assms by (simp add: demo_tf_def demo_model1_def demo_model0_def demo_zeros_def)
  have pos: "embedding_apply demo_tf (wpe demo_model1) (tile (range_row (shape1 ids)) (shape0 ids) 1)
             = demo_zeros (shape0 ids) 4"
    using assms
    by (simp add: demo_tf_def demo_model1_def demo_model0_def demo_zeros_def tile_def range_row_def mk2_def)
  have ly: "layer_apply demo_tf (drop_layer demo_model1) x = x"
    "layer_apply demo_tf (lnF demo_model1) x = x" for x
    by (simp_all add: demo_tf_def demo_model1_def demo_model0_def)
  have hd: "layer_apply demo_tf (lmHead demo_model1) (demo_zeros B 4) = demo_logits B" for B
    by (simp add: demo_tf_def demo_model1_def demo_model0_def demo_zeros_def demo_logits_def)
       (rule mk3_cong, simp)
  show ?thesis
    unfolding model_apply_def Let_def m emb pos
    using assms(1) by (simp add: demo_add3 [OF assms(2)] ly hd demo_block_apply [OF assms(2)])
qed

theorem forward_pass_topology_witness:
  "GPT demo_params [] = (Inr demo_model1, snd (GPT demo_params []))
   \<and> shape1 (demo_idx [[1, 2]]) = blockSize demo_params
   \<and> model_apply demo_tf demo_model1 (demo_idx [[1, 2]]) = gpt_topology demo_tf demo_model1 (demo_idx [[1, 2]])
   \<and> model_apply demo_tf demo_model1 (demo_idx [[1, 2]]) = Inr (demo_logits 1)
   \<and> length (h_blocks demo_model1) = 1
   \<and> dim2 (demo_logits 1) = 3"
proof -
  have b: "GPT demo_params [] = (Inr demo_model1, snd (GPT demo_params []))"
    using demo_model1_built by (metis prod.collapse)
  have s: "shape1 (demo_idx [[1, 2]]) = blockSize demo_params"
    by (simp add: demo_idx_def demo_params_def)
  have d: "\<forall>n u b a x. dim2 (layer_apply demo_tf (Dense n u b a) x) = u"
    by (simp add: demo_tf_def)
  have a: "model_apply demo_tf demo_model1 (demo_idx [[1, 2]]) = Inr (demo_logits 1)"
    using demo_model1_apply [of "demo_idx [[1, 2]]"] by (simp add: demo_idx_def)
  from forward_pass_topology [OF b s d] b s a
  show ?thesis by (simp add: demo_params_def)
qed

lemma generate_stepI:
  assumes "idx_shaped (blockSize (params m)) (cur st) = Inr idxShaped"
    and "model_apply tf m idxShaped = Inr logits"
    and "pos = (if i < blockSize (params m) then int i else int (blockSize (params m)) - 1)"
    and "slice_time logits pos = Inr sliced"
    and "scaled = div_scalar sliced (default_to 1.0 (temperature gp))"
    and "top_k_filter (vocabSize (params m)) (topK gp) scaled = Inr lastCharLogits"
    and "sample_next rnd backend (default_to False (doSample gp)) (draws st) lastCharLogits
           (softmax2 lastCharLogits) = Inr (sampled, idxNextSliced, idxNext)"
    and "concat1 (cur st) idxNext = Inr new_idx"
    and "(if on_char then bind_err (first_token idxNext) (\<lambda>t. Inr (emitted st @ [t]))
          else Inr (emitted st)) = Inr em"
  shows "generate_step tf rnd backend m gp on_char i st =
           Inr (\<lparr>it_input = cur st, it_idxShaped = idxShaped, it_logits = logits,
                 it_position = pos, it_sliced = sliced, it_scaled = scaled,
                 it_lastCharLogits = lastCharLogits, it_probs = softmax2 lastCharLogits,
                 it_sampled = sampled, it_idxNextSliced = idxNextSliced,
                 it_idxNext = idxNext, it_output = new_idx\<rparr>,
                \<lparr>cur = new_idx,
                 draws = (if default_to False (doSample gp) then Suc (draws st) else draws st),
                 emitted = em\<rparr>)"
  unfolding generate_step_def Let_def
  by (simp only: assms(3) [symmetric] assms(1) bind_err_Inr assms(2) assms(4) assms(5) [symmetric]
      assms(6) assms(7) prod.case assms(8) assms(9))

lemma demo_logits_rows: "elems (demo_logits (Suc 0)) = [[[1, 3, 2], [1, 3, 2]]]"
  "dim0 (demo_logits B) = B" "dim1 (demo_logits B) = 2" "dim2 (demo_logits B) = 3"
  by (simp_all add: demo_logits_def mk3_def upt_rec)

lemma demo_model1_params:
  "blockSize (params demo_model1) = 2" "vocabSize (params demo_model1) = 3"
  by (simp_all add: demo_model1_def demo_params_def)

lemma demo_step:
  assumes "length input = 2 + k" "i < 2" "drop k input = shaped"
    and "map (\<lambda>v. v / default_to 1 t) [1, 3, 2] = scaled"
    and "top_k_filter 3 tk \<lparr>shape0 = 1, shape1 = 3, vals = [scaled]\<rparr>
         = Inr \<lparr>shape0 = 1, shape1 = 3, vals = [masked]\<rparr>"
  shows "generate_step demo_tf demo_rnd ''cpu'' demo_model1 (demo_gp rows n t tk) False i
           \<lparr>cur = demo_idx [input], draws = c, emitted = []\<rparr>
         = Inr (demo_iteration input shaped (int i) scaled masked (int (c mod 3)),
                \<lparr>cur = demo_idx [input @ [int (c mod 3)]], draws = Suc c, emitted = []\<rparr>)"
proof -
  let ?gp = "demo_gp rows n t tk"
  let ?st = "\<lparr>cur = demo_idx [input], draws = c, emitted = []\<rparr>"
  let ?S = "\<lparr>shape0 = 1, shape1 = 3, vals = [[1, 3, 2]]\<rparr> :: real tensor2"
  let ?C = "\<lparr>shape0 = 1, shape1 = 3, vals = [scaled]\<rparr> :: real tensor2"
  let ?L = "\<lparr>shape0 = 1, shape1 = 3, vals = [masked]\<rparr> :: lv tensor2"
  let ?tok = "demo_idx [[int (c mod 3)]]"
  have ls: "length shaped = 2" using assms(1,3) by auto
  have sh: "idx_shaped (blockSize (params demo_model1)) (cur ?st) = Inr (demo_idx [shaped])"
    using assms ls by (simp add: demo_model1_params idx_shaped_wf2 wf2_def demo_idx_def)
  have ap: "model_apply demo_tf demo_model1 (demo_idx [shaped]) = Inr (demo_logits 1)"
    using ls demo_model1_apply [of "demo_idx [shaped]"] by (auto simp add: demo_idx_def)
  have pos: "int i = (if i < blockSize (params demo_model1) then int i
                      else int (blockSize (params demo_model1)) - 1)"
    using assms(2) by (simp add: demo_model1_params)
  have sl: "slice_time (demo_logits 1) (int i) = Inr ?S"
  proof -
    have "i = 0 \<or> i = 1" using assms(2) by auto
    then show ?thesis
      by (elim disjE) (simp_all add: slice_time_def demo_logits_rows)
  qed
  have sc: "?C = div_scalar ?S (default_to 1.0 (temperature ?gp))"
    using assms(4) by (simp add: div_scalar_def demo_gp_def)
  have tk: "top_k_filter (vocabSize (params demo_model1)) (topK ?gp) ?C = Inr ?L"
    using assms(5) by (simp add: demo_gp_def demo_model1_params)
  have sm: "sample_next demo_rnd ''cpu'' (default_to False (doSample ?gp)) (draws ?st) ?L (softmax2 ?L)
            = Inr (?tok, None, ?tok)"
    by (simp add: sample_next_def demo_gp_def default_to_def multinomial_def dist_rows_def
        softmax2_def mk2_def demo_rnd_def demo_idx_def upt_rec Let_def)
  have cc: "concat1 (cur ?st) ?tok = Inr (demo_idx [input @ [int (c mod 3)]])"
    by (simp add: concat1_def demo_idx_def)
  have em: "(if False then bind_err (first_token ?tok) (\<lambda>t. Inr (emitted ?st @ [t]))
             else Inr (emitted ?st)) = Inr []"
    by simp
  from generate_stepI [OF sh ap pos sl sc tk sm cc em]
  show ?thesis
    by (simp add: demo_iteration_def demo_gp_def default_to_def softmax2_def)
qed

lemma generate_loop_chain:
  "generate_loop tf rnd backend m gp on_char i st its = Inr (st', its')
   \<Longrightarrow> \<exists>new. its' = its @ new \<and> length new = maxNewTokens gp - i
         \<and> map it_input new = butlast (cur st # map it_output new)
         \<and> cur st' = last (cur st # map it_output new)"
proof (induction tf rnd backend m gp on_char i st its rule: generate_loop.induct)
  case (1 tf rnd backend m gp on_char i st its)
  show ?case
  proof (cases "i < maxNewTokens gp")
    case False
    with "1.prems" show ?thesis
      by (simp add: generate_loop.simps [of _ _ _ _ _ _ i])
  next
    case True
    show ?thesis
    proof (cases "generate_step tf rnd backend m gp on_char i st")
      case (Inl e)
      with True "1.prems" show ?thesis
        by (simp add: generate_loop.simps [of _ _ _ _ _ _ i])
    next
      case (Inr r)
      obtain it s1 where r: "r = (it, s1)" by (cases r)
      note stp = generate_step_Inr [OF Inr [unfolded r]]
      from True Inr r "1.prems"
      have loop: "generate_loop tf rnd backend m gp on_char (Suc i) s1 (its @ [it]) = Inr (st', its')"
        by (simp add: generate_loop.simps [of _ _ _ _ _ _ i])
      from "1.IH" [OF True Inr [unfolded r] refl loop]
      obtain new where n: "its' = (its @ [it]) @ new" "length new = maxNewTokens gp - Suc i"
        "map it_input new = butlast (cur s1 # map it_output new)"
        "cur st' = last (cur s1 # map it_output new)" by blast
      have "its' = its @ (it # new)" using n(1) by simp
      moreover have "length (it # new) = maxNewTokens gp - i" using n(2) True by simp
      moreover have "map it_input (it # new) = butlast (cur st # map it_output (it # new))"
        using n(3) stp(1) stp(11) by simp
      moreover have "cur st' = last (cur st # map it_output (it # new))"
        using n(4) stp(11) by simp
      ultimately show ?thesis by blast
    qed
  qed
qed

lemma generate_run_trace:
  assumes "generate_run tf rnd backend m gp on_char = Inr (st, its)"
    and "I 0 \<lparr>cur = idx gp, draws = 0, emitted = []\<rparr>"
    and "\<And>j s it s'. I j s \<Longrightarrow> j < maxNewTokens gp
            \<Longrightarrow> generate_step tf rnd backend m gp on_char j s = Inr (it, s')
            \<Longrightarrow> I (Suc j) s' \<and> Q it"
  shows "length its = maxNewTokens gp" "\<forall>it\<in>set its. Q it"
    "map it_input its = butlast (idx gp # map it_output its)"
    "cur st = last (idx gp # map it_output its)"
proof -
  from generate_loop_Inr [OF assms(1) [unfolded generate_run_def], of I Q] assms(2,3)
  show "length its = maxNewTokens gp" "\<forall>it\<in>set its. Q it" by simp_all
  from generate_loop_chain [OF assms(1) [unfolded generate_run_def]]
  show "map it_input its = butlast (idx gp # map it_output its)"
    "cur st = last (idx gp # map it_output its)" by simp_all
qed

lemma demo_gp_sel [simp]:
  "idx (demo_gp rows n t k) = demo_idx rows" "maxNewTokens (demo_gp rows n t k) = n"
  "temperature (demo_gp rows n t k) = t" "doSample (demo_gp rows n t k) = Some True"
  "topK (demo_gp rows n t k) = k"
  by (simp_all add: demo_gp_def)

lemma demo_generate_plain:
  "generate_run demo_tf demo_rnd ''cpu'' demo_model1 (demo_gp [[5, 6, 7]] 2 None None) False
   = demo_run_plain"
proof -
  let ?gp = "demo_gp [[5, 6, 7]] 2 None None"
  have tk: "top_k_filter 3 None \<lparr>shape0 = 1, shape1 = 3, vals = [[1, 3, 2]]\<rparr>
            = Inr \<lparr>shape0 = 1, shape1 = 3, vals = [[Fin 1, Fin 3, Fin 2]]\<rparr>"
    by (simp add: top_k_filter_def fin2_def)
  have s0: "generate_step demo_tf demo_rnd ''cpu'' demo_model1 ?gp False 0
              \<lparr>cur = demo_idx [[5, 6, 7]], draws = 0, emitted = []\<rparr>
            = Inr (demo_iteration [5, 6, 7] [6, 7] 0 [1, 3, 2] [Fin 1, Fin 3, Fin 2] 0,
                   \<lparr>cur = demo_idx [[5, 6, 7, 0]], draws = 1, emitted = []\<rparr>)"
    using demo_step [of "[5, 6, 7]" 1 0 "[6, 7]" None "[1, 3, 2]" None "[Fin 1, Fin 3, Fin 2]"
        "[[5, 6, 7]]" 2 0] tk
    by (simp add: default_to_def)
  have s1: "generate_step demo_tf demo_rnd ''cpu'' demo_model1 ?gp False (Suc 0)
              \<lparr>cur = demo_idx [[5, 6, 7, 0]], draws = Suc 0, emitted = []\<rparr>
            = Inr (demo_iteration [5, 6, 7, 0] [7, 0] 1 [1, 3, 2] [Fin 1, Fin 3, Fin 2] 1,
                   \<lparr>cur = demo_idx [[5, 6, 7, 0, 1]], draws = 2, emitted = []\<rparr>)"
    using demo_step [of "[5, 6, 7, 0]" 2 1 "[7, 0]" None "[1, 3, 2]" None "[Fin 1, Fin 3, Fin 2]"
        "[[5, 6, 7]]" 2 1] tk
    by (simp add: default_to_def)
  show ?thesis
    unfolding generate_run_def demo_run_plain_def
    using s0 s1
    by (simp add: generate_loop.simps [of _ _ _ _ _ _ 0] generate_loop.simps [of _ _ _ _ _ _ "Suc 0"]
        generate_loop.simps [of _ _ _ _ _ _ "Suc (Suc 0)"])
qed

lemma wf2_concat1:
  "concat1 a b = Inr c \<Longrightarrow> wf2 a \<Longrightarrow> wf2 b \<Longrightarrow> wf2 c"
  by (auto simp add: concat1_def wf2_def list_all_iff split: if_splits dest!: set_zip_leftD set_zip_rightD
      elim!: in_set_zipE)

lemma wf2_slice_time: "slice_time x p = Inr t \<Longrightarrow> wf3 x \<Longrightarrow> wf2 t"
  by (auto simp add: slice_time_def wf2_def wf3_def list_all_iff split: if_splits)

lemma wf2_div_scalar: "wf2 x \<Longrightarrow> wf2 (div_scalar x t)"
  by (simp add: div_scalar_def wf2_def list_all_iff)

lemma wf2_where_neginf: "where_neginf a c = Inr l \<Longrightarrow> wf2 l"
  by (auto simp add: where_neginf_def split: option.splits)

lemma wf2_fin2: "wf2 x \<Longrightarrow> wf2 (fin2 x)"
  by (simp add: fin2_def wf2_def list_all_iff)

lemma wf2_top_k_filter: "top_k_filter v k x = Inr l \<Longrightarrow> wf2 x \<Longrightarrow> wf2 l"
  by (auto simp add: top_k_filter_def bind_err_eq_Inr wf2_fin2
      split: option.splits if_splits dest: wf2_where_neginf)

lemma wf2_softmax2: "wf2 x \<Longrightarrow> wf2 (softmax2 x)"
  by (simp add: softmax2_def softmax_row_def wf2_def list_all_iff)

lemma wf2_argMax_expand: "wf2 p \<Longrightarrow> wf2 (argMax_expand p)"
  by (simp add: argMax_expand_def wf2_def list_all_iff)

lemma wf2_multinomial: "wf2 (multinomial rnd c d n)"
  by (simp add: multinomial_def)

lemma wf2_sample_next:
  "sample_next rnd backend ds c l p = Inr (sampled, sl, nx) \<Longrightarrow> wf2 p \<Longrightarrow> wf2 nx"
  by (auto simp add: sample_next_def Let_def bind_err_eq_Inr wf2_multinomial wf2_argMax_expand
      split: if_splits dest: wf2_slice2 [OF _ wf2_multinomial])

lemma model_apply_logits:
  "model_apply tf m ids = Inr logits \<Longrightarrow> \<exists>x. logits = layer_apply tf (lmHead m) x"
  by (auto simp add: model_apply_def Let_def bind_err_eq_Inr split: if_splits)

lemma generate_step_wf2:
  assumes "generate_step tf rnd backend m gp on_char i st = Inr (it, st')"
    and "\<forall>x. wf3 (layer_apply tf (lmHead m) x)"
    and "wf2 (cur st)"
  shows "wf2 (cur st')"
proof -
  note s = generate_step_Inr [OF assms(1)]
  from model_apply_logits [OF s(3)] assms(2) have "wf3 (it_logits it)" by auto
  then have "wf2 (it_sliced it)" using wf2_slice_time [OF s(5)] by simp
  then have "wf2 (it_scaled it)" by (simp add: s(6) wf2_div_scalar)
  then have "wf2 (it_lastCharLogits it)" using wf2_top_k_filter [OF s(7)] by simp
  then have "wf2 (it_probs it)" by (simp add: s(8) wf2_softmax2)
  then have "wf2 (it_idxNext it)" using wf2_sample_next [OF s(9)] by simp
  then show ?thesis using wf2_concat1 [OF s(10) assms(3)] s(11) by simp
qed

lemma demo_generate_short:
  "generate_run demo_tf demo_rnd ''cpu'' demo_model1 (demo_gp [[6, 7]] 1 None None) False
   = demo_run_short"
proof -
  let ?gp = "demo_gp [[6, 7]] 1 None None"
  have tk: "top_k_filter 3 None \<lparr>shape0 = 1, shape1 = 3, vals = [[1, 3, 2]]\<rparr>
            = Inr \<lparr>shape0 = 1, shape1 = 3, vals = [[Fin 1, Fin 3, Fin 2]]\<rparr>"
    by (simp add: top_k_filter_def fin2_def)
  have s0: "generate_step demo_tf demo_rnd ''cpu'' demo_model1 ?gp False 0
              \<lparr>cur = demo_idx [[6, 7]], draws = 0, emitted = []\<rparr>
            = Inr (demo_iteration [6, 7] [6, 7] 0 [1, 3, 2] [Fin 1, Fin 3, Fin 2] 0,
                   \<lparr>cur = demo_idx [[6, 7, 0]], draws = 1, emitted = []\<rparr>)"
    using demo_step [of "[6, 7]" 0 0 "[6, 7]" None "[1, 3, 2]" None "[Fin 1, Fin 3, Fin 2]"
        "[[6, 7]]" 1 0] tk
    by (simp add: default_to_def)
  show ?thesis
    unfolding generate_run_def demo_run_short_def
    using s0
    by (simp add: generate_loop.simps [of _ _ _ _ _ _ 0] generate_loop.simps [of _ _ _ _ _ _ "Suc 0"])
qed

text \<open>
  C1, as stated, fails once the running sequence is longer than \<open>blockSize\<close>: with
  \<open>blockSize = 2\<close> and the sequence \<open>5, 6, 7\<close>, the model input of the first iteration is
  \<open>6, 7\<close>, without the token \<open>5\<close>.
\<close>

theorem model_input_counterexample:
  "generate_run demo_tf demo_rnd ''cpu'' demo_model1 (demo_gp [[5, 6, 7]] 2 None None) False
     = Inr (\<lparr>cur = demo_idx [[5, 6, 7, 0, 1]], draws = 2, emitted = []\<rparr>,
            [demo_iteration [5, 6, 7] [6, 7] 0 [1, 3, 2] [Fin 1, Fin 3, Fin 2] 0,
             demo_iteration [5, 6, 7, 0] [7, 0] 1 [1, 3, 2] [Fin 1, Fin 3, Fin 2] 1])
   \<and> vals (it_input (demo_iteration [5, 6, 7] [6, 7] 0 [1, 3, 2] [Fin 1, Fin 3, Fin 2] 0))
       = [[5, 6, 7]]
   \<and> vals (it_idxShaped (demo_iteration [5, 6, 7] [6, 7] 0 [1, 3, 2] [Fin 1, Fin 3, Fin 2] 0))
       = [[6, 7]]
   \<and> 5 \<notin> set (concat (vals (it_idxShaped
               (demo_iteration [5, 6, 7] [6, 7] 0 [1, 3, 2] [Fin 1, Fin 3, Fin 2] 0))))"
  using demo_generate_plain
  by (simp add: demo_run_plain_def demo_iteration_def demo_idx_def)

text \<open>
  C1, amended. In a run of \<^verbatim>\<open>generate\<close> that returns, there is one iteration for each
  new token, and every iteration starts from the sequence the one before it produced.
  The logits of an iteration are sliced from what the model returns on the model
  input, which has the time length \<open>blockSize\<close> and holds, in every row, the last
  \<open>min(T, blockSize)\<close> tokens of the running sequence of length \<open>T\<close>, followed by
  \<open>blockSize - T\<close> zeros: the whole running sequence when \<open>T \<le> blockSize\<close>, and its
  end otherwise.
\<close>

theorem model_input_window:
  assumes "generate_run tf rnd backend m gp on_char = Inr (st, its)"
    and "wf2 (idx gp)"
    and "\<forall>x. wf3 (layer_apply tf (lmHead m) x)"
  shows "length its = maxNewTokens gp
     \<and> map it_input its = butlast (idx gp # map it_output its)
     \<and> cur st = last (idx gp # map it_output its)
     \<and> (\<forall>it\<in>set its.
           model_apply tf m (it_idxShaped it) = Inr (it_logits it)
         \<and> slice_time (it_logits it) (it_position it) = Inr (it_sliced it)
         \<and> shape0 (it_idxShaped it) = shape0 (it_input it)
         \<and> shape1 (it_idxShaped it) = blockSize (params m)
         \<and> vals (it_idxShaped it) =
             map (\<lambda>r. drop (shape1 (it_input it) - blockSize (params m)) r
                      @ replicate (blockSize (params m) - shape1 (it_input it)) 0)
               (vals (it_input it))
         \<and> (shape1 (it_input it) \<le> blockSize (params m) \<longrightarrow>
              vals (it_idxShaped it) =
                map (\<lambda>r. r @ replicate (blockSize (params m) - shape1 (it_input it)) 0)
                  (vals (it_input it))))"
proof -
  let ?Q = "\<lambda>it. model_apply tf m (it_idxShaped it) = Inr (it_logits it)
         \<and> slice_time (it_logits it) (it_position it) = Inr (it_sliced it)
         \<and> shape0 (it_idxShaped it) = shape0 (it_input it)
         \<and> shape1 (it_idxShaped it) = blockSize (params m)
         \<and> vals (it_idxShaped it) =
             map (\<lambda>r. drop (shape1 (it_input it) - blockSize (params m)) r
                      @ replicate (blockSize (params m) - shape1 (it_input it)) 0)
               (vals (it_input it))
         \<and> (shape1 (it_input it) \<le> blockSize (params m) \<longrightarrow>
              vals (it_idxShaped it) =
                map (\<lambda>r. r @ replicate (blockSize (params m) - shape1 (it_input it)) 0)
                  (vals (it_input it)))"
  have step: "wf2 (cur s') \<and> ?Q it"
    if w: "wf2 (cur s)" and g: "generate_step tf rnd backend m gp on_char j s = Inr (it, s')"
    for j s it s'
  proof -
    note p = generate_step_Inr [OF g]
    from idx_shaped_wf2 [OF w, of "blockSize (params m)"] p(2)
    have sh: "it_idxShaped it = \<lparr>shape0 = shape0 (cur s), shape1 = blockSize (params m),
                vals = map (\<lambda>r. drop (shape1 (cur s) - blockSize (params m)) r
                              @ replicate (blockSize (params m) - shape1 (cur s)) 0) (vals (cur s))\<rparr>"
      by simp
    have "?Q it"
      using p(3) p(5) by (simp add: sh p(1))
    moreover have "wf2 (cur s')" by (rule generate_step_wf2 [OF g assms(3) w])
    ultimately show ?thesis by simp
  qed
  have i0: "wf2 (cur \<lparr>cur = idx gp, draws = 0, emitted = []\<rparr>)"
    using assms(2) by simp
  note t = generate_run_trace [of tf rnd backend m gp on_char st its "\<lambda>j s. wf2 (cur s)" ?Q,
      OF assms(1) i0 step]
  show ?thesis
    using t(1) t(3) t(4) t(2) by (intro conjI) assumption+
qed

theorem model_input_window_witness:
  "generate_run demo_tf demo_rnd ''cpu'' demo_model1 (demo_gp [[6, 7]] 1 None None) False
     = Inr (\<lparr>cur = demo_idx [[6, 7, 0]], draws = 1, emitted = []\<rparr>,
            [demo_iteration [6, 7] [6, 7] 0 [1, 3, 2] [Fin 1, Fin 3, Fin 2] 0])
   \<and> wf2 (idx (demo_gp [[6, 7]] 1 None None))
   \<and> shape1 (it_input (demo_iteration [6, 7] [6, 7] 0 [1, 3, 2] [Fin 1, Fin 3, Fin 2] 0))
       \<le> blockSize (params demo_model1)
   \<and> vals (it_idxShaped (demo_iteration [6, 7] [6, 7] 0 [1, 3, 2] [Fin 1, Fin 3, Fin 2] 0))
       = map (\<lambda>r. r @ replicate 0 0) [[6, 7]]
   \<and> model_apply demo_tf demo_model1 (demo_idx [[6, 7]]) = Inr (demo_logits 1)"
proof -
  have r: "generate_run demo_tf demo_rnd ''cpu'' demo_model1 (demo_gp [[6, 7]] 1 None None) False
     = Inr (\<lparr>cur = demo_idx [[6, 7, 0]], draws = 1, emitted = []\<rparr>,
            [demo_iteration [6, 7] [6, 7] 0 [1, 3, 2] [Fin 1, Fin 3, Fin 2] 0])"
    using demo_generate_short by (simp add: demo_run_short_def)
  have w: "wf2 (idx (demo_gp [[6, 7]] 1 None None))"
    by (simp add: demo_gp_def demo_idx_def wf2_def)
  have l: "\<forall>x. wf3 (layer_apply demo_tf (lmHead demo_model1) x)"
    by (simp add: demo_tf_def demo_model1_def demo_model0_def)
  from model_input_window [OF r w l] r w
  show ?thesis
    by (simp add: demo_iteration_def demo_idx_def demo_model1_params)
qed

lemma top_k_filter_Some:
  assumes f: "top_k_filter V (Some k) x = Inr l" and k: "0 < k" and w: "wf2 x"
  defines "K \<equiv> nat (min k (int V))"
  shows "1 \<le> K" "K \<le> shape1 x" "shape0 l = shape0 x" "shape1 l = shape1 x" "wf2 l"
    and "\<And>b j. b < shape0 x \<Longrightarrow> j < shape1 x \<Longrightarrow>
           at2 l b j = (if at2 x b j \<ge> kth_largest K (vals x ! b) then Fin (at2 x b j) else NegInf)"
proof -
  from f k obtain vs sm c where
    tv: "topk_values x (min k (int V)) = Inr vs"
    and sl: "slice2 vs (0, int (shape1 vs) - 1) (-1, -1) = Inr sm"
    and ge: "greaterEqual x sm = Inr c"
    and wh: "where_neginf x c = Inr l"
    by (auto simp add: top_k_filter_def bind_err_eq_Inr)
  from tv have kr: "0 \<le> min k (int V)" "min k (int V) \<le> int (shape1 x)"
    and vs: "vs = \<lparr>shape0 = shape0 x, shape1 = K,
                   vals = map (\<lambda>r. take K (rev (sort r))) (vals x)\<rparr>"
    by (auto simp add: topk_values_def K_def split: if_splits)
  from sl vs have K1: "1 \<le> K"
    by (auto simp add: slice2_def Let_def split: if_splits)
  from kr have K2: "K \<le> shape1 x" by (simp add: K_def)
  have len: "length (vals x) = shape0 x" and rows: "\<And>r. r \<in> set (vals x) \<Longrightarrow> length r = shape1 x"
    using w by (simp_all add: wf2_def list_all_iff)
  from sl vs K1 len have sm: "sm = \<lparr>shape0 = shape0 x, shape1 = 1,
       vals = map (\<lambda>r. take 1 (drop (K - 1) (take K (rev (sort r))))) (vals x)\<rparr>"
    by (auto simp add: slice2_def Let_def nat_diff_distrib' split: if_splits)
  have smv: "at2 sm b 0 = kth_largest K (vals x ! b)" if "b < shape0 x" for b
  proof -
    have "length (vals x ! b) = shape1 x" using that len rows by simp
    then have "K - 1 < length (take K (rev (sort (vals x ! b))))"
      using K1 K2 by simp
    then have "take 1 (drop (K - 1) (take K (rev (sort (vals x ! b))))) ! 0
               = take K (rev (sort (vals x ! b))) ! (K - 1)"
      by (simp add: hd_drop_conv_nth take_Suc flip: hd_conv_nth)
    also have "\<dots> = rev (sort (vals x ! b)) ! (K - 1)"
      using K1 by simp
    finally show ?thesis
      using that len by (simp add: sm at2_def kth_largest_def)
  qed
  have sms: "shape0 sm = shape0 x" "shape1 sm = Suc 0"
    by (simp_all add: sm)
  have bd: "bcast_dim (shape1 x) (Suc 0) = Some (shape1 x)"
    by (simp add: bcast_dim_def)
  have c: "c = mk2 (shape0 x) (shape1 x)
        (\<lambda>i j. at2 x (bcast_ix (shape0 x) i) (bcast_ix (shape1 x) j)
                \<ge> at2 sm (bcast_ix (shape0 x) i) (bcast_ix (Suc 0) j))"
    using ge unfolding greaterEqual_def sms bd bcast_dim_same by simp
  from wh have l: "l = mk2 (shape0 x) (shape1 x)
        (\<lambda>i j. if at2 c (bcast_ix (shape0 c) i) (bcast_ix (shape1 c) j)
               then Fin (at2 x (bcast_ix (shape0 x) i) (bcast_ix (shape1 x) j)) else NegInf)"
    unfolding where_neginf_def c by simp
  show "1 \<le> K" "K \<le> shape1 x" by (rule K1, rule K2)
  show "shape0 l = shape0 x" "shape1 l = shape1 x" "wf2 l" by (simp_all add: l)
  show "at2 l b j = (if at2 x b j \<ge> kth_largest K (vals x ! b) then Fin (at2 x b j) else NegInf)"
    if "b < shape0 x" "j < shape1 x" for b j
    using that by (simp add: l c bcast_ix_id smv bcast_ix_def [of "Suc 0"])
qed

lemma at2_softmax2_neginf:
  "wf2 l \<Longrightarrow> b < shape0 l \<Longrightarrow> j < shape1 l \<Longrightarrow> at2 l b j = NegInf \<Longrightarrow> at2 (softmax2 l) b j = 0"
  by (simp add: softmax2_def at2_def wf2_def list_all_length softmax_row_neginf)

lemma generate_step_scaled_wf2:
  assumes "generate_step tf rnd backend m gp on_char i st = Inr (it, st')"
    and "\<forall>x. wf3 (layer_apply tf (lmHead m) x)"
  shows "wf2 (it_scaled it)"
proof -
  note s = generate_step_Inr [OF assms(1)]
  from model_apply_logits [OF s(3)] assms(2) have "wf3 (it_logits it)" by auto
  then have "wf2 (it_sliced it)" using wf2_slice_time [OF s(5)] by simp
  then show ?thesis by (simp add: s(6) wf2_div_scalar)
qed

lemma demo_generate_topk:
  "generate_run demo_tf demo_rnd ''cpu'' demo_model1 (demo_gp [[6, 7]] 1 (Some 2) (Some 2)) False
   = demo_run_topk"
proof -
  let ?gp = "demo_gp [[6, 7]] 1 (Some 2) (Some 2)"
  have tk: "top_k_filter 3 (Some 2) \<lparr>shape0 = 1, shape1 = 3, vals = [[1 / 2, 3 / 2, 1]]\<rparr>
            = Inr \<lparr>shape0 = 1, shape1 = 3, vals = [[NegInf, Fin (3 / 2), Fin 1]]\<rparr>"
    by (simp add: top_k_filter_def topk_values_def slice2_def greaterEqual_def where_neginf_def
        bcast_dim_def bcast_ix_def mk2_def at2_def upt_rec Let_def)
  have s0: "generate_step demo_tf demo_rnd ''cpu'' demo_model1 ?gp False 0
              \<lparr>cur = demo_idx [[6, 7]], draws = 0, emitted = []\<rparr>
            = Inr (demo_iteration [6, 7] [6, 7] 0 [1 / 2, 3 / 2, 1] [NegInf, Fin (3 / 2), Fin 1] 0,
                   \<lparr>cur = demo_idx [[6, 7, 0]], draws = 1, emitted = []\<rparr>)"
    using demo_step [of "[6, 7]" 0 0 "[6, 7]" "Some 2" "[1 / 2, 3 / 2, 1]" "Some 2"
        "[NegInf, Fin (3 / 2), Fin 1]" "[[6, 7]]" 1 0] tk
    by (simp add: default_to_def)
  show ?thesis
    unfolding generate_run_def demo_run_topk_def
    using s0
    by (simp add: generate_loop.simps [of _ _ _ _ _ _ 0] generate_loop.simps [of _ _ _ _ _ _ "Suc 0"])
qed

text \<open>
  C2. In a run of \<^verbatim>\<open>generate\<close> with a positive \<open>topK\<close>, at every iteration the number
  \<open>K = min(topK, vocabSize)\<close> is between 1 and the number of logits, every scaled logit
  strictly below the \<open>K\<close>-th largest of its row is replaced by \<open>-Infinity\<close> and gets the
  probability zero, every other logit is kept, and the sample is drawn from the
  result.
\<close>

theorem top_k_restricts_distribution:
  assumes "generate_run tf rnd backend m gp on_char = Inr (st, its)"
    and "topK gp = Some k" and "0 < k"
    and "\<forall>x. wf3 (layer_apply tf (lmHead m) x)"
  shows "\<forall>it\<in>set its.
       1 \<le> nat (min k (int (vocabSize (params m))))
     \<and> nat (min k (int (vocabSize (params m)))) \<le> shape1 (it_scaled it)
     \<and> shape0 (it_lastCharLogits it) = shape0 (it_scaled it)
     \<and> shape1 (it_lastCharLogits it) = shape1 (it_scaled it)
     \<and> it_probs it = softmax2 (it_lastCharLogits it)
     \<and> (\<exists>c. sample_next rnd backend (default_to False (doSample gp)) c
                (it_lastCharLogits it) (it_probs it)
              = Inr (it_sampled it, it_idxNextSliced it, it_idxNext it))
     \<and> (\<forall>b<shape0 (it_scaled it). \<forall>j<shape1 (it_scaled it).
           (at2 (it_scaled it) b j
              < kth_largest (nat (min k (int (vocabSize (params m))))) (vals (it_scaled it) ! b)
            \<longrightarrow> at2 (it_lastCharLogits it) b j = NegInf \<and> at2 (it_probs it) b j = 0)
         \<and> (kth_largest (nat (min k (int (vocabSize (params m))))) (vals (it_scaled it) ! b)
              \<le> at2 (it_scaled it) b j
            \<longrightarrow> at2 (it_lastCharLogits it) b j = Fin (at2 (it_scaled it) b j)))"
proof -
  let ?K = "nat (min k (int (vocabSize (params m))))"
  let ?Q = "\<lambda>it. 1 \<le> ?K \<and> ?K \<le> shape1 (it_scaled it)
     \<and> shape0 (it_lastCharLogits it) = shape0 (it_scaled it)
     \<and> shape1 (it_lastCharLogits it) = shape1 (it_scaled it)
     \<and> it_probs it = softmax2 (it_lastCharLogits it)
     \<and> (\<exists>c. sample_next rnd backend (default_to False (doSample gp)) c
                (it_lastCharLogits it) (it_probs it)
              = Inr (it_sampled it, it_idxNextSliced it, it_idxNext it))
     \<and> (\<forall>b<shape0 (it_scaled it). \<forall>j<shape1 (it_scaled it).
           (at2 (it_scaled it) b j < kth_largest ?K (vals (it_scaled it) ! b)
            \<longrightarrow> at2 (it_lastCharLogits it) b j = NegInf \<and> at2 (it_probs it) b j = 0)
         \<and> (kth_largest ?K (vals (it_scaled it) ! b) \<le> at2 (it_scaled it) b j
            \<longrightarrow> at2 (it_lastCharLogits it) b j = Fin (at2 (it_scaled it) b j)))"
  have step: "True \<and> ?Q it"
    if g: "generate_step tf rnd backend m gp on_char j s = Inr (it, s')" for j s it s'
  proof -
    note p = generate_step_Inr [OF g]
    have w: "wf2 (it_scaled it)" by (rule generate_step_scaled_wf2 [OF g assms(4)])
    note t = top_k_filter_Some [OF p(7) [unfolded assms(2)] assms(3) w]
    have e: "at2 (it_probs it) b j = 0"
      if "b < shape0 (it_scaled it)" "j < shape1 (it_scaled it)"
        "at2 (it_lastCharLogits it) b j = NegInf" for b j
      using at2_softmax2_neginf [OF t(5), of b j] that t(3,4) p(8) by simp
    have "?Q it"
      using t(1,2,3,4) p(8) p(9) e by (auto simp add: t(6))
    then show ?thesis by (rule conjI [OF TrueI])
  qed
  note r = generate_run_trace [of tf rnd backend m gp on_char st its "\<lambda>j s. True" ?Q,
      OF assms(1) TrueI step]
  show ?thesis by (rule r(2))
qed

theorem top_k_restricts_distribution_witness:
  "generate_run demo_tf demo_rnd ''cpu'' demo_model1 (demo_gp [[6, 7]] 1 (Some 2) (Some 2)) False
     = Inr (\<lparr>cur = demo_idx [[6, 7, 0]], draws = 1, emitted = []\<rparr>,
            [demo_iteration [6, 7] [6, 7] 0 [1 / 2, 3 / 2, 1] [NegInf, Fin (3 / 2), Fin 1] 0])
   \<and> topK (demo_gp [[6, 7]] 1 (Some 2) (Some 2)) = Some 2
   \<and> at2 (it_scaled (demo_iteration [6, 7] [6, 7] 0 [1 / 2, 3 / 2, 1] [NegInf, Fin (3 / 2), Fin 1] 0)) 0 0
       < kth_largest 2 [1 / 2, 3 / 2, 1]
   \<and> at2 (it_lastCharLogits
            (demo_iteration [6, 7] [6, 7] 0 [1 / 2, 3 / 2, 1] [NegInf, Fin (3 / 2), Fin 1] 0)) 0 0
       = NegInf
   \<and> at2 (it_probs
            (demo_iteration [6, 7] [6, 7] 0 [1 / 2, 3 / 2, 1] [NegInf, Fin (3 / 2), Fin 1] 0)) 0 0
       = 0
   \<and> at2 (it_lastCharLogits
            (demo_iteration [6, 7] [6, 7] 0 [1 / 2, 3 / 2, 1] [NegInf, Fin (3 / 2), Fin 1] 0)) 0 2
       = Fin 1"
proof -
  let ?it = "demo_iteration [6, 7] [6, 7] 0 [1 / 2, 3 / 2, 1] [NegInf, Fin (3 / 2), Fin 1] 0"
  have r: "generate_run demo_tf demo_rnd ''cpu'' demo_model1 (demo_gp [[6, 7]] 1 (Some 2) (Some 2)) False
     = Inr (\<lparr>cur = demo_idx [[6, 7, 0]], draws = 1, emitted = []\<rparr>, [?it])"
    using demo_generate_topk by (simp add: demo_run_topk_def)
  have k: "topK (demo_gp [[6, 7]] 1 (Some 2) (Some 2)) = Some 2" "(0::int) < 2"
    by simp_all
  have l: "\<forall>x. wf3 (layer_apply demo_tf (lmHead demo_model1) x)"
    by (simp add: demo_tf_def demo_model1_def demo_model0_def)
  have kl: "kth_largest 2 [1 / 2, 3 / 2, 1] = 1"
    by (simp add: kth_largest_def)
  have sc: "it_scaled ?it = \<lparr>shape0 = 1, shape1 = 3, vals = [[1 / 2, 3 / 2, 1]]\<rparr>"
    by (simp add: demo_iteration_def)
  from top_k_restricts_distribution [OF r k l]
  have "at2 (it_scaled ?it) 0 0 < kth_largest 2 (vals (it_scaled ?it) ! 0)
          \<longrightarrow> at2 (it_lastCharLogits ?it) 0 0 = NegInf \<and> at2 (it_probs ?it) 0 0 = 0"
    and "kth_largest 2 (vals (it_scaled ?it) ! 0) \<le> at2 (it_scaled ?it) 0 2
          \<longrightarrow> at2 (it_lastCharLogits ?it) 0 2 = Fin (at2 (it_scaled ?it) 0 2)"
    by (auto simp add: demo_model1_params sc)
  then show ?thesis
    using r k(1) by (simp add: sc kl at2_def)
qed

lemma generate_loop_positions:
  "generate_loop tf rnd backend m gp on_char i st its = Inr (st', its')
   \<Longrightarrow> \<exists>new. its' = its @ new
         \<and> map it_position new = map (loop_position (blockSize (params m))) [i..<maxNewTokens gp]"
proof (induction tf rnd backend m gp on_char i st its rule: generate_loop.induct)
  case (1 tf rnd backend m gp on_char i st its)
  show ?case
  proof (cases "i < maxNewTokens gp")
    case False
    with "1.prems" show ?thesis
      by (simp add: generate_loop.simps [of _ _ _ _ _ _ i])
  next
    case True
    show ?thesis
    proof (cases "generate_step tf rnd backend m gp on_char i st")
      case (Inl e)
      with True "1.prems" show ?thesis
        by (simp add: generate_loop.simps [of _ _ _ _ _ _ i])
    next
      case (Inr r)
      obtain it s1 where r: "r = (it, s1)" by (cases r)
      note stp = generate_step_Inr [OF Inr [unfolded r]]
      from True Inr r "1.prems"
      have loop: "generate_loop tf rnd backend m gp on_char (Suc i) s1 (its @ [it]) = Inr (st', its')"
        by (simp add: generate_loop.simps [of _ _ _ _ _ _ i])
      from "1.IH" [OF True Inr [unfolded r] refl loop]
      obtain new where n: "its' = (its @ [it]) @ new"
        "map it_position new = map (loop_position (blockSize (params m))) [Suc i..<maxNewTokens gp]"
        by blast
      have "its' = its @ (it # new)" using n(1) by simp
      moreover have "map it_position (it # new)
                     = map (loop_position (blockSize (params m))) [i..<maxNewTokens gp]"
        using n(2) stp(4) True by (simp add: upt_conv_Cons loop_position_def)
      ultimately show ?thesis by blast
    qed
  qed
qed

text \<open>
  In every run that returns, iteration \<open>i\<close> reads the logits at the time position
  \<open>i\<close> (at \<open>blockSize - 1\<close> from \<open>i = blockSize\<close> on) and divides them by the temperature;
  the running sequence then has \<open>T0 + i\<close> tokens, so its last token stands at the
  position \<open>min (T0 + i) blockSize - 1\<close> of the model input. The two positions agree at
  every iteration when the prompt has one token, and differ at iteration \<open>0\<close> for every
  longer prompt that fits the block.
\<close>

lemma generate_scaling:
  assumes "generate_run tf rnd backend m gp on_char = Inr (st, its)"
  shows "map it_position its = map (loop_position (blockSize (params m))) [0..<maxNewTokens gp]"
    and "\<forall>it\<in>set its.
       slice_time (it_logits it) (it_position it) = Inr (it_sliced it)
     \<and> it_scaled it = div_scalar (it_sliced it) (default_to 1.0 (temperature gp))
     \<and> vals (it_scaled it) = map (map (\<lambda>v. v / default_to 1.0 (temperature gp))) (vals (it_sliced it))
     \<and> top_k_filter (vocabSize (params m)) (topK gp) (it_scaled it) = Inr (it_lastCharLogits it)
     \<and> it_probs it = softmax2 (it_lastCharLogits it)
     \<and> (default_to 1.0 (temperature gp) = 1 \<longrightarrow> it_scaled it = it_sliced it)"
proof -
  from generate_loop_positions [OF assms [unfolded generate_run_def]]
  show "map it_position its = map (loop_position (blockSize (params m))) [0..<maxNewTokens gp]"
    by simp
  let ?Q = "\<lambda>it. slice_time (it_logits it) (it_position it) = Inr (it_sliced it)
     \<and> it_scaled it = div_scalar (it_sliced it) (default_to 1.0 (temperature gp))
     \<and> vals (it_scaled it) = map (map (\<lambda>v. v / default_to 1.0 (temperature gp))) (vals (it_sliced it))
     \<and> top_k_filter (vocabSize (params m)) (topK gp) (it_scaled it) = Inr (it_lastCharLogits it)
     \<and> it_probs it = softmax2 (it_lastCharLogits it)
     \<and> (default_to 1.0 (temperature gp) = 1 \<longrightarrow> it_scaled it = it_sliced it)"
  have step: "True \<and> ?Q it"
    if g: "generate_step tf rnd backend m gp on_char j s = Inr (it, s')" for j s it s'
  proof -
    note p = generate_step_Inr [OF g]
    have one: "div_scalar x 1 = x" for x :: "real tensor2"
      by (simp add: div_scalar_def)
    have "?Q it"
      using p(5) p(7) p(8) by (auto simp add: p(6) div_scalar_def one)
    then show ?thesis by (rule conjI [OF TrueI])
  qed
  note r = generate_run_trace [of tf rnd backend m gp on_char st its "\<lambda>j s. True" ?Q,
      OF assms TrueI step]
  show "\<forall>it\<in>set its. ?Q it" by (rule r(2))
qed

lemma loop_position_last:
  assumes "1 \<le> T0" "1 \<le> bs"
  shows "loop_position bs i = int (min (T0 + i) bs) - 1 \<longleftrightarrow> T0 = 1 \<or> bs - 1 \<le> i"
  using assms by (auto simp add: loop_position_def min_def)

lemma demo_tf_pos_layers:
  "n \<noteq> ''lmHead'' \<Longrightarrow> layer_apply demo_tf_pos (Dense n u b a) x = layer_apply demo_tf (Dense n u b a) x"
  "layer_apply demo_tf_pos (Dropout n r) x = layer_apply demo_tf (Dropout n r) x"
  "layer_apply demo_tf_pos (LayerNormalization n) x = layer_apply demo_tf (LayerNormalization n) x"
  "embedding_apply demo_tf_pos = embedding_apply demo_tf"
  by (simp_all add: demo_tf_pos_def)

lemma demo_block_apply_pos: "Block_apply demo_tf_pos demo_block x = Block_apply demo_tf demo_block x"
  by (simp add: Block_apply_def CausalSelfAttention_apply_def Head_apply_def Head_scores_def
      FeedForward_apply_def demo_block_def demo_head_def demo_tf_pos_layers Let_def)

lemma demo_model1_apply_pos:
  assumes "shape1 ids = 2" "shape0 ids = 1"
  shows "model_apply demo_tf_pos demo_model1 ids = Inr demo_logits_pos"
proof -
  have B: "shape0 ids = 1 \<or> shape0 ids = 2" using assms(2) by simp
  have m: "blockSize (params demo_model1) = 2" "h_blocks demo_model1 = [demo_block]"
    by (simp_all add: demo_model1_def demo_params_def)
  have emb: "embedding_apply demo_tf_pos (wte demo_model1) ids = demo_zeros (shape0 ids) 4"
    using assms
    by (simp add: demo_tf_pos_layers demo_tf_def demo_model1_def demo_model0_def demo_zeros_def)
  have pos: "embedding_apply demo_tf_pos (wpe demo_model1) (tile (range_row (shape1 ids)) (shape0 ids) 1)
             = demo_zeros (shape0 ids) 4"
    using assms
    by (simp add: demo_tf_pos_layers demo_tf_def demo_model1_def demo_model0_def demo_zeros_def
        tile_def range_row_def mk2_def)
  have ly: "layer_apply demo_tf_pos (drop_layer demo_model1) x = x"
    "layer_apply demo_tf_pos (lnF demo_model1) x = x" for x
    by (simp_all add: demo_tf_pos_layers demo_tf_def demo_model1_def demo_model0_def)
  have hd: "layer_apply demo_tf_pos (lmHead demo_model1) (demo_zeros (shape0 ids) 4) = demo_logits_pos"
    by (simp add: assms(2) demo_tf_pos_def demo_model1_def demo_model0_def demo_zeros_def
        demo_logits_pos_def mk3_def upt_rec)
  show ?thesis
    unfolding model_apply_def Let_def m emb pos
    using assms(1)
    by (simp add: demo_add3 [OF B] ly hd demo_block_apply_pos demo_block_apply [OF B])
qed

text \<open>
  C5. The division by the temperature is as claimed, but the logits divided are not
  those of the last position. For a prompt of two tokens and a block size of two, the
  model input holds both tokens and the logits have two positions; the first iteration
  reads the logits of position \<open>0\<close> and divides them by the temperature \<open>2\<close>, while the
  logits of the last position, \<open>1\<close>, are others.
\<close>

theorem temperature_scaling_position:
  "\<exists>st it last.
     generate_run demo_tf_pos demo_rnd ''cpu'' demo_model1 (demo_gp [[6, 7]] 1 (Some 2) None) False
       = Inr (st, [it])
     \<and> blockSize (params demo_model1) = 2
     \<and> it_input it = demo_idx [[6, 7]] \<and> it_idxShaped it = demo_idx [[6, 7]]
     \<and> elems (it_logits it) = [[[0, 1, 2], [10, 11, 12]]]
     \<and> it_position it = 0
     \<and> vals (it_sliced it) = [[0, 1, 2]]
     \<and> vals (it_scaled it) = [[0, 1 / 2, 1]]
     \<and> slice_time (it_logits it) 1 = Inr last
     \<and> vals last = [[10, 11, 12]]
     \<and> vals (div_scalar last 2) = [[5, 11 / 2, 6]]
     \<and> cur st = demo_idx [[6, 7, 0]]"
proof -
  let ?gp = "demo_gp [[6, 7]] 1 (Some 2) None"
  let ?st = "\<lparr>cur = demo_idx [[6, 7]], draws = 0, emitted = []\<rparr>"
  let ?S = "\<lparr>shape0 = 1, shape1 = 3, vals = [[0, 1, 2]]\<rparr> :: real tensor2"
  let ?C = "\<lparr>shape0 = 1, shape1 = 3, vals = [[0, 1 / 2, 1]]\<rparr> :: real tensor2"
  let ?tok = "demo_idx [[0]]"
  let ?last = "\<lparr>shape0 = 1, shape1 = 3, vals = [[10, 11, 12]]\<rparr> :: real tensor2"
  have bs: "blockSize (params demo_model1) = 2" "vocabSize (params demo_model1) = 3"
    by (rule demo_model1_params)+
  have sh: "idx_shaped (blockSize (params demo_model1)) (cur ?st) = Inr (demo_idx [[6, 7]])"
    by (simp add: bs idx_shaped_wf2 wf2_def demo_idx_def)
  have ap: "model_apply demo_tf_pos demo_model1 (demo_idx [[6, 7]]) = Inr demo_logits_pos"
    by (rule demo_model1_apply_pos) (simp_all add: demo_idx_def)
  have pos: "(0::int) = (if 0 < blockSize (params demo_model1) then int 0
                         else int (blockSize (params demo_model1)) - 1)"
    by (simp add: bs)
  have sl: "slice_time demo_logits_pos 0 = Inr ?S"
    by (simp add: slice_time_def demo_logits_pos_def)
  have sc: "?C = div_scalar ?S (default_to 1.0 (temperature ?gp))"
    by (simp add: div_scalar_def default_to_def)
  have tk: "top_k_filter (vocabSize (params demo_model1)) (topK ?gp) ?C = Inr (fin2 ?C)"
    by (simp add: top_k_filter_def)
  have sm: "sample_next demo_rnd ''cpu'' (default_to False (doSample ?gp)) (draws ?st) (fin2 ?C)
              (softmax2 (fin2 ?C)) = Inr (?tok, None, ?tok)"
    by (simp add: sample_next_def default_to_def multinomial_def dist_rows_def
        softmax2_def fin2_def mk2_def demo_rnd_def demo_idx_def upt_rec Let_def)
  have cc: "concat1 (cur ?st) ?tok = Inr (demo_idx [[6, 7, 0]])"
    by (simp add: concat1_def demo_idx_def)
  have em: "(if False then bind_err (first_token ?tok) (\<lambda>t. Inr (emitted ?st @ [t]))
             else Inr (emitted ?st)) = Inr []"
    by simp
  note step = generate_stepI [OF sh ap pos sl sc tk sm cc em]
  let ?ST = "\<lparr>cur = demo_idx [[6, 7, 0]], draws = Suc 0, emitted = []\<rparr>"
  let ?IT = "\<lparr>it_input = demo_idx [[6, 7]], it_idxShaped = demo_idx [[6, 7]],
              it_logits = demo_logits_pos, it_position = 0, it_sliced = ?S, it_scaled = ?C,
              it_lastCharLogits = fin2 ?C, it_probs = softmax2 (fin2 ?C),
              it_sampled = ?tok, it_idxNextSliced = None, it_idxNext = ?tok,
              it_output = demo_idx [[6, 7, 0]]\<rparr>"
  have run: "generate_run demo_tf_pos demo_rnd ''cpu'' demo_model1 ?gp False = Inr (?ST, [?IT])"
    unfolding generate_run_def
    using step
    by (simp add: generate_loop.simps [of _ _ _ _ _ _ 0] generate_loop.simps [of _ _ _ _ _ _ "Suc 0"]
        default_to_def)
  have l: "slice_time demo_logits_pos 1 = Inr ?last"
    by (simp add: slice_time_def demo_logits_pos_def)
  have d: "vals (div_scalar ?last 2) = [[5, 11 / 2, 6]]"
    by (simp add: div_scalar_def)
  have e: "elems demo_logits_pos = [[[0, 1, 2], [10, 11, 12]]]"
    by (simp add: demo_logits_pos_def)
  have "generate_run demo_tf_pos demo_rnd ''cpu'' demo_model1 ?gp False = Inr (?ST, [?IT])
     \<and> blockSize (params demo_model1) = 2
     \<and> it_input ?IT = demo_idx [[6, 7]] \<and> it_idxShaped ?IT = demo_idx [[6, 7]]
     \<and> elems (it_logits ?IT) = [[[0, 1, 2], [10, 11, 12]]]
     \<and> it_position ?IT = 0
     \<and> vals (it_sliced ?IT) = [[0, 1, 2]]
     \<and> vals (it_scaled ?IT) = [[0, 1 / 2, 1]]
     \<and> slice_time (it_logits ?IT) 1 = Inr ?last
     \<and> vals ?last = [[10, 11, 12]]
     \<and> vals (div_scalar ?last 2) = [[5, 11 / 2, 6]]
     \<and> cur ?ST = demo_idx [[6, 7, 0]]"
    using run bs(1) l d e by simp
  then show ?thesis by blast
qed



lemma div_scalar_shape [simp]:
  "shape0 (div_scalar x t) = shape0 x" "shape1 (div_scalar x t) = shape1 x"
  by (simp_all add: div_scalar_def)

lemma fin2_shape [simp]: "shape0 (fin2 x) = shape0 x" "shape1 (fin2 x) = shape1 x"
  by (simp_all add: fin2_def)

lemma softmax2_shape [simp]: "shape0 (softmax2 x) = shape0 x" "shape1 (softmax2 x) = shape1 x"
  by (simp_all add: softmax2_def)

lemma bcast_dim_one [simp]: "bcast_dim n (Suc 0) = Some n"
  by (simp add: bcast_dim_def)















lemma sample_next_cases:
  "sample_next rnd ''tensorflow'' True c l p
     = Inr (multinomial rnd c (Logits l) 1, None, multinomial rnd c (Logits l) 1)"
  "backend \<noteq> ''webgpu'' \<Longrightarrow> backend \<noteq> ''tensorflow''
   \<Longrightarrow> sample_next rnd backend True c l p
         = Inr (multinomial rnd c (Probs p) 1, None, multinomial rnd c (Probs p) 1)"
  "shape0 p = 1
   \<Longrightarrow> sample_next rnd ''webgpu'' True c l p
         = Inr (multinomial rnd c (Probs p) 2,
                Some \<lparr>shape0 = 1, shape1 = 1, vals = [[rnd c (Probs p) 0 1]]\<rparr>,
                \<lparr>shape0 = 1, shape1 = 1, vals = [[rnd c (Probs p) 0 1]]\<rparr>)"
  "sample_next rnd backend False c l p = Inr (argMax_expand p, None, argMax_expand p)"
  by (simp_all add: sample_next_def Let_def multinomial_def dist_rows_def slice2_def mk2_def upt_rec)

lemma demo_sample_webgpu2:
  "sample_next demo_rnd ''webgpu'' True 0
     \<lparr>shape0 = 2, shape1 = 3, vals = [[Fin 1, Fin 3, Fin 2], [Fin 1, Fin 3, Fin 2]]\<rparr> demo_probs2
   = Inr (\<lparr>shape0 = 2, shape1 = 2, vals = [[0, 1], [1, 2]]\<rparr>,
          Some \<lparr>shape0 = 1, shape1 = 1, vals = [[1]]\<rparr>,
          \<lparr>shape0 = 1, shape1 = 1, vals = [[1]]\<rparr>)"
  by (simp add: sample_next_def Let_def multinomial_def dist_rows_def slice2_def mk2_def upt_rec
      demo_rnd_def demo_probs2_def softmax2_def)

lemma demo_generate_webgpu2:
  "generate_run demo_tf demo_rnd ''webgpu'' demo_model1 (demo_gp [[6, 7], [8, 9]] 1 None None) False
   = Inl TfShapeError"
proof -
  let ?gp = "demo_gp [[6, 7], [8, 9]] 1 None None"
  let ?st = "\<lparr>cur = demo_idx [[6, 7], [8, 9]], draws = 0, emitted = []\<rparr>"
  let ?S = "\<lparr>shape0 = 2, shape1 = 3, vals = [[1, 3, 2], [1, 3, 2]]\<rparr> :: real tensor2"
  let ?L = "\<lparr>shape0 = 2, shape1 = 3, vals = [[Fin 1, Fin 3, Fin 2], [Fin 1, Fin 3, Fin 2]]\<rparr> :: lv tensor2"
  have sh: "idx_shaped (blockSize (params demo_model1)) (cur ?st) = Inr (demo_idx [[6, 7], [8, 9]])"
    by (simp add: demo_model1_params idx_shaped_wf2 wf2_def demo_idx_def)
  have ap: "model_apply demo_tf demo_model1 (demo_idx [[6, 7], [8, 9]]) = Inr (demo_logits 2)"
    using demo_model1_apply [of "demo_idx [[6, 7], [8, 9]]"]
    by (auto simp add: demo_idx_def numeral_2_eq_2)
  have sl: "slice_time (demo_logits 2) 0 = Inr ?S"
    by (simp add: slice_time_def demo_logits_def mk3_def upt_rec)
  have tk: "top_k_filter 3 None (div_scalar ?S 1) = Inr ?L"
    by (simp add: top_k_filter_def fin2_def div_scalar_def)
  have sm: "sample_next demo_rnd ''webgpu'' True 0 ?L (softmax2 ?L)
            = Inr (\<lparr>shape0 = 2, shape1 = 2, vals = [[0, 1], [1, 2]]\<rparr>,
                   Some \<lparr>shape0 = 1, shape1 = 1, vals = [[1]]\<rparr>,
                   \<lparr>shape0 = 1, shape1 = 1, vals = [[1]]\<rparr>)"
    using demo_sample_webgpu2 by (simp add: demo_probs2_def)
  have cc: "concat1 (demo_idx [[6, 7], [8, 9]]) \<lparr>shape0 = 1, shape1 = 1, vals = [[1]]\<rparr>
            = Inl TfShapeError"
    by (simp add: concat1_def demo_idx_def)
  have "generate_step demo_tf demo_rnd ''webgpu'' demo_model1 ?gp False 0 ?st = Inl TfShapeError"
    unfolding generate_step_def Let_def sh bind_err_Inr ap
    using sl tk sm cc by (simp add: demo_model1_params default_to_def)
  then show ?thesis
    unfolding generate_run_def
    by (simp add: generate_loop.simps [of _ _ _ _ _ _ 0])
qed

text \<open>
  C7 at a batch of two sequences on the \<^verbatim>\<open>webgpu\<close> backend: the two samples are drawn for
  both rows, but the slice \<^verbatim>\<open>[0, 1], [1, 1]\<close> keeps the second sample of the first row
  only, a tensor of the shape \<open>(1, 1)\<close> where the other branches give \<open>(B, 1)\<close>; the
  concatenation with the running sequence is then refused, and \<^verbatim>\<open>generate\<close> raises.
\<close>

theorem webgpu_sampling_batch:
  "sample_next demo_rnd ''webgpu'' True 0
     \<lparr>shape0 = 2, shape1 = 3, vals = [[Fin 1, Fin 3, Fin 2], [Fin 1, Fin 3, Fin 2]]\<rparr> demo_probs2
   = Inr (\<lparr>shape0 = 2, shape1 = 2, vals = [[0, 1], [1, 2]]\<rparr>,
          Some \<lparr>shape0 = 1, shape1 = 1, vals = [[1]]\<rparr>,
          \<lparr>shape0 = 1, shape1 = 1, vals = [[1]]\<rparr>)
   \<and> sample_next demo_rnd ''cpu'' True 0
     \<lparr>shape0 = 2, shape1 = 3, vals = [[Fin 1, Fin 3, Fin 2], [Fin 1, Fin 3, Fin 2]]\<rparr> demo_probs2
   = Inr (\<lparr>shape0 = 2, shape1 = 1, vals = [[0], [1]]\<rparr>, None,
          \<lparr>shape0 = 2, shape1 = 1, vals = [[0], [1]]\<rparr>)
   \<and> generate demo_tf demo_rnd ''webgpu'' demo_model1 (demo_gp [[6, 7], [8, 9]] 1 None None) False
       = Inl TfShapeError"
  using demo_sample_webgpu2 demo_generate_webgpu2
  by (simp add: generate_def sample_next_def Let_def multinomial_def dist_rows_def mk2_def upt_rec
      demo_rnd_def demo_probs2_def softmax2_def)

lemma alloc_record:
  "alloc \<lparr>next_id = n, live = L\<rparr> = (n, \<lparr>next_id = Suc n, live = insert n L\<rparr>)"
  by (simp add: alloc_def)

lemmas mem_defs = iteration_mem_def alloc_record dispose_def Let_def

text \<open>
  C8, as stated, fails: the slice of the running sequence, the first tensor an iteration
  allocates, is bound to no name and is still live after the disposal; and where
  \<open>topK\<close> is set, the scaled logits are still live as well, since the name
  \<^verbatim>\<open>lastCharLogits\<close> is bound to the filtered tensor by then.
\<close>

theorem disposal_counterexample:
  "1 \<notin> live demo_heap
   \<and> 1 \<in> live (snd (iteration_mem False False ''cpu'' 0 demo_heap))
   \<and> 1 \<noteq> hd_idx (fst (iteration_mem False False ''cpu'' 0 demo_heap))
   \<and> hd_scaled (fst (iteration_mem True False ''cpu'' 0 demo_heap)) \<notin> live demo_heap
   \<and> hd_scaled (fst (iteration_mem True False ''cpu'' 0 demo_heap))
       \<in> live (snd (iteration_mem True False ''cpu'' 0 demo_heap))"
  by (simp add: mem_defs demo_heap_def)

text \<open>
  C8, amended. After an iteration, the tensors bound at the call of \<^verbatim>\<open>dispose\<close> to
  \<^verbatim>\<open>idxShaped\<close>, \<^verbatim>\<open>logits\<close>, \<^verbatim>\<open>lastCharLogits\<close>, \<^verbatim>\<open>probs\<close>, \<^verbatim>\<open>sampled\<close>, \<^verbatim>\<open>idxNextSliced\<close>,
  \<^verbatim>\<open>idxNext\<close> and \<^verbatim>\<open>oldIdx\<close> are not live. The live tensors are those that were live
  before, without the previous running sequence, and with the new running sequence
  and the tensors the iteration bound to no name: the slice of the running sequence,
  the padding, the slice of the logits and its squeezed form, the temperature scalar,
  the intermediate of \<^verbatim>\<open>argMax\<close> without sampling, and with \<open>topK\<close> the scaled logits, both
  results of \<^verbatim>\<open>topk\<close>, the threshold, the comparison and the scalar \<open>-Infinity\<close>.
\<close>

theorem disposal_of_named_tensors:
  assumes "\<forall>t\<in>live hp. t < next_id hp" and "ids \<in> live hp"
    and "iteration_mem top_k do_sample backend ids hp = (hs, hp')"
  shows "hd_idxShaped hs \<notin> live hp' \<and> hd_logits hs \<notin> live hp'
     \<and> hd_lastCharLogits hs \<notin> live hp' \<and> hd_probs hs \<notin> live hp'
     \<and> hd_sampled hs \<notin> live hp' \<and> hd_idxNext hs \<notin> live hp'
     \<and> (\<forall>t. hd_idxNextSliced hs = Some t \<longrightarrow> t \<notin> live hp')
     \<and> hd_oldIdx hs = ids \<and> ids \<notin> live hp'
     \<and> hd_idx hs \<in> live hp'
     \<and> live hp' = (live hp - {ids}) \<union> {hd_idx hs} \<union> set (hd_unnamed hs)
     \<and> (\<forall>t\<in>set (hd_unnamed hs). next_id hp \<le> t \<and> t < next_id hp')
     \<and> 5 \<le> length (hd_unnamed hs)
     \<and> (top_k \<longrightarrow> hd_scaled hs \<in> set (hd_unnamed hs))
     \<and> (\<not> top_k \<longrightarrow> hd_scaled hs = hd_lastCharLogits hs)"
proof -
  obtain n L where hp: "hp = \<lparr>next_id = n, live = L\<rparr>" by (cases hp) simp
  have fresh: "ids < n" and mem: "ids \<in> L" using assms(1,2) by (auto simp add: hp)
  have notin: "f \<notin> L" if "n \<le> f" for f
    using assms(1) that by (fastforce simp add: hp)
  from assms(3) have hs: "hs = fst (iteration_mem top_k do_sample backend ids hp)"
    and hp': "hp' = snd (iteration_mem top_k do_sample backend ids hp)"
    by simp_all
  show ?thesis
    unfolding hs hp' hp
    using fresh mem
    by (cases top_k; cases do_sample; cases "backend = ''webgpu''")
       (auto simp add: mem_defs notin insert_Diff_if)
qed

theorem disposal_of_named_tensors_witness:
  "live demo_heap = {0} \<and> next_id demo_heap = 1
   \<and> live (snd (iteration_mem True True ''webgpu'' 0 demo_heap))
       = {1, 2, 5, 6, 7, 8, 9, 10, 11, 12, 13, 18}
   \<and> hd_idx (fst (iteration_mem True True ''webgpu'' 0 demo_heap)) = 18
   \<and> hd_unnamed (fst (iteration_mem True True ''webgpu'' 0 demo_heap))
       = [1, 2, 5, 6, 7, 8, 9, 10, 11, 12, 13]
   \<and> hd_scaled (fst (iteration_mem True True ''webgpu'' 0 demo_heap)) = 8
   \<and> hd_idxNextSliced (fst (iteration_mem True True ''webgpu'' 0 demo_heap)) = Some 17
   \<and> 17 \<notin> live (snd (iteration_mem True True ''webgpu'' 0 demo_heap))"
proof -
  have a: "\<forall>t\<in>live demo_heap. t < next_id demo_heap" "0 \<in> live demo_heap"
    by (simp_all add: demo_heap_def)
  have e: "iteration_mem True True ''webgpu'' 0 demo_heap
           = (fst (iteration_mem True True ''webgpu'' 0 demo_heap),
              snd (iteration_mem True True ''webgpu'' 0 demo_heap))"
    by simp
  have v: "hd_idx (fst (iteration_mem True True ''webgpu'' 0 demo_heap)) = 18"
    "hd_unnamed (fst (iteration_mem True True ''webgpu'' 0 demo_heap))
       = [1, 2, 5, 6, 7, 8, 9, 10, 11, 12, 13]"
    "hd_scaled (fst (iteration_mem True True ''webgpu'' 0 demo_heap)) = 8"
    "hd_idxNextSliced (fst (iteration_mem True True ''webgpu'' 0 demo_heap)) = Some 17"
    by (simp_all add: mem_defs demo_heap_def)
  from disposal_of_named_tensors [OF a e]
  have "live (snd (iteration_mem True True ''webgpu'' 0 demo_heap))
          = (live demo_heap - {0}) \<union> {18} \<union> set [1, 2, 5, 6, 7, 8, 9, 10, 11, 12, 13]"
    and "\<forall>t. Some 17 = Some t \<longrightarrow> t \<notin> live (snd (iteration_mem True True ''webgpu'' 0 demo_heap))"
    unfolding v by blast+
  then show ?thesis
    using a v by (auto simp add: demo_heap_def)
qed

end
